theory Spec2Isabelle
  imports Main
begin

section \<open>Mapping expressions and mapping attributes\<close>

text \<open>
  The storage analysis of \<^verbatim>\<open>storage.cc\<close> manipulates mapping attributes whose
  classes live outside the files at hand.  Their data is modelled here; the operations
  of the mapping algebra that the analysis only calls (composition, inversion, ...) are
  taken as parameters further down.
\<close>

text \<open>
  Modelled from the spec: the type \<^verbatim>\<open>MappingExpr\<close> ("a closed tagged variant:
  dimension-reference, stripe, unstripe, none-placeholder, unknown-placeholder").
  The none placeholder prints as \<^verbatim>\<open>none\<close>, the unknown placeholder as \<^verbatim>\<open>?\<close>.
\<close>

datatype MappingExpr =
    MappingDimExpr nat
  | MappingNoneExpr
  | MappingUnknownExpr
  | MappingStripeExpr MappingExpr "nat list"
  | MappingUnStripeExpr "MappingExpr list" "nat list"

text \<open>
  Modelled from the spec: the type \<^verbatim>\<open>MappingAttr\<close>, "a function from one ordered
  index space to another": the size of the space it is applied from and one expression
  for each dimension of the space it maps to.  A null attribute is \<open>None\<close> of
  \<open>MappingAttr option\<close>.
\<close>

record MappingAttr =
  UseDomainSize :: nat
  Dimensions :: "MappingExpr list"

text \<open>Modelled from the spec: \<^verbatim>\<open>MappingAttr::size\<close>, the number of dimensions mapped to.\<close>

definition MappingSize :: "MappingAttr \<Rightarrow> nat" where
  "MappingSize m = length (Dimensions m)"

text \<open>Modelled from the spec: \<^verbatim>\<open>HasNoneExprs\<close>, some expression contains a none placeholder.\<close>

fun ExprHasNone :: "MappingExpr \<Rightarrow> bool" where
  "ExprHasNone (MappingDimExpr i) = False"
| "ExprHasNone MappingNoneExpr = True"
| "ExprHasNone MappingUnknownExpr = False"
| "ExprHasNone (MappingStripeExpr e fs) = ExprHasNone e"
| "ExprHasNone (MappingUnStripeExpr es fs) = list_ex ExprHasNone es"

definition HasNoneExprs :: "MappingAttr \<Rightarrow> bool" where
  "HasNoneExprs m = list_ex ExprHasNone (Dimensions m)"



text \<open>
  Modelled from the spec: \<^verbatim>\<open>DependencyMask\<close>, the bit vector, one bit for each dimension
  of the use domain, of the dimensions some expression references.
\<close>

fun ExprDims :: "MappingExpr \<Rightarrow> nat list" where
  "ExprDims (MappingDimExpr i) = [i]"
| "ExprDims MappingNoneExpr = []"
| "ExprDims MappingUnknownExpr = []"
| "ExprDims (MappingStripeExpr e fs) = ExprDims e"
| "ExprDims (MappingUnStripeExpr es fs) = concat (map ExprDims es)"

definition DependencyMask :: "MappingAttr \<Rightarrow> bool list" where
  "DependencyMask m =
     map (\<lambda>i. i \<in> set (concat (map ExprDims (Dimensions m)))) [0..<UseDomainSize m]"

text \<open>
  \<^verbatim>\<open>llvm::SmallBitVector\<close>: \<^verbatim>\<open>set_bits()\<close> enumerates the set positions in increasing
  order, \<^verbatim>\<open>find_first()\<close> is the first of them, or \<open>-1\<close>.
\<close>

definition set_bits :: "bool list \<Rightarrow> nat list" where
  "set_bits bv = filter (\<lambda>i. bv ! i) [0..<length bv]"

definition find_first :: "bool list \<Rightarrow> int" where
  "find_first bv = (case set_bits bv of [] \<Rightarrow> -1 | i # _ \<Rightarrow> int i)"

text \<open>Modelled from the spec: \<^verbatim>\<open>AddPrefix\<close>, which adds expressions at the front of a mapping.\<close>

definition AddPrefix :: "MappingAttr \<Rightarrow> MappingExpr list \<Rightarrow> MappingAttr" where
  "AddPrefix m exprs = m\<lparr>Dimensions := exprs @ Dimensions m\<rparr>"

text \<open>Modelled from the spec: \<^verbatim>\<open>GetIdentity\<close>, the identity mapping of a space.\<close>

definition GetIdentity :: "nat \<Rightarrow> MappingAttr" where
  "GetIdentity n = \<lparr>UseDomainSize = n, Dimensions = map MappingDimExpr [0..<n]\<rparr>"

text \<open>
  Modelled from the spec: \<^verbatim>\<open>UnifyUnknownExprs\<close>, the unification \<^verbatim>\<open>MergeLayout\<close> calls.
  The header says "MergeLayout unifies layout by substituting \<^verbatim>\<open>?\<close> expressions only",
  the spec that a set layout "may only be confirmed (equal) or have unknown placeholders
  further refined; any other change is a conflict".  So two expressions unify when they
  are equal up to \<^verbatim>\<open>?\<close> sub-expressions, each \<^verbatim>\<open>?\<close> taking what the other side has
  in its place; two mappings unify when they map between spaces of the same sizes and
  their expressions unify one by one.  A conflict is the null attribute, \<open>None\<close>.
\<close>

fun UnifyUnknownExpr :: "MappingExpr \<Rightarrow> MappingExpr \<Rightarrow> MappingExpr option"
  and UnifyUnknownExprList :: "MappingExpr list \<Rightarrow> MappingExpr list \<Rightarrow> MappingExpr list option"
where
  "UnifyUnknownExpr MappingUnknownExpr y = Some y"
| "UnifyUnknownExpr x MappingUnknownExpr = Some x"
| "UnifyUnknownExpr (MappingDimExpr i) (MappingDimExpr j) =
     (if i = j then Some (MappingDimExpr i) else None)"
| "UnifyUnknownExpr MappingNoneExpr MappingNoneExpr = Some MappingNoneExpr"
| "UnifyUnknownExpr (MappingStripeExpr a fs) (MappingStripeExpr b gs) =
     (if fs = gs then map_option (\<lambda>e. MappingStripeExpr e fs) (UnifyUnknownExpr a b)
      else None)"
| "UnifyUnknownExpr (MappingUnStripeExpr as fs) (MappingUnStripeExpr bs gs) =
     (if fs = gs then map_option (\<lambda>es. MappingUnStripeExpr es fs) (UnifyUnknownExprList as bs)
      else None)"
| "UnifyUnknownExpr x y = None"
| "UnifyUnknownExprList [] [] = Some []"
| "UnifyUnknownExprList (a # as) (b # bs) =
     (case UnifyUnknownExpr a b of
        None \<Rightarrow> None
      | Some e \<Rightarrow> map_option ((#) e) (UnifyUnknownExprList as bs))"
| "UnifyUnknownExprList xs ys = None"

definition UnifyUnknownExprs :: "MappingAttr \<Rightarrow> MappingAttr \<Rightarrow> MappingAttr option" where
  "UnifyUnknownExprs m other =
     (if UseDomainSize m \<noteq> UseDomainSize other then None
      else map_option (\<lambda>es. \<lparr>UseDomainSize = UseDomainSize m, Dimensions = es\<rparr>)
             (UnifyUnknownExprList (Dimensions m) (Dimensions other)))"



section \<open>Value storage\<close>

text \<open>\<^verbatim>\<open>mlir::LogicalResult\<close>.\<close>

datatype LogicalResult = success | failure

text \<open>
  \<^verbatim>\<open>class ValueStorage\<close>: three attributes, each null (\<open>None\<close>) while not yet
  specified.  \<^verbatim>\<open>mlir::StringAttr\<close> values are uniqued, so comparing the pointers compares
  the strings.  The default constructor leaves the three attributes null.
\<close>

record ValueStorage =
  vs_space :: "string option"
  vs_buffer_name :: "string option"
  vs_layout :: "MappingAttr option"

definition ValueStorage_default :: ValueStorage where
  "ValueStorage_default = \<lparr>vs_space = None, vs_buffer_name = None, vs_layout = None\<rparr>"

text \<open>
  The \<^verbatim>\<open>Merge*\<close> methods update the storage in place and return a result: the model
  returns the result and the storage after the call.
\<close>

definition MergeSpace :: "string option \<Rightarrow> ValueStorage \<Rightarrow> LogicalResult \<times> ValueStorage" where
  "MergeSpace new_space s =
     (if new_space = None then (success, s)
      else let s' = (if vs_space s = None then s\<lparr>vs_space := new_space\<rparr> else s)
           in (if vs_space s' = new_space then success else failure, s'))"

definition MergeBufferName :: "string option \<Rightarrow> ValueStorage \<Rightarrow> LogicalResult \<times> ValueStorage" where
  "MergeBufferName new_name s =
     (if new_name = None then (success, s)
      else let s' = (if vs_buffer_name s = None then s\<lparr>vs_buffer_name := new_name\<rparr> else s)
           in (if vs_buffer_name s' = new_name then success else failure, s'))"

definition MergeLayout :: "MappingAttr option \<Rightarrow> ValueStorage \<Rightarrow> LogicalResult \<times> ValueStorage" where
  "MergeLayout new_layout s =
     (case new_layout of
        None \<Rightarrow> (success, s)
      | Some nl \<Rightarrow>
          (case vs_layout s of
             None \<Rightarrow> (success, s\<lparr>vs_layout := Some nl\<rparr>)
           | Some l \<Rightarrow>
               (case UnifyUnknownExprs nl l of
                  None \<Rightarrow> (failure, s)
                | Some nl' \<Rightarrow> (success, s\<lparr>vs_layout := Some nl'\<rparr>))))"

section \<open>The program and the analyses the storage analysis reads\<close>

text \<open>
  An operation is identified by its position in the body of the \<^verbatim>\<open>sair.program\<close>, so
  that \<^verbatim>\<open>a->isBeforeInBlock(b)\<close> is \<open>a < b\<close>; a value is a result of an operation: the
  operation that defines it and its result number.
\<close>

type_synonym Location = nat
type_synonym Type = string
type_synonym Operation = nat
type_synonym Value = "Operation \<times> nat"

definition getDefiningOp :: "Value \<Rightarrow> Operation" where
  "getDefiningOp v = fst v"

definition getResultNumber :: "Value \<Rightarrow> nat" where
  "getResultNumber v = snd v"

definition isBeforeInBlock :: "Operation \<Rightarrow> Operation \<Rightarrow> bool" where
  "isBeforeInBlock a b = (a < b)"

text \<open>\<^verbatim>\<open>struct ValueAccess\<close>: a value and the mapping it is accessed with.\<close>

record ValueAccess =
  va_value :: Value
  va_mapping :: MappingAttr

text \<open>\<^verbatim>\<open>struct LoopNest\<close>, what \<^verbatim>\<open>LoopFusionAnalysis::GetLoopNest\<close> returns.\<close>

record LoopNest =
  ln_domain :: "ValueAccess list"
  domain_to_loops :: MappingAttr

text \<open>\<^verbatim>\<open>class IterationSpace\<close>, what \<^verbatim>\<open>IterationSpaceAnalysis::Get\<close> returns.\<close>

record IterationSpace =
  loop_names :: "string list"
  is_mapping :: MappingAttr
  fully_specified :: bool

text \<open>\<^verbatim>\<open>NamedMappingAttr\<close> and \<^verbatim>\<open>BufferAttr\<close>, the storage annotation of a result.\<close>

record NamedMappingAttr =
  nm_names :: "string list"
  nm_mapping :: MappingAttr

record BufferAttr =
  ba_space :: string
  ba_name :: "string option"
  ba_layout :: "NamedMappingAttr option"

text \<open>What the analysis reads of a \<^verbatim>\<open>FromToMemRefOp\<close> (\<^verbatim>\<open>sair.from_memref\<close>, \<^verbatim>\<open>sair.to_memref\<close>).\<close>

record FromToMemRefOp =
  memref_buffer_name :: string
  MemRefElementType :: Type
  memref_domain_size :: nat
  parallel_domain_size :: nat
  MemRefDefiningOp :: Operation

text \<open>
  What the analysis reads of an operation.  \<open>op_memref\<close> is \<open>None\<close> unless the operation
  is a \<^verbatim>\<open>FromToMemRefOp\<close>; \<open>result_types\<close> are the element types of the results;
  \<open>dependency_mapping op i\<close> is \<^verbatim>\<open>op.shape().Dimension(i).dependency_mapping()\<close>.
\<close>

record Op =
  getLoc :: Location
  isComputeOp :: bool
  op_memref :: "FromToMemRefOp option"
  result_types :: "Type list"
  Storage :: "nat \<Rightarrow> BufferAttr option"
  op_domain :: "Value list"
  dependency_mapping :: "nat \<Rightarrow> MappingAttr"
  ValueOperands :: "ValueAccess list"

text \<open>
  The program: its operations in order and, for each value, its uses (the using
  operation and the position of the operand among that operation's value operands,
  in the order of \<^verbatim>\<open>getUses\<close>).
\<close>

record Program =
  num_ops :: nat
  ops :: "Operation \<Rightarrow> Op"
  getUses :: "Value \<Rightarrow> (Operation \<times> nat) list"

definition getUsers :: "Program \<Rightarrow> Value \<Rightarrow> Operation list" where
  "getUsers prog v = map fst (getUses prog v)"

definition getNumResults :: "Program \<Rightarrow> Operation \<Rightarrow> nat" where
  "getNumResults prog op = length (result_types (ops prog op))"

text \<open>A diagnostic: where it is emitted, the pieces streamed into it, the attached note.\<close>

datatype Piece = Str string | Name "string option" | Layout "MappingAttr option"

record Diagnostic =
  diag_loc :: Location
  diag_message :: "Piece list"
  diag_note :: "(Location \<times> string) option"

definition emitError :: "Location \<Rightarrow> Piece list \<Rightarrow> Diagnostic" where
  "emitError l msg = \<lparr>diag_loc = l, diag_message = msg, diag_note = None\<rparr>"

definition attachNote :: "Location \<Rightarrow> string \<Rightarrow> Diagnostic \<Rightarrow> Diagnostic" where
  "attachNote l msg d = d\<lparr>diag_note := Some (l, msg)\<rparr>"

text \<open>
  The outcome of a function that returns \<^verbatim>\<open>mlir::LogicalResult\<close> and emits a diagnostic
  when it fails.  A function that updates the analysis in place returns the state after
  the call with its outcome.  A failed \<^verbatim>\<open>assert\<close> or an access out of range stops the
  program: such a function returns \<open>None\<close> there.
\<close>

datatype Outcome = Succeeded | Failed Diagnostic

text \<open>
  The operations of the mapping algebra that the analysis calls and that are defined
  outside the files at hand, as parameters.  \<open>Compose alg a b\<close> is \<^verbatim>\<open>a.Compose(b)\<close>,
  and so on.  \<open>UnificationConstraints\<close> returns the constraints it updated, or \<open>None\<close>
  when it fails; \<open>ResolveUnificationConstraint\<close> returns the constraint and the domain
  it updated, or the diagnostic it emitted; \<open>AccessedShape alg e n inv\<close> is
  \<^verbatim>\<open>e.AccessedShape(HyperRectangular(n).Dimensions(), inv).dependency_mapping()\<close>.
\<close>

record MappingAlgebra =
  Compose :: "MappingAttr \<Rightarrow> MappingAttr \<Rightarrow> MappingAttr"
  Inverse :: "MappingAttr \<Rightarrow> MappingAttr"
  Canonicalize :: "MappingAttr \<Rightarrow> MappingAttr"
  Unify :: "MappingAttr \<Rightarrow> MappingAttr \<Rightarrow> MappingAttr"
  ResizeUseDomain :: "MappingAttr \<Rightarrow> nat \<Rightarrow> MappingAttr"
  Resize :: "MappingAttr \<Rightarrow> nat \<Rightarrow> MappingAttr"
  ShiftRight :: "MappingAttr \<Rightarrow> nat \<Rightarrow> MappingAttr"
  MakeSurjective :: "MappingAttr \<Rightarrow> MappingAttr"
  DropFront :: "MappingAttr \<Rightarrow> nat \<Rightarrow> MappingAttr"
  MinDomainSize :: "MappingAttr \<Rightarrow> nat"
  AccessedShape :: "MappingExpr \<Rightarrow> nat \<Rightarrow> MappingAttr \<Rightarrow> MappingAttr"
  UnificationConstraints ::
    "MappingExpr \<Rightarrow> MappingExpr \<Rightarrow> MappingExpr list \<Rightarrow> MappingExpr list option"
  ResolveUnificationConstraint ::
    "Location \<Rightarrow> Piece list \<Rightarrow> ValueAccess \<Rightarrow> MappingExpr \<Rightarrow> ValueAccess list
       \<Rightarrow> Diagnostic + (MappingExpr \<times> ValueAccess list)"

text \<open>The loop fusion analysis and the iteration space analysis, as parameters.\<close>

record Analyses =
  GetLoopNest :: "string list \<Rightarrow> LoopNest"
  GetIterationSpace :: "Operation \<Rightarrow> IterationSpace"
  TranslateMapping :: "Operation \<Rightarrow> Operation \<Rightarrow> MappingAttr \<Rightarrow> MappingAttr option"

text \<open>
  Modelled from the spec: \<^verbatim>\<open>IterationSpace::NumCommonLoops\<close>, the number of leading
  loops that the loop names of the iteration space share with another list of loop names.
\<close>

fun CommonPrefixLength :: "string list \<Rightarrow> string list \<Rightarrow> nat" where
  "CommonPrefixLength (x # xs) (y # ys) = (if x = y then Suc (CommonPrefixLength xs ys) else 0)"
| "CommonPrefixLength xs ys = 0"

definition NumCommonLoops :: "IterationSpace \<Rightarrow> string list \<Rightarrow> nat" where
  "NumCommonLoops iter_space other = CommonPrefixLength (loop_names iter_space) other"

section \<open>Buffers\<close>

text \<open>
  \<^verbatim>\<open>class Buffer\<close> as \<^verbatim>\<open>storage.cc\<close> uses it; each field \<open>buf_x\<close> is the member \<^verbatim>\<open>x_\<close>.
  \<open>buf_import_op\<close> is \<open>None\<close> for a buffer that no \<^verbatim>\<open>FromToMemRefOp\<close> declares.
\<close>

record Buffer =
  buf_loc :: Location
  buf_element_type :: Type
  buf_loop_nest :: "string list"
  buf_domain :: "ValueAccess list"
  buf_layout :: "MappingAttr option"
  buf_import_op :: "Operation option"
  buf_writes :: "(Operation \<times> nat) list"
  buf_reads :: "(Operation \<times> nat) list"
  buf_values :: "Value list"

text \<open>The two constructors.\<close>

definition Buffer_new ::
  "MappingAlgebra \<Rightarrow> Location \<Rightarrow> Type \<Rightarrow> string list \<Rightarrow> LoopNest \<Rightarrow> Buffer" where
  "Buffer_new alg l ty names ln =
     \<lparr>buf_loc = l, buf_element_type = ty, buf_loop_nest = names,
      buf_domain = map (\<lambda>access. \<lparr>va_value = va_value access,
                               va_mapping = ResizeUseDomain alg (va_mapping access) (length names)\<rparr>)
                 (ln_domain ln),
      buf_layout = None, buf_import_op = None, buf_writes = [], buf_reads = [], buf_values = []\<rparr>"

definition Buffer_import ::
  "MappingAlgebra \<Rightarrow> Program \<Rightarrow> Operation \<Rightarrow> FromToMemRefOp \<Rightarrow> string list \<Rightarrow> LoopNest \<Rightarrow> Buffer"
  where
  "Buffer_import alg prog op m names ln =
     (Buffer_new alg (getLoc (ops prog op)) (MemRefElementType m) names ln)
       \<lparr>buf_import_op := Some op\<rparr>"

definition is_external :: "Buffer \<Rightarrow> bool" where
  "is_external b = (buf_import_op b \<noteq> None)"

definition rank :: "Buffer \<Rightarrow> nat option" where
  "rank b = (case buf_layout b of Some l \<Rightarrow> Some (MappingSize l) | None \<Rightarrow> None)"

text \<open>
  \<^verbatim>\<open>SmallBitVector::operator|=\<close> resizes the vector to the longer of the two.
\<close>

definition bv_or :: "bool list \<Rightarrow> bool list \<Rightarrow> bool list" where
  "bv_or a b =
     map (\<lambda>i. (i < length a \<and> a ! i) \<or> (i < length b \<and> b ! i)) [0..<max (length a) (length b)]"

definition isDimExpr :: "MappingExpr \<Rightarrow> bool" where
  "isDimExpr e = (case e of MappingDimExpr i \<Rightarrow> True | _ \<Rightarrow> False)"

text \<open>
  The loop of \<^verbatim>\<open>SetLoopNest\<close> over the preserved dimensions: it fills the renaming and
  the new domain.
\<close>

fun TrimDomain ::
  "MappingAlgebra \<Rightarrow> nat \<Rightarrow> ValueAccess list \<Rightarrow> nat list
     \<Rightarrow> MappingExpr list \<times> ValueAccess list \<Rightarrow> MappingExpr list \<times> ValueAccess list" where
  "TrimDomain alg new_size old_domain [] (renaming, new_domain) = (renaming, new_domain)"
| "TrimDomain alg new_size old_domain (dim # dims) (renaming, new_domain) =
     (if isDimExpr (renaming ! dim) then TrimDomain alg new_size old_domain dims (renaming, new_domain)
      else TrimDomain alg new_size old_domain dims
             (renaming[dim := MappingDimExpr (length new_domain)],
              new_domain @ [\<lparr>va_value = va_value (old_domain ! dim),
                       va_mapping = ResizeUseDomain alg (va_mapping (old_domain ! dim)) new_size\<rparr>]))"

text \<open>
  \<^verbatim>\<open>Buffer::SetLoopNest\<close>.  The result is \<open>None\<close> where the source stops: at the
  \<^verbatim>\<open>assert\<close>, where \<^verbatim>\<open>preserved_dims.set(0, n)\<close> is given more bits than the vector
  has, and where a preserved dimension is not a position of the domain.
\<close>

definition SetLoopNest :: "MappingAlgebra \<Rightarrow> LoopNest \<Rightarrow> Buffer \<Rightarrow> Buffer option" where
  "SetLoopNest alg ln b =
     (let new_size = MappingSize (domain_to_loops ln) in
      if new_size = length (buf_loop_nest b) then Some b
      else if \<not> new_size \<le> length (buf_loop_nest b) then None
      else
        let b1 = b\<lparr>buf_loop_nest := take new_size (buf_loop_nest b)\<rparr> in
        if buf_domain b = [] then Some b1
        else if length (buf_domain b) < length (ln_domain ln) then None
        else
          let preserved0 = map (\<lambda>i. i < length (ln_domain ln)) [0..<length (buf_domain b)];
              preserved_dims = (case buf_layout b of
                                  Some l \<Rightarrow> bv_or preserved0 (DependencyMask l)
                                | None \<Rightarrow> preserved0)
          in
          if list_ex (\<lambda>dim. length (buf_domain b) \<le> dim) (set_bits preserved_dims) then None
          else
            let (renaming, new_domain) =
                  TrimDomain alg new_size (buf_domain b) (set_bits preserved_dims)
                    (replicate (length (buf_domain b)) MappingNoneExpr, [])
            in Some (b1\<lparr>buf_domain := new_domain,
                        buf_layout :=
                          (case buf_layout b of
                             Some l \<Rightarrow>
                               Some (Compose alg \<lparr>UseDomainSize = length new_domain, Dimensions = renaming\<rparr> l)
                           | None \<Rightarrow> None)\<rparr>))"

text \<open>\<^verbatim>\<open>Buffer::UnifyLayout\<close>.\<close>

definition UnifyLayout :: "MappingAlgebra \<Rightarrow> MappingAttr \<Rightarrow> Buffer \<Rightarrow> Buffer" where
  "UnifyLayout alg layout b =
     (case buf_layout b of
        None \<Rightarrow> b\<lparr>buf_layout := Some layout\<rparr>
      | Some l \<Rightarrow> b\<lparr>buf_layout := Some (Unify alg l layout)\<rparr>)"

text \<open>\<^verbatim>\<open>Buffer::AddValue\<close>.\<close>

definition AddValue :: "Program \<Rightarrow> Value \<Rightarrow> Buffer \<Rightarrow> Buffer" where
  "AddValue prog v b =
     (let b1 = b\<lparr>buf_values := buf_values b @ [v]\<rparr>;
          b2 = (if isComputeOp (ops prog (getDefiningOp v))
                then b1\<lparr>buf_writes := buf_writes b1 @ [(getDefiningOp v, getResultNumber v)]\<rparr>
                else b1)
      in b2\<lparr>buf_reads := buf_reads b2 @ filter (\<lambda>use. isComputeOp (ops prog (fst use))) (getUses prog v)\<rparr>)"

text \<open>
  \<^verbatim>\<open>Buffer::AddNonePrefixToLayout\<close>; \<open>None\<close> at its two \<^verbatim>\<open>assert\<close>s, that the layout
  is set and that the number of new dimensions, an \<^verbatim>\<open>int\<close>, is not negative.
\<close>

definition AddNonePrefixToLayout :: "int \<Rightarrow> Buffer \<Rightarrow> Buffer option" where
  "AddNonePrefixToLayout num_new_dims b =
     (case buf_layout b of
        None \<Rightarrow> None
      | Some l \<Rightarrow>
          if num_new_dims < 0 then None
          else Some (b\<lparr>buf_layout :=
                         Some (AddPrefix l (replicate (nat num_new_dims) MappingNoneExpr))\<rparr>))"

text \<open>\<^verbatim>\<open>Buffer::AppendToDomain\<close>.\<close>

definition AppendToDomain :: "MappingAlgebra \<Rightarrow> ValueAccess list \<Rightarrow> Buffer \<Rightarrow> Buffer" where
  "AppendToDomain alg new_values b =
     (let b1 = b\<lparr>buf_domain := buf_domain b @ new_values\<rparr> in
      case buf_layout b1 of
        Some l \<Rightarrow> b1\<lparr>buf_layout := Some (ResizeUseDomain alg l (length (buf_domain b1)))\<rparr>
      | None \<Rightarrow> b1)"

text \<open>\<^verbatim>\<open>BufferInstanceLayout\<close>.\<close>

definition BufferInstanceLayout :: "Analyses \<Rightarrow> Buffer \<Rightarrow> MappingAttr option" where
  "BufferInstanceLayout an b =
     (case buf_layout b of
        None \<Rightarrow> None
      | Some l \<Rightarrow> Some (AddPrefix l (Dimensions (domain_to_loops (GetLoopNest an (buf_loop_nest b))))))"

text \<open>
  \<^verbatim>\<open>TrimBufferLoopNestForAccess\<close>.  \<^verbatim>\<open>take_front(n)\<close> of an array shorter than \<open>n\<close> is
  the whole array, as \<open>take\<close> is.
\<close>

definition TrimBufferLoopNestForAccess ::
  "MappingAlgebra \<Rightarrow> Analyses \<Rightarrow> IterationSpace \<Rightarrow> MappingAttr option \<Rightarrow> Buffer \<Rightarrow> Buffer option"
  where
  "TrimBufferLoopNestForAccess alg an iter_space layout b =
     (let max_loop_nest0 = NumCommonLoops iter_space (buf_loop_nest b);
          max_loop_nest =
            (case layout of
               None \<Rightarrow> max_loop_nest0
             | Some l \<Rightarrow>
                 let first_indexed_loop = find_first (DependencyMask l) in
                 if 0 \<le> first_indexed_loop \<and> first_indexed_loop < int max_loop_nest0
                 then nat first_indexed_loop else max_loop_nest0);
          new_loop_nest = GetLoopNest an (take max_loop_nest (loop_names iter_space))
      in SetLoopNest alg new_loop_nest b)"

section \<open>Declaring buffers\<close>

text \<open>
  The buffer table, \<^verbatim>\<open>llvm::DenseMap<mlir::Attribute, Buffer>\<close>, as an association list
  with one entry for each name.  The list's order stands for the order in which the
  table is iterated, which the source leaves to the hash table; a new entry is put last.
  \<open>find\<close> is \<open>map_of\<close>; a buffer reached through a reference and updated in place is
  written back with \<open>assign\<close>.
\<close>

type_synonym BufferMap = "(string \<times> Buffer) list"

definition try_emplace :: "string \<Rightarrow> Buffer \<Rightarrow> BufferMap \<Rightarrow> BufferMap \<times> bool" where
  "try_emplace name b buffer_map =
     (case map_of buffer_map name of
        None \<Rightarrow> (buffer_map @ [(name, b)], True)
      | Some _ \<Rightarrow> (buffer_map, False))"

fun assign :: "string \<Rightarrow> Buffer \<Rightarrow> BufferMap \<Rightarrow> BufferMap" where
  "assign name b [] = []"
| "assign name b ((k, v) # rest) =
     (if k = name then (k, b) # rest else (k, v) # assign name b rest)"

text \<open>\<^verbatim>\<open>llvm::find\<close> followed by \<^verbatim>\<open>std::distance\<close>: the first position of an element.\<close>

fun IndexOf :: "'a \<Rightarrow> 'a list \<Rightarrow> nat option" where
  "IndexOf x [] = None"
| "IndexOf x (y # ys) = (if x = y then Some 0 else map_option Suc (IndexOf x ys))"

text \<open>
  The loop of \<^verbatim>\<open>GetBufferLayout\<close> over the names of the layout, from position \<open>index\<close>
  on; it stops (\<open>None\<close>) at the \<^verbatim>\<open>assert\<close> that the loop is one of the iteration space
  and where the position is outside the vector of expressions.
\<close>

fun IndexedLoops :: "string list \<Rightarrow> nat \<Rightarrow> string list \<Rightarrow> MappingExpr list \<Rightarrow> MappingExpr list option"
  where
  "IndexedLoops iter_loops index [] exprs = Some exprs"
| "IndexedLoops iter_loops index (name # names) exprs =
     (case IndexOf name iter_loops of
        None \<Rightarrow> None
      | Some pos \<Rightarrow>
          if length exprs \<le> index then None
          else IndexedLoops iter_loops (Suc index) names (exprs[index := MappingDimExpr pos]))"

text \<open>
  \<^verbatim>\<open>GetBufferLayout\<close>: the layout of the annotation as a mapping from the iteration
  space of the operation; \<open>Some None\<close> is the null attribute it returns for an annotation
  without layout.
\<close>

definition GetBufferLayout ::
  "MappingAlgebra \<Rightarrow> Analyses \<Rightarrow> Operation \<Rightarrow> BufferAttr \<Rightarrow> MappingAttr option option" where
  "GetBufferLayout alg an op buffer =
     (case ba_layout buffer of
        None \<Rightarrow> Some None
      | Some named \<Rightarrow>
          let iter_space = GetIterationSpace an op;
              mapping = nm_mapping named
          in case IndexedLoops (loop_names iter_space) 0 (nm_names named)
                    (replicate (UseDomainSize mapping) MappingNoneExpr) of
               None \<Rightarrow> None
             | Some loops_to_indexed_loops_exprs \<Rightarrow>
                 Some (Some (Compose alg
                         \<lparr>UseDomainSize = MappingSize (is_mapping iter_space),
                          Dimensions = loops_to_indexed_loops_exprs\<rparr> mapping)))"

text \<open>The first loop of \<^verbatim>\<open>UnifyBufferShape\<close>, over the zipped old and new layout.\<close>

fun ComputeConstraints ::
  "MappingAlgebra \<Rightarrow> (MappingExpr \<times> MappingExpr) list \<Rightarrow> MappingExpr list \<Rightarrow> MappingExpr list option"
  where
  "ComputeConstraints alg [] constraints = Some constraints"
| "ComputeConstraints alg ((old_expr, new_expr) # rest) constraints =
     (case UnificationConstraints alg new_expr old_expr constraints of
        None \<Rightarrow> None
      | Some constraints' \<Rightarrow> ComputeConstraints alg rest constraints')"

text \<open>
  The second loop of \<^verbatim>\<open>UnifyBufferShape\<close>, over the dimensions the layout indexes.
  \<open>None\<close> where \<^verbatim>\<open>op.domain()\<close> or the vector of constraints is read out of range.
\<close>

fun ResolveConstraints ::
  "MappingAlgebra \<Rightarrow> Program \<Rightarrow> Operation \<Rightarrow> Piece list \<Rightarrow> IterationSpace \<Rightarrow> LoopNest \<Rightarrow> nat
     \<Rightarrow> nat list \<Rightarrow> MappingExpr list \<times> ValueAccess list
     \<Rightarrow> (Diagnostic + MappingExpr list \<times> ValueAccess list) option" where
  "ResolveConstraints alg prog op origin op_iter_space op_loop_nest num_loops []
     (constraints, new_domain) = Some (Inr (constraints, new_domain))"
| "ResolveConstraints alg prog op origin op_iter_space op_loop_nest num_loops (dimension # dims)
     (constraints, new_domain) =
     (let shift = length (ln_domain op_loop_nest);
          domain_of_op = op_domain (ops prog op)
      in
      if shift \<le> dimension \<and> length domain_of_op \<le> dimension - shift then None
      else if length constraints \<le> dimension then None
      else
        let dim_access0 =
              (if dimension < shift then ln_domain op_loop_nest ! dimension
               else \<lparr>va_value = domain_of_op ! (dimension - shift),
                     va_mapping =
                       Compose alg (Inverse alg (is_mapping op_iter_space))
                         (ResizeUseDomain alg (dependency_mapping (ops prog op) (dimension - shift))
                            (length domain_of_op))\<rparr>);
            dim_access =
              dim_access0\<lparr>va_mapping := ResizeUseDomain alg (va_mapping dim_access0) num_loops\<rparr>
        in case ResolveUnificationConstraint alg (getLoc (ops prog op)) origin dim_access
                  (constraints ! dimension) new_domain of
             Inl diag \<Rightarrow> Some (Inl diag)
           | Inr (constraint, new_domain') \<Rightarrow>
               ResolveConstraints alg prog op origin op_iter_space op_loop_nest num_loops dims
                 (constraints[dimension := constraint], new_domain'))"

text \<open>
  \<^verbatim>\<open>UnifyBufferShape\<close>.  \<open>None\<close> where \<^verbatim>\<open>drop_front\<close> is given more elements than the
  array has, where the constraints of the buffer loop nest do not fit the vector, and
  where a loop stops.  A failure leaves the buffer as it was.
\<close>

definition UnifyBufferShape ::
  "MappingAlgebra \<Rightarrow> Analyses \<Rightarrow> Program \<Rightarrow> string \<Rightarrow> Operation \<Rightarrow> MappingAttr \<Rightarrow> IterationSpace
     \<Rightarrow> Buffer \<Rightarrow> (Outcome \<times> Buffer) option" where
  "UnifyBufferShape alg an prog buffer_name op layout op_iter_space buffer =
     (let op_loop_nest = GetLoopNest an (loop_names op_iter_space);
          buffer_loop_nest = GetLoopNest an (buf_loop_nest buffer);
          shift = length (ln_domain op_loop_nest);
          concat_domain_size = shift + length (op_domain (ops prog op));
          shifted = Dimensions (ShiftRight alg (is_mapping op_iter_space) shift)
      in
      if length shifted < MappingSize (domain_to_loops op_loop_nest) then None
      else
        let concat_exprs = Dimensions (domain_to_loops op_loop_nest)
                             @ drop (MappingSize (domain_to_loops op_loop_nest)) shifted;
            concat_domains = \<lparr>UseDomainSize = concat_domain_size, Dimensions = concat_exprs\<rparr>;
            concat_domains_to_layout = Canonicalize alg (Compose alg concat_domains layout);
            e = length (ln_domain buffer_loop_nest)
        in
        if concat_domain_size < e then None
        else
          let constraints0 = map MappingDimExpr [0..<e]
                               @ replicate (concat_domain_size - e) MappingNoneExpr
          in
          case (case buf_layout buffer of
                  Some old \<Rightarrow>
                    ComputeConstraints alg
                      (zip (Dimensions old) (Dimensions concat_domains_to_layout)) constraints0
                | None \<Rightarrow> Some constraints0) of
            None \<Rightarrow>
              Some (Failed (emitError (getLoc (ops prog op))
                      [Str ''buffer '', Name (Some buffer_name),
                       Str '' layout is incompatible with previous occurences'']), buffer)
          | Some constraints1 \<Rightarrow>
              (case ResolveConstraints alg prog op [Str ''buffer '', Name (Some buffer_name)]
                      op_iter_space op_loop_nest (length (buf_loop_nest buffer))
                      (set_bits (DependencyMask concat_domains_to_layout))
                      (constraints1, buf_domain buffer) of
                 None \<Rightarrow> None
               | Some (Inl diag) \<Rightarrow> Some (Failed diag, buffer)
               | Some (Inr (constraints, new_domain)) \<Rightarrow>
                   if length new_domain < length (buf_domain buffer) then None
                   else
                     let buffer1 = AppendToDomain alg
                                     (drop (length (buf_domain buffer)) new_domain) buffer;
                         renaming = \<lparr>UseDomainSize = length (buf_domain buffer1),
                                     Dimensions = constraints\<rparr>
                     in Some (Succeeded,
                              UnifyLayout alg (Compose alg renaming concat_domains_to_layout)
                                buffer1)))"

text \<open>
  The two diagnostics of \<^verbatim>\<open>DeclareBuffer\<close>, emitted at the operation with a note at
  the location of the buffer.
\<close>

definition ElementTypeConflict :: "Location \<Rightarrow> string \<Rightarrow> Location \<Rightarrow> Diagnostic" where
  "ElementTypeConflict at name previous =
     attachNote previous ''previous occurence here''
       (emitError at
          [Str ''buffer '', Name (Some name),
           Str '' has different element type than in previous occurence''])"

definition RankConflict :: "Location \<Rightarrow> string \<Rightarrow> Location \<Rightarrow> Diagnostic" where
  "RankConflict at name previous =
     attachNote previous ''previous occurence here''
       (emitError at
          [Str ''buffer '', Name (Some name), Str '' rank differs from previous occurence''])"

text \<open>
  \<^verbatim>\<open>DeclareBuffer\<close>.  \<open>None\<close> where the operation has no result of that number and
  where a function it calls stops.
\<close>

definition DeclareBuffer ::
  "MappingAlgebra \<Rightarrow> Analyses \<Rightarrow> Program \<Rightarrow> Operation \<Rightarrow> nat \<Rightarrow> BufferAttr option \<Rightarrow> BufferMap
     \<Rightarrow> (Outcome \<times> BufferMap) option" where
  "DeclareBuffer alg an prog op result attr buffer_map =
     (case attr of
        None \<Rightarrow> Some (Succeeded, buffer_map)
      | Some a \<Rightarrow>
     (case ba_name a of
        None \<Rightarrow> Some (Succeeded, buffer_map)
      | Some name \<Rightarrow>
          if length (result_types (ops prog op)) \<le> result then None
          else
            let element_type = result_types (ops prog op) ! result;
                iter_space = GetIterationSpace an op;
                loop_nest = GetLoopNest an (loop_names iter_space);
                buffer_map1 = fst (try_emplace name
                                (Buffer_new alg (getLoc (ops prog op)) element_type
                                   (loop_names iter_space) loop_nest) buffer_map)
            in
            case map_of buffer_map1 name of
              None \<Rightarrow> None
            | Some buffer \<Rightarrow>
                if buf_element_type buffer \<noteq> element_type then
                  Some (Failed (ElementTypeConflict (getLoc (ops prog op)) name (buf_loc buffer)),
                        buffer_map1)
                else
                  (case GetBufferLayout alg an op a of
                     None \<Rightarrow> None
                   | Some layout \<Rightarrow>
                       if rank buffer \<noteq> None \<and> layout \<noteq> None
                          \<and> rank buffer \<noteq> map_option MappingSize layout then
                         Some (Failed (RankConflict (getLoc (ops prog op)) name (buf_loc buffer)),
                               buffer_map1)
                       else
                         (case TrimBufferLoopNestForAccess alg an iter_space layout buffer of
                            None \<Rightarrow> None
                          | Some buffer1 \<Rightarrow>
                              (case layout of
                                 None \<Rightarrow> Some (Succeeded, assign name buffer1 buffer_map1)
                               | Some l \<Rightarrow>
                                   (case UnifyBufferShape alg an prog name op l iter_space
                                           buffer1 of
                                      None \<Rightarrow> None
                                    | Some (outcome, buffer2) \<Rightarrow>
                                        Some (outcome, assign name buffer2 buffer_map1)))))))"

text \<open>
  The body of the first walk of \<^verbatim>\<open>DeclareBuffers\<close>, for one \<^verbatim>\<open>FromToMemRefOp\<close>.
\<close>

definition DeclareExternalBuffer ::
  "MappingAlgebra \<Rightarrow> Analyses \<Rightarrow> Program \<Rightarrow> Operation \<Rightarrow> FromToMemRefOp \<Rightarrow> BufferMap
     \<Rightarrow> (Outcome \<times> BufferMap) option" where
  "DeclareExternalBuffer alg an prog op m buffers =
     (let name = memref_buffer_name m;
          iter_space = GetIterationSpace an op;
          loop_nest = GetLoopNest an (loop_names iter_space);
          (buffers1, was_inserted) =
            try_emplace name (Buffer_import alg prog op m (loop_names iter_space) loop_nest) buffers
      in
      if \<not> was_inserted then
        Some (Failed (emitError (getLoc (ops prog op)) [Str ''buffer name is already used'']),
              buffers1)
      else
        let domain_to_layout = ShiftRight alg (GetIdentity (memref_domain_size m))
                                 (parallel_domain_size m);
            layout = Compose alg (Inverse alg (is_mapping iter_space)) domain_to_layout
        in case map_of buffers1 name of
             None \<Rightarrow> None
           | Some buffer \<Rightarrow>
               (case UnifyBufferShape alg an prog name op layout iter_space buffer of
                  None \<Rightarrow> None
                | Some (outcome, buffer1) \<Rightarrow> Some (outcome, assign name buffer1 buffers1)))"

text \<open>The two walks: they visit the operations in program order and stop at a failure.\<close>

fun DeclareExternalBuffers ::
  "MappingAlgebra \<Rightarrow> Analyses \<Rightarrow> Program \<Rightarrow> Operation list \<Rightarrow> BufferMap
     \<Rightarrow> (Outcome \<times> BufferMap) option" where
  "DeclareExternalBuffers alg an prog [] buffers = Some (Succeeded, buffers)"
| "DeclareExternalBuffers alg an prog (op # rest) buffers =
     (case op_memref (ops prog op) of
        None \<Rightarrow> DeclareExternalBuffers alg an prog rest buffers
      | Some m \<Rightarrow>
          (case DeclareExternalBuffer alg an prog op m buffers of
             None \<Rightarrow> None
           | Some (Failed diag, buffers1) \<Rightarrow> Some (Failed diag, buffers1)
           | Some (Succeeded, buffers1) \<Rightarrow> DeclareExternalBuffers alg an prog rest buffers1))"

fun DeclareResults ::
  "MappingAlgebra \<Rightarrow> Analyses \<Rightarrow> Program \<Rightarrow> Operation \<Rightarrow> nat list \<Rightarrow> BufferMap
     \<Rightarrow> (Outcome \<times> BufferMap) option" where
  "DeclareResults alg an prog op [] buffers = Some (Succeeded, buffers)"
| "DeclareResults alg an prog op (i # rest) buffers =
     (case DeclareBuffer alg an prog op i (Storage (ops prog op) i) buffers of
        None \<Rightarrow> None
      | Some (Failed diag, buffers1) \<Rightarrow> Some (Failed diag, buffers1)
      | Some (Succeeded, buffers1) \<Rightarrow> DeclareResults alg an prog op rest buffers1)"

fun DeclareInternalBuffers ::
  "MappingAlgebra \<Rightarrow> Analyses \<Rightarrow> Program \<Rightarrow> Operation list \<Rightarrow> BufferMap
     \<Rightarrow> (Outcome \<times> BufferMap) option" where
  "DeclareInternalBuffers alg an prog [] buffers = Some (Succeeded, buffers)"
| "DeclareInternalBuffers alg an prog (op # rest) buffers =
     (if \<not> isComputeOp (ops prog op) then DeclareInternalBuffers alg an prog rest buffers
      else
        case DeclareResults alg an prog op [0..<getNumResults prog op] buffers of
          None \<Rightarrow> None
        | Some (Failed diag, buffers1) \<Rightarrow> Some (Failed diag, buffers1)
        | Some (Succeeded, buffers1) \<Rightarrow> DeclareInternalBuffers alg an prog rest buffers1)"

text \<open>The last loop of \<^verbatim>\<open>DeclareBuffers\<close>: every layout is fully specified.\<close>

fun CheckLayoutsFullySpecified :: "BufferMap \<Rightarrow> Outcome" where
  "CheckLayoutsFullySpecified [] = Succeeded"
| "CheckLayoutsFullySpecified ((name, buffer) # rest) =
     (case buf_layout buffer of
        None \<Rightarrow> CheckLayoutsFullySpecified rest
      | Some l \<Rightarrow>
          if HasNoneExprs l then
            Failed (emitError (buf_loc buffer)
                      [Str ''buffer '', Name (Some name), Str '' layout is not fully specified''])
          else CheckLayoutsFullySpecified rest)"

text \<open>\<^verbatim>\<open>DeclareBuffers\<close>.\<close>

definition DeclareBuffers ::
  "MappingAlgebra \<Rightarrow> Analyses \<Rightarrow> Program \<Rightarrow> BufferMap \<Rightarrow> (Outcome \<times> BufferMap) option" where
  "DeclareBuffers alg an prog buffers =
     (case DeclareExternalBuffers alg an prog [0..<num_ops prog] buffers of
        None \<Rightarrow> None
      | Some (Failed diag, buffers1) \<Rightarrow> Some (Failed diag, buffers1)
      | Some (Succeeded, buffers1) \<Rightarrow>
          (case DeclareInternalBuffers alg an prog [0..<num_ops prog] buffers1 of
             None \<Rightarrow> None
           | Some (Failed diag, buffers2) \<Rightarrow> Some (Failed diag, buffers2)
           | Some (Succeeded, buffers2) \<Rightarrow> Some (CheckLayoutsFullySpecified buffers2, buffers2)))"

section \<open>Updating the storage of a value\<close>

text \<open>
  \<^verbatim>\<open>ValueStorage::AddUnknownPrefixToLayout\<close>; \<open>None\<close> at its two \<^verbatim>\<open>assert\<close>s, that
  the layout is set and that the number of new dimensions, an \<^verbatim>\<open>int\<close>, is not negative.
\<close>

definition AddUnknownPrefixToLayout :: "int \<Rightarrow> ValueStorage \<Rightarrow> ValueStorage option" where
  "AddUnknownPrefixToLayout num_new_dims s =
     (case vs_layout s of
        None \<Rightarrow> None
      | Some l \<Rightarrow>
          if num_new_dims < 0 then None
          else Some (s\<lparr>vs_layout :=
                         Some (AddPrefix l (replicate (nat num_new_dims) MappingUnknownExpr))\<rparr>))"

text \<open>The loop of \<^verbatim>\<open>UpdateStorage\<close> over the users of the value.\<close>

fun TrimForUsers ::
  "MappingAlgebra \<Rightarrow> Analyses \<Rightarrow> Operation list \<Rightarrow> Buffer \<Rightarrow> Buffer option" where
  "TrimForUsers alg an [] buffer = Some buffer"
| "TrimForUsers alg an (user # rest) buffer =
     (case TrimBufferLoopNestForAccess alg an (GetIterationSpace an user) None buffer of
        None \<Rightarrow> None
      | Some buffer1 \<Rightarrow> TrimForUsers alg an rest buffer1)"

text \<open>
  The first part of \<^verbatim>\<open>UpdateStorage\<close>: a value that gets a buffer name is registered
  in the buffer, whose loop nest is trimmed.  \<open>None\<close> where the table has no buffer of
  that name and where \<^verbatim>\<open>SetLoopNest\<close> stops.
\<close>

definition RegisterBufferUse ::
  "MappingAlgebra \<Rightarrow> Analyses \<Rightarrow> Program \<Rightarrow> Value \<Rightarrow> ValueStorage \<Rightarrow> ValueStorage \<Rightarrow> BufferMap
     \<Rightarrow> BufferMap option" where
  "RegisterBufferUse alg an prog v new_storage storage buffers =
     (case vs_buffer_name new_storage of
        None \<Rightarrow> Some buffers
      | Some name \<Rightarrow>
          if vs_buffer_name storage \<noteq> None then Some buffers
          else
            (case map_of buffers name of
               None \<Rightarrow> None
             | Some buffer \<Rightarrow>
                 (case TrimBufferLoopNestForAccess alg an
                         (GetIterationSpace an (getDefiningOp v)) None (AddValue prog v buffer) of
                    None \<Rightarrow> None
                  | Some buffer1 \<Rightarrow>
                      (case TrimForUsers alg an (getUsers prog v) buffer1 of
                         None \<Rightarrow> None
                       | Some buffer2 \<Rightarrow> Some (assign name buffer2 buffers)))))"

text \<open>
  \<^verbatim>\<open>UpdateStorage\<close>: the outcome, the storage and the buffer table after the call.
\<close>

definition UpdateStorage ::
  "MappingAlgebra \<Rightarrow> Analyses \<Rightarrow> Program \<Rightarrow> Value \<Rightarrow> ValueStorage \<Rightarrow> ValueStorage \<Rightarrow> BufferMap
     \<Rightarrow> (Outcome \<times> ValueStorage \<times> BufferMap) option" where
  "UpdateStorage alg an prog v new_storage storage buffers =
     (case RegisterBufferUse alg an prog v new_storage storage buffers of
        None \<Rightarrow> None
      | Some buffers1 \<Rightarrow>
          let at = getLoc (ops prog (getDefiningOp v)) in
          case MergeSpace (vs_space new_storage) storage of
            (failure, s1) \<Rightarrow>
              Some (Failed (emitError at
                      [Str ''conflicting memory spaces: expected '', Name (vs_space new_storage),
                       Str '', got '', Name (vs_space s1)]), s1, buffers1)
          | (success, s1) \<Rightarrow>
              (case MergeBufferName (vs_buffer_name new_storage) s1 of
                 (failure, s2) \<Rightarrow>
                   Some (Failed (emitError at
                           [Str ''conflicting buffer names: expected '',
                            Name (vs_buffer_name new_storage),
                            Str '', got '', Name (vs_buffer_name s2)]), s2, buffers1)
               | (success, s2) \<Rightarrow>
                   (case MergeLayout (vs_layout new_storage) s2 of
                      (failure, s3) \<Rightarrow>
                        Some (Failed (emitError at
                                [Str ''conflicting layouts: expected '',
                                 Layout (vs_layout new_storage),
                                 Str '', got '', Layout (vs_layout s3)]), s3, buffers1)
                    | (success, s3) \<Rightarrow> Some (Succeeded, s3, buffers1))))"

text \<open>
  The table of value storages, \<^verbatim>\<open>llvm::DenseMap<mlir::Value, ValueStorage>\<close>.
  \<^verbatim>\<open>GetStorage\<close> reads an entry that must be there.
\<close>

type_synonym ValueStorages = "Value \<Rightarrow> ValueStorage option"

text \<open>
  The loop of \<^verbatim>\<open>AddDimensionsToBuffer\<close> over the values of the buffer.
\<close>

fun AddUnknownPrefixToValues :: "int \<Rightarrow> Value list \<Rightarrow> ValueStorages \<Rightarrow> ValueStorages option" where
  "AddUnknownPrefixToValues n [] storages = Some storages"
| "AddUnknownPrefixToValues n (v # rest) storages =
     (case storages v of
        None \<Rightarrow> None
      | Some storage \<Rightarrow>
          (case AddUnknownPrefixToLayout n storage of
             None \<Rightarrow> None
           | Some storage1 \<Rightarrow> AddUnknownPrefixToValues n rest (storages(v \<mapsto> storage1))))"

text \<open>
  \<^verbatim>\<open>StorageAnalysis::AddDimensionsToBuffer\<close>.  \<open>None\<close> at each \<^verbatim>\<open>assert\<close>, where
  \<^verbatim>\<open>AssertSuccess\<close> is given a failure and where the table has no buffer of that name.
\<close>

definition AddDimensionsToBuffer ::
  "MappingAlgebra \<Rightarrow> Analyses \<Rightarrow> Program \<Rightarrow> string \<Rightarrow> Operation \<Rightarrow> IterationSpace \<Rightarrow> MappingAttr
     \<Rightarrow> BufferMap \<times> ValueStorages \<Rightarrow> (BufferMap \<times> ValueStorages) option" where
  "AddDimensionsToBuffer alg an prog buffer_name op op_iter_space new_layout st =
     (case map_of (fst st) buffer_name of
        None \<Rightarrow> None
      | Some buffer \<Rightarrow>
          (case buf_layout buffer of
             None \<Rightarrow> None
           | Some old_layout \<Rightarrow>
               if MappingSize new_layout < MappingSize old_layout \<or> is_external buffer then None
               else
                 (case TrimBufferLoopNestForAccess alg an op_iter_space (Some new_layout) buffer of
                    None \<Rightarrow> None
                  | Some buffer1 \<Rightarrow>
                      (case rank buffer1 of
                         None \<Rightarrow> None
                       | Some old_size \<Rightarrow>
                           (case AddNonePrefixToLayout
                                   (int (MappingSize new_layout) - int old_size) buffer1 of
                              None \<Rightarrow> None
                            | Some buffer2 \<Rightarrow>
                                (case UnifyBufferShape alg an prog buffer_name op new_layout
                                        op_iter_space buffer2 of
                                   Some (Succeeded, buffer3) \<Rightarrow>
                                     (case AddUnknownPrefixToValues
                                             (int (MappingSize new_layout) - int old_size)
                                             (buf_values buffer3) (snd st) of
                                        None \<Rightarrow> None
                                      | Some storages1 \<Rightarrow>
                                          Some (assign buffer_name buffer3 (fst st), storages1))
                                 | _ \<Rightarrow> None))))))"

section \<open>Verifying and minimizing the loop nests of buffers\<close>

text \<open>The first loop of \<^verbatim>\<open>CheckMallocInsertionPoint\<close>: the first operation that writes.\<close>

fun FirstWrite :: "Operation \<Rightarrow> (Operation \<times> nat) list \<Rightarrow> Operation" where
  "FirstWrite first_write [] = first_write"
| "FirstWrite first_write (p # rest) =
     FirstWrite (if isBeforeInBlock (fst p) first_write then fst p else first_write) rest"

text \<open>The loop that decrements \<^verbatim>\<open>new_min\<close> down to the last loop that both lists share.\<close>

fun DecreaseToCommonLoop :: "nat \<Rightarrow> string list \<Rightarrow> string list \<Rightarrow> nat" where
  "DecreaseToCommonLoop 0 operand_loops write_loops = 0"
| "DecreaseToCommonLoop (Suc n) operand_loops write_loops =
     (if operand_loops ! n = write_loops ! n then Suc n
      else DecreaseToCommonLoop n operand_loops write_loops)"

definition UsedAfterAllocation :: "Location \<Rightarrow> string \<Rightarrow> Location \<Rightarrow> Diagnostic" where
  "UsedAfterAllocation at buffer_name dimension_loc =
     attachNote dimension_loc ''dimension defined here''
       (emitError at
          [Str ''buffer '', Name (Some buffer_name),
           Str '' depends on a dimension that is defined after the buffer is allocated''])"

text \<open>The loop of \<^verbatim>\<open>CheckMallocInsertionPoint\<close> over the operands of a dimension.\<close>

fun CheckDimensionOperands ::
  "Analyses \<Rightarrow> Program \<Rightarrow> string \<Rightarrow> Buffer \<Rightarrow> Operation \<Rightarrow> Operation \<Rightarrow> ValueAccess list \<Rightarrow> nat
     \<Rightarrow> Diagnostic + nat" where
  "CheckDimensionOperands an prog buffer_name buffer first_write dimension_op [] min_num_loops =
     Inr min_num_loops"
| "CheckDimensionOperands an prog buffer_name buffer first_write dimension_op (operand # rest)
     min_num_loops =
     (let write_loops = loop_names (GetIterationSpace an first_write);
          operand_loops = loop_names (GetIterationSpace an (getDefiningOp (va_value operand)));
          new_min = DecreaseToCommonLoop (min (length write_loops) (length operand_loops))
                      operand_loops write_loops
      in
      if length (buf_loop_nest buffer) < new_min then
        Inl (UsedAfterAllocation (getLoc (ops prog first_write)) buffer_name
               (getLoc (ops prog dimension_op)))
      else CheckDimensionOperands an prog buffer_name buffer first_write dimension_op rest
             (max min_num_loops new_min))"

text \<open>
  The loop of \<^verbatim>\<open>CheckMallocInsertionPoint\<close> over the used dimensions; \<open>None\<close> where
  the domain of the buffer is read out of range.
\<close>

fun CheckUsedDimensions ::
  "Analyses \<Rightarrow> Program \<Rightarrow> string \<Rightarrow> Buffer \<Rightarrow> Operation \<Rightarrow> nat list \<Rightarrow> nat
     \<Rightarrow> (Diagnostic + nat) option" where
  "CheckUsedDimensions an prog buffer_name buffer first_write [] min_num_loops =
     Some (Inr min_num_loops)"
| "CheckUsedDimensions an prog buffer_name buffer first_write (dim # rest) min_num_loops =
     (if length (buf_domain buffer) \<le> dim then None
      else
        let dimension_op = getDefiningOp (va_value (buf_domain buffer ! dim)) in
        if isBeforeInBlock first_write dimension_op then
          Some (Inl (attachNote (getLoc (ops prog dimension_op)) ''dimension defined here''
                  (emitError (getLoc (ops prog first_write))
                     [Str ''buffer '', Name (Some buffer_name),
                      Str '' is used before one of its dimensions is defined''])))
        else
          (case CheckDimensionOperands an prog buffer_name buffer first_write dimension_op
                  (ValueOperands (ops prog dimension_op)) min_num_loops of
             Inl diag \<Rightarrow> Some (Inl diag)
           | Inr min_num_loops1 \<Rightarrow>
               CheckUsedDimensions an prog buffer_name buffer first_write rest min_num_loops1))"

text \<open>
  \<^verbatim>\<open>CheckMallocInsertionPoint\<close>, returning the updated \<^verbatim>\<open>min_num_loops\<close>; \<open>None\<close>
  where \<^verbatim>\<open>front()\<close> is taken of an empty list of writes.
\<close>

definition CheckMallocInsertionPoint ::
  "Analyses \<Rightarrow> Program \<Rightarrow> string \<Rightarrow> Buffer \<Rightarrow> bool list \<Rightarrow> nat \<Rightarrow> (Diagnostic + nat) option" where
  "CheckMallocInsertionPoint an prog buffer_name buffer used_dimensions min_num_loops =
     (case buf_writes buffer of
        [] \<Rightarrow> None
      | w # _ \<Rightarrow>
          CheckUsedDimensions an prog buffer_name buffer (FirstWrite (fst w) (buf_writes buffer))
            (set_bits used_dimensions) min_num_loops)"

definition CannotBeNestedIn :: "string \<Rightarrow> Buffer \<Rightarrow> Diagnostic" where
  "CannotBeNestedIn name buffer =
     emitError (buf_loc buffer)
       [Str ''buffer '', Name (Some name), Str '' layout depends on loops it cannot be nested in'']"

text \<open>
  The first loop of \<^verbatim>\<open>VerifyAndMinimizeBufferLoopNests\<close>, over the dimensions the layout
  depends on.
\<close>

fun MinLoopsOfDimensions ::
  "MappingAlgebra \<Rightarrow> string \<Rightarrow> Buffer \<Rightarrow> nat list \<Rightarrow> nat \<Rightarrow> (Diagnostic + nat) option" where
  "MinLoopsOfDimensions alg name buffer [] min_num_loops = Some (Inr min_num_loops)"
| "MinLoopsOfDimensions alg name buffer (dim # rest) min_num_loops =
     (if length (buf_domain buffer) \<le> dim then None
      else
        let dim_mapping = va_mapping (buf_domain buffer ! dim) in
        if HasNoneExprs dim_mapping then Some (Inl (CannotBeNestedIn name buffer))
        else MinLoopsOfDimensions alg name buffer rest
               (max (MinDomainSize alg dim_mapping) min_num_loops))"

text \<open>The second loop, over the expressions of the layout.\<close>

fun MinLoopsOfLayout ::
  "MappingAlgebra \<Rightarrow> string \<Rightarrow> Buffer \<Rightarrow> MappingAttr \<Rightarrow> MappingExpr list \<Rightarrow> nat \<Rightarrow> Diagnostic + nat"
  where
  "MinLoopsOfLayout alg name buffer inverse_mapping [] min_num_loops = Inr min_num_loops"
| "MinLoopsOfLayout alg name buffer inverse_mapping (layout_expr # rest) min_num_loops =
     (let new_min = MinDomainSize alg
                      (AccessedShape alg layout_expr (length (buf_domain buffer)) inverse_mapping)
      in
      if length (buf_loop_nest buffer) < new_min then Inl (CannotBeNestedIn name buffer)
      else MinLoopsOfLayout alg name buffer inverse_mapping rest (max new_min min_num_loops))"

text \<open>
  The body of the loop of \<^verbatim>\<open>VerifyAndMinimizeBufferLoopNests\<close>, for one buffer.  A failure
  leaves the buffer as it was.
\<close>

definition VerifyAndMinimizeBuffer ::
  "MappingAlgebra \<Rightarrow> Analyses \<Rightarrow> Program \<Rightarrow> string \<Rightarrow> Buffer \<Rightarrow> (Outcome \<times> Buffer) option" where
  "VerifyAndMinimizeBuffer alg an prog name buffer =
     (case buf_layout buffer of
        None \<Rightarrow> Some (Succeeded, buffer)
      | Some layout \<Rightarrow>
          let used_dimensions = DependencyMask layout in
          case MinLoopsOfDimensions alg name buffer (set_bits used_dimensions) 0 of
            None \<Rightarrow> None
          | Some (Inl diag) \<Rightarrow> Some (Failed diag, buffer)
          | Some (Inr min1) \<Rightarrow>
              (case BufferInstanceLayout an buffer of
                 None \<Rightarrow> None
               | Some mapping \<Rightarrow>
                   (case MinLoopsOfLayout alg name buffer (Inverse alg mapping)
                           (Dimensions layout) min1 of
                      Inl diag \<Rightarrow> Some (Failed diag, buffer)
                    | Inr min2 \<Rightarrow>
                        if is_external buffer then Some (Succeeded, buffer)
                        else
                          (case CheckMallocInsertionPoint an prog name buffer used_dimensions
                                  min2 of
                             None \<Rightarrow> None
                           | Some (Inl diag) \<Rightarrow> Some (Failed diag, buffer)
                           | Some (Inr min_num_loops) \<Rightarrow>
                               (case SetLoopNest alg
                                       (GetLoopNest an (take min_num_loops (buf_loop_nest buffer)))
                                       buffer of
                                  None \<Rightarrow> None
                                | Some buffer1 \<Rightarrow> Some (Succeeded, buffer1))))))"

text \<open>
  \<^verbatim>\<open>StorageAnalysis::VerifyAndMinimizeBufferLoopNests\<close>: the loop over the table, which
  updates the buffers in place and returns at the first failure.
\<close>

fun VerifyAndMinimizeBufferLoopNests ::
  "MappingAlgebra \<Rightarrow> Analyses \<Rightarrow> Program \<Rightarrow> BufferMap \<Rightarrow> (Outcome \<times> BufferMap) option" where
  "VerifyAndMinimizeBufferLoopNests alg an prog [] = Some (Succeeded, [])"
| "VerifyAndMinimizeBufferLoopNests alg an prog ((name, buffer) # rest) =
     (case VerifyAndMinimizeBuffer alg an prog name buffer of
        None \<Rightarrow> None
      | Some (Failed diag, buffer1) \<Rightarrow> Some (Failed diag, (name, buffer1) # rest)
      | Some (Succeeded, buffer1) \<Rightarrow>
          (case VerifyAndMinimizeBufferLoopNests alg an prog rest of
             None \<Rightarrow> None
           | Some (outcome, rest1) \<Rightarrow> Some (outcome, (name, buffer1) # rest1)))"

text \<open>
  The last loop of \<^verbatim>\<open>StorageAnalysis::Init\<close>: the writes to an external buffer do not
  come before the operation that defines the memref.  \<open>None\<close> where the import operation
  of a buffer is not a \<^verbatim>\<open>FromToMemRefOp\<close>.
\<close>

fun CheckWritesAfter :: "Program \<Rightarrow> string \<Rightarrow> Operation \<Rightarrow> (Operation \<times> nat) list \<Rightarrow> Outcome" where
  "CheckWritesAfter prog name defining_op [] = Succeeded"
| "CheckWritesAfter prog name defining_op (write # rest) =
     (if isBeforeInBlock (fst write) defining_op then
        Failed (attachNote (getLoc (ops prog defining_op)) ''buffer defined here''
                  (emitError (getLoc (ops prog (fst write)))
                     [Str ''buffer '', Name (Some name), Str '' used before it is defined'']))
      else CheckWritesAfter prog name defining_op rest)"

fun VerifyExternalBufferWrites :: "Program \<Rightarrow> BufferMap \<Rightarrow> Outcome option" where
  "VerifyExternalBufferWrites prog [] = Some Succeeded"
| "VerifyExternalBufferWrites prog ((name, buffer) # rest) =
     (case buf_import_op buffer of
        None \<Rightarrow> VerifyExternalBufferWrites prog rest
      | Some import \<Rightarrow>
          (case op_memref (ops prog import) of
             None \<Rightarrow> None
           | Some m \<Rightarrow>
               (case CheckWritesAfter prog name (MemRefDefiningOp m) (buf_writes buffer) of
                  Failed diag \<Rightarrow> Some (Failed diag)
                | Succeeded \<Rightarrow> VerifyExternalBufferWrites prog rest)))"

section \<open>Verifying storages\<close>

text \<open>
  \<^verbatim>\<open>ValueStorage::Map\<close>, from the domain of \<open>from\<close> to the domain of \<open>to\<close>; \<open>None\<close> at
  the \<^verbatim>\<open>assert\<close> that the mapping translates.
\<close>

definition Map ::
  "MappingAlgebra \<Rightarrow> Analyses \<Rightarrow> Program \<Rightarrow> Operation \<Rightarrow> Operation \<Rightarrow> MappingAttr \<Rightarrow> ValueStorage
     \<Rightarrow> ValueStorage option" where
  "Map alg an prog from to mapping s =
     (case vs_layout s of
        None \<Rightarrow> Some \<lparr>vs_space = vs_space s, vs_buffer_name = vs_buffer_name s, vs_layout = None\<rparr>
      | Some l \<Rightarrow>
          let domain_mapping =
                ResizeUseDomain alg (Resize alg mapping (length (op_domain (ops prog from))))
                  (length (op_domain (ops prog to)))
          in case TranslateMapping an to from domain_mapping of
               None \<Rightarrow> None
             | Some iter_space_mapping \<Rightarrow>
                 Some \<lparr>vs_space = vs_space s, vs_buffer_name = vs_buffer_name s,
                       vs_layout = Some (Canonicalize alg (Compose alg iter_space_mapping l))\<rparr>)"

text \<open>The overload of \<^verbatim>\<open>Map\<close> for an operand of the operation \<open>owner\<close>.\<close>

definition MapOperand ::
  "MappingAlgebra \<Rightarrow> Analyses \<Rightarrow> Program \<Rightarrow> Operation \<Rightarrow> ValueAccess \<Rightarrow> ValueStorage
     \<Rightarrow> ValueStorage option" where
  "MapOperand alg an prog owner operand s =
     Map alg an prog (getDefiningOp (va_value operand)) owner (va_mapping operand) s"

definition InPlaceLayoutConflict ::
  "Location \<Rightarrow> string option \<Rightarrow> MappingAttr option \<Rightarrow> MappingAttr option \<Rightarrow> Diagnostic" where
  "InPlaceLayoutConflict at name mapped_layout result_layout =
     emitError at
       [Str ''in-place update of buffer '', Name name,
        Str '' must use the same layout in input and output ('', Layout mapped_layout,
        Str '' vs '', Layout result_layout, Str '')'']"

text \<open>
  The walk of \<^verbatim>\<open>VerifyStorages\<close> that checks in-place updates: the loop over the
  operands, the loop over the results, the body for one operation, the walk.  \<open>None\<close>
  where a value has no entry in the table of storages and where \<^verbatim>\<open>Map\<close> stops.
\<close>

fun VerifyInPlaceOperands ::
  "MappingAlgebra \<Rightarrow> Analyses \<Rightarrow> Program \<Rightarrow> ValueStorages \<Rightarrow> Operation \<Rightarrow> ValueStorage
     \<Rightarrow> ValueAccess list \<Rightarrow> Outcome option" where
  "VerifyInPlaceOperands alg an prog storages op result_storage [] = Some Succeeded"
| "VerifyInPlaceOperands alg an prog storages op result_storage (operand # rest) =
     (case storages (va_value operand) of
        None \<Rightarrow> None
      | Some operand_storage \<Rightarrow>
          if vs_buffer_name operand_storage \<noteq> vs_buffer_name result_storage then
            VerifyInPlaceOperands alg an prog storages op result_storage rest
          else
            (case MapOperand alg an prog op operand operand_storage of
               None \<Rightarrow> None
             | Some mapped_storage \<Rightarrow>
                 if vs_layout mapped_storage \<noteq> vs_layout result_storage then
                   Some (Failed (InPlaceLayoutConflict (getLoc (ops prog op))
                           (vs_buffer_name result_storage) (vs_layout mapped_storage)
                           (vs_layout result_storage)))
                 else VerifyInPlaceOperands alg an prog storages op result_storage rest))"

fun VerifyInPlaceResults ::
  "MappingAlgebra \<Rightarrow> Analyses \<Rightarrow> Program \<Rightarrow> ValueStorages \<Rightarrow> Operation \<Rightarrow> nat list
     \<Rightarrow> Outcome option" where
  "VerifyInPlaceResults alg an prog storages op [] = Some Succeeded"
| "VerifyInPlaceResults alg an prog storages op (i # rest) =
     (case storages (op, i) of
        None \<Rightarrow> None
      | Some result_storage \<Rightarrow>
          if vs_buffer_name result_storage = None then
            VerifyInPlaceResults alg an prog storages op rest
          else
            (case VerifyInPlaceOperands alg an prog storages op result_storage
                    (ValueOperands (ops prog op)) of
               None \<Rightarrow> None
             | Some (Failed diag) \<Rightarrow> Some (Failed diag)
             | Some Succeeded \<Rightarrow> VerifyInPlaceResults alg an prog storages op rest))"

definition VerifyInPlaceUpdate ::
  "MappingAlgebra \<Rightarrow> Analyses \<Rightarrow> Program \<Rightarrow> ValueStorages \<Rightarrow> Operation \<Rightarrow> Outcome option" where
  "VerifyInPlaceUpdate alg an prog storages op =
     VerifyInPlaceResults alg an prog storages op [0..<getNumResults prog op]"

fun VerifyInPlaceUpdates ::
  "MappingAlgebra \<Rightarrow> Analyses \<Rightarrow> Program \<Rightarrow> ValueStorages \<Rightarrow> Operation list \<Rightarrow> Outcome option" where
  "VerifyInPlaceUpdates alg an prog storages [] = Some Succeeded"
| "VerifyInPlaceUpdates alg an prog storages (op # rest) =
     (if \<not> isComputeOp (ops prog op) then VerifyInPlaceUpdates alg an prog storages rest
      else
        case VerifyInPlaceUpdate alg an prog storages op of
          None \<Rightarrow> None
        | Some (Failed diag) \<Rightarrow> Some (Failed diag)
        | Some Succeeded \<Rightarrow> VerifyInPlaceUpdates alg an prog storages rest)"

text \<open>\<^verbatim>\<open>CommunicationVolume\<close>.\<close>

definition CommunicationVolume ::
  "MappingAlgebra \<Rightarrow> nat \<Rightarrow> IterationSpace \<Rightarrow> IterationSpace \<Rightarrow> MappingAttr" where
  "CommunicationVolume alg value_rank def_iter_space use_iter_space =
     (let num_common_loops = NumCommonLoops def_iter_space (loop_names use_iter_space);
          domain_to_common_loops =
            Resize alg (ResizeUseDomain alg (is_mapping def_iter_space) value_rank) num_common_loops
      in DropFront alg (Inverse alg (MakeSurjective alg (Inverse alg domain_to_common_loops)))
           num_common_loops)"

definition LayoutToCommunicationVolume ::
  "MappingAlgebra \<Rightarrow> MappingAttr \<Rightarrow> nat \<Rightarrow> IterationSpace \<Rightarrow> IterationSpace \<Rightarrow> MappingAttr" where
  "LayoutToCommunicationVolume alg layout value_rank def_iter_space use_iter_space =
     (let communication_volume = CommunicationVolume alg value_rank def_iter_space use_iter_space;
          layout_to_operand = Inverse alg (Compose alg (is_mapping def_iter_space) layout)
      in Canonicalize alg (Compose alg layout_to_operand communication_volume))"

definition IncompleteStorage :: "Location \<Rightarrow> Location \<Rightarrow> Diagnostic" where
  "IncompleteStorage at def_loc =
     attachNote def_loc ''operand defined here''
       (emitError at
          [Str (''operand storage must cover all operand dimensions ''
                @ ''that are not covered by loops common to both operand and user'')])"

text \<open>
  \<^verbatim>\<open>VerifyCommunicationVolume\<close> for one operand; \<open>None\<close> where the value has no entry in
  the table of storages.
\<close>

definition VerifyCommunicationVolume ::
  "MappingAlgebra \<Rightarrow> Analyses \<Rightarrow> Program \<Rightarrow> ValueStorages \<Rightarrow> Location \<Rightarrow> IterationSpace
     \<Rightarrow> ValueAccess \<Rightarrow> Outcome option" where
  "VerifyCommunicationVolume alg an prog storages at use_iter_space operand =
     (let def_iter_space = GetIterationSpace an (getDefiningOp (va_value operand)) in
      if \<not> fully_specified use_iter_space \<or> \<not> fully_specified def_iter_space then Some Succeeded
      else
        case storages (va_value operand) of
          None \<Rightarrow> None
        | Some storage \<Rightarrow>
            (case vs_layout storage of
               None \<Rightarrow> Some Succeeded
             | Some layout \<Rightarrow>
                 if HasNoneExprs
                      (LayoutToCommunicationVolume alg layout (MappingSize (va_mapping operand))
                         def_iter_space use_iter_space)
                 then Some (Failed (IncompleteStorage at
                              (getLoc (ops prog (getDefiningOp (va_value operand))))))
                 else Some Succeeded))"

section \<open>What the analysis relies on of its parameters\<close>

text \<open>
  The mapping from the domain of a loop nest to its loops has one expression for each
  loop (the spec's \<^verbatim>\<open>GetLoopNest(loop_names) -> LoopNest{domain, domain_to_loops}\<close>).
\<close>

definition OneExprPerLoop :: "Analyses \<Rightarrow> bool" where
  "OneExprPerLoop an =
     (\<forall>names. MappingSize (domain_to_loops (GetLoopNest an names)) = length names)"

text \<open>
  Composing a mapping on the left, unifying it with another one and resizing its use
  domain keep the number of dimensions it maps to.
\<close>

definition KeepsSize :: "MappingAlgebra \<Rightarrow> bool" where
  "KeepsSize alg =
     ((\<forall>a b. MappingSize (Compose alg a b) = MappingSize b) \<and>
      (\<forall>a b. MappingSize (Unify alg a b) = MappingSize a) \<and>
      (\<forall>m n. MappingSize (ResizeUseDomain alg m n) = MappingSize m))"

text \<open>
  The buffer \<open>b'\<close> is the buffer \<open>b\<close> after updates that keep where and with what
  element type it was declared and leave of its loop nest a prefix.
\<close>

definition SameDeclaration :: "Buffer \<Rightarrow> Buffer \<Rightarrow> bool" where
  "SameDeclaration b b' =
     (buf_loc b' = buf_loc b \<and> buf_element_type b' = buf_element_type b \<and>
      buf_import_op b' = buf_import_op b)"

definition LoopNestShrinks :: "Buffer \<Rightarrow> Buffer \<Rightarrow> bool" where
  "LoopNestShrinks b b' =
     (length (buf_loop_nest b') \<le> length (buf_loop_nest b) \<and>
      buf_loop_nest b' = take (length (buf_loop_nest b')) (buf_loop_nest b))"

text \<open>Every buffer of the table \<open>bm\<close> is in the table \<open>bm'\<close>, related by \<open>R\<close>.\<close>

definition EachBuffer :: "(Buffer \<Rightarrow> Buffer \<Rightarrow> bool) \<Rightarrow> BufferMap \<Rightarrow> BufferMap \<Rightarrow> bool" where
  "EachBuffer R bm bm' =
     (\<forall>name b. map_of bm name = Some b \<longrightarrow> (\<exists>b'. map_of bm' name = Some b' \<and> R b b'))"

text \<open>
  What the last loop of \<^verbatim>\<open>StorageAnalysis::Init\<close> checks: no write to an external
  buffer comes before the operation that defines the memref of its import operation.
\<close>

definition WritesFollowDefinition :: "Program \<Rightarrow> BufferMap \<Rightarrow> bool" where
  "WritesFollowDefinition prog buffers =
     (\<forall>(name, b) \<in> set buffers. \<forall>import m w.
        buf_import_op b = Some import \<longrightarrow> op_memref (ops prog import) = Some m \<longrightarrow>
        w \<in> set (buf_writes b) \<longrightarrow> \<not> isBeforeInBlock (fst w) (MemRefDefiningOp m))"

text \<open>
  \<open>d\<close> is the diagnostic of a write to an external buffer that comes before the
  operation that defines the memref: emitted at the writing operation, with a note at
  the defining operation.
\<close>

definition UsedBeforeDefined :: "Program \<Rightarrow> BufferMap \<Rightarrow> Diagnostic \<Rightarrow> bool" where
  "UsedBeforeDefined prog buffers d =
     (\<exists>name b import m w. (name, b) \<in> set buffers \<and> buf_import_op b = Some import \<and>
        op_memref (ops prog import) = Some m \<and> w \<in> set (buf_writes b) \<and>
        isBeforeInBlock (fst w) (MemRefDefiningOp m) \<and>
        d = \<lparr>diag_loc = getLoc (ops prog (fst w)),
             diag_message = [Str ''buffer '', Name (Some name), Str '' used before it is defined''],
             diag_note = Some (getLoc (ops prog (MemRefDefiningOp m)), ''buffer defined here'')\<rparr>)"

text \<open>
  What the in-place check of \<^verbatim>\<open>VerifyStorages\<close> asks of an operand that is stored in
  the buffer of a result: its storage, mapped to the operation, has the layout of the
  result.
\<close>

definition SameLayoutInPlace ::
  "MappingAlgebra \<Rightarrow> Analyses \<Rightarrow> Program \<Rightarrow> ValueStorages \<Rightarrow> Operation \<Rightarrow> ValueStorage
     \<Rightarrow> ValueAccess \<Rightarrow> bool" where
  "SameLayoutInPlace alg an prog storages op result_storage operand =
     (\<forall>operand_storage mapped_storage.
        storages (va_value operand) = Some operand_storage \<longrightarrow>
        vs_buffer_name operand_storage = vs_buffer_name result_storage \<longrightarrow>
        MapOperand alg an prog op operand operand_storage = Some mapped_storage \<longrightarrow>
        vs_layout mapped_storage = vs_layout result_storage)"

text \<open>
  \<open>d\<close> is the diagnostic of an operand stored in the buffer of a result with another
  layout: "in-place update of buffer ... must use the same layout in input and output",
  emitted at the operation.
\<close>

definition InPlaceConflict ::
  "MappingAlgebra \<Rightarrow> Analyses \<Rightarrow> Program \<Rightarrow> ValueStorages \<Rightarrow> Operation \<Rightarrow> ValueStorage
     \<Rightarrow> ValueAccess \<Rightarrow> Diagnostic \<Rightarrow> bool" where
  "InPlaceConflict alg an prog storages op result_storage operand d =
     (\<exists>operand_storage mapped_storage.
        storages (va_value operand) = Some operand_storage \<and>
        vs_buffer_name operand_storage = vs_buffer_name result_storage \<and>
        MapOperand alg an prog op operand operand_storage = Some mapped_storage \<and>
        vs_layout mapped_storage \<noteq> vs_layout result_storage \<and>
        d = InPlaceLayoutConflict (getLoc (ops prog op)) (vs_buffer_name result_storage)
              (vs_layout mapped_storage) (vs_layout result_storage))"

text \<open>The same for the results \<open>results\<close> of an operation and all its value operands.\<close>

definition ResultsInPlace ::
  "MappingAlgebra \<Rightarrow> Analyses \<Rightarrow> Program \<Rightarrow> ValueStorages \<Rightarrow> Operation \<Rightarrow> nat list \<Rightarrow> bool" where
  "ResultsInPlace alg an prog storages op results =
     (\<forall>i \<in> set results. \<forall>result_storage.
        storages (op, i) = Some result_storage \<longrightarrow> vs_buffer_name result_storage \<noteq> None \<longrightarrow>
        (\<forall>operand \<in> set (ValueOperands (ops prog op)).
           SameLayoutInPlace alg an prog storages op result_storage operand))"

text \<open>\<open>d\<close> is the diagnostic of a conflict of some of these results with some operand.\<close>

definition ResultsConflict ::
  "MappingAlgebra \<Rightarrow> Analyses \<Rightarrow> Program \<Rightarrow> ValueStorages \<Rightarrow> Operation \<Rightarrow> nat list
     \<Rightarrow> Diagnostic \<Rightarrow> bool" where
  "ResultsConflict alg an prog storages op results d =
     (\<exists>i \<in> set results. \<exists>result_storage.
        storages (op, i) = Some result_storage \<and> vs_buffer_name result_storage \<noteq> None \<and>
        (\<exists>operand \<in> set (ValueOperands (ops prog op)).
           InPlaceConflict alg an prog storages op result_storage operand d))"

text \<open>
  The buffer \<open>b'\<close> is the buffer \<open>b\<close> after updates that keep its declaration, leave of its
  loop nest a prefix and, where the mapping algebra keeps sizes, keep its rank once set.
\<close>

definition Kept :: "MappingAlgebra \<Rightarrow> Buffer \<Rightarrow> Buffer \<Rightarrow> bool" where
  "Kept alg b b' =
     (SameDeclaration b b' \<and> LoopNestShrinks b b' \<and>
      (KeepsSize alg \<longrightarrow> (\<forall>r. rank b = Some r \<longrightarrow> rank b' = Some r)))"

text \<open>
  What the last loop of \<^verbatim>\<open>DeclareBuffers\<close> checks: no layout of a buffer of the table has a none
  expression.
\<close>

definition FullySpecified :: "BufferMap \<Rightarrow> bool" where
  "FullySpecified bm =
     (\<forall>(name, b) \<in> set bm. \<forall>l. buf_layout b = Some l \<longrightarrow> \<not> HasNoneExprs l)"

text \<open>
  \<open>d\<close> is the diagnostic of a buffer of the table whose layout has a none expression:
  "buffer ... layout is not fully specified", emitted at the location the buffer was
  declared at.
\<close>

definition NotFullySpecified :: "BufferMap \<Rightarrow> Diagnostic \<Rightarrow> bool" where
  "NotFullySpecified bm d =
     (\<exists>name b l. (name, b) \<in> set bm \<and> buf_layout b = Some l \<and> HasNoneExprs l \<and>
        d = emitError (buf_loc b)
              [Str ''buffer '', Name (Some name), Str '' layout is not fully specified''])"

text \<open>
  The position of the first loop that a layout references, if it references one: the
  first set bit of its dependency mask.
\<close>

definition FirstIndexedLoop :: "MappingAttr \<Rightarrow> nat option" where
  "FirstIndexedLoop layout =
     (case set_bits (DependencyMask layout) of [] \<Rightarrow> None | i # _ \<Rightarrow> Some i)"

text \<open>
  The length that \<^verbatim>\<open>TrimBufferLoopNestForAccess\<close> is to leave of the loop nest \<open>nest\<close>: the
  number \<open>k\<close> of leading loops common to the iteration space and the loop nest, capped
  by the position \<open>f\<close> of the first loop the layout references when a layout is given
  and references one.
\<close>

definition TrimmedLength :: "IterationSpace \<Rightarrow> MappingAttr option \<Rightarrow> string list \<Rightarrow> nat" where
  "TrimmedLength iter_space layout nest =
     (let k = CommonPrefixLength (loop_names iter_space) nest in
      case layout of
        None \<Rightarrow> k
      | Some l \<Rightarrow> (case FirstIndexedLoop l of None \<Rightarrow> k | Some f \<Rightarrow> min k f))"

text \<open>
  The number of leading loops of \<open>nest\<close> that the iteration spaces of all the
  operations \<open>operations\<close> share with it.
\<close>

definition CommonLoops :: "Analyses \<Rightarrow> Operation list \<Rightarrow> string list \<Rightarrow> nat" where
  "CommonLoops an operations nest =
     fold (\<lambda>op n. min n (CommonPrefixLength (loop_names (GetIterationSpace an op)) nest))
       operations (length nest)"

text \<open>
  The operations of the analysis that update the buffer table: \<^verbatim>\<open>DeclareBuffers\<close>, the
  \<^verbatim>\<open>UpdateStorage\<close> that \<^verbatim>\<open>SetStorage\<close> calls for a value, \<^verbatim>\<open>AddDimensionsToBuffer\<close> and
  \<^verbatim>\<open>VerifyAndMinimizeBufferLoopNests\<close>, each with the arguments of the call other than the
  table.
\<close>

datatype Mutation =
    Declare
  | Update Value ValueStorage ValueStorage
  | AddDimensions string Operation IterationSpace MappingAttr ValueStorages
  | Minimize

text \<open>The table after one of these operations, whatever its outcome; \<open>None\<close> where it stops.\<close>

fun Mutate ::
  "MappingAlgebra \<Rightarrow> Analyses \<Rightarrow> Program \<Rightarrow> Mutation \<Rightarrow> BufferMap \<Rightarrow> BufferMap option" where
  "Mutate alg an prog Declare buffers = map_option snd (DeclareBuffers alg an prog buffers)"
| "Mutate alg an prog (Update v new_storage storage) buffers =
     map_option (\<lambda>r. snd (snd r)) (UpdateStorage alg an prog v new_storage storage buffers)"
| "Mutate alg an prog (AddDimensions name op op_iter_space new_layout storages) buffers =
     map_option fst
       (AddDimensionsToBuffer alg an prog name op op_iter_space new_layout (buffers, storages))"
| "Mutate alg an prog Minimize buffers =
     map_option snd (VerifyAndMinimizeBufferLoopNests alg an prog buffers)"

text \<open>The table after a sequence of them, each one run on the table the previous one left.\<close>

fun Mutations ::
  "MappingAlgebra \<Rightarrow> Analyses \<Rightarrow> Program \<Rightarrow> Mutation list \<Rightarrow> BufferMap \<Rightarrow> BufferMap option" where
  "Mutations alg an prog [] buffers = Some buffers"
| "Mutations alg an prog (m # rest) buffers =
     (case Mutate alg an prog m buffers of
        None \<Rightarrow> None
      | Some buffers1 \<Rightarrow> Mutations alg an prog rest buffers1)"

section \<open>An instance of the parameters\<close>

text \<open>
  A small instance of the parameters, on which the model runs in the examples below.
  Its mapping algebra handles mappings as lists of expressions: composition
  substitutes dimensions, resizing cuts or pads with none expressions, a mapping is made
  surjective by giving each none expression a dimension of its own, unification fills the
  none expressions of one side with the other side's, constraints resolve by appending
  the accessed dimension to the domain.  It stands for no more than that.
\<close>

fun SubstituteDims :: "MappingExpr list \<Rightarrow> MappingExpr \<Rightarrow> MappingExpr" where
  "SubstituteDims exprs (MappingDimExpr i) =
     (if i < length exprs then exprs ! i else MappingNoneExpr)"
| "SubstituteDims exprs MappingNoneExpr = MappingNoneExpr"
| "SubstituteDims exprs MappingUnknownExpr = MappingUnknownExpr"
| "SubstituteDims exprs (MappingStripeExpr e fs) = MappingStripeExpr (SubstituteDims exprs e) fs"
| "SubstituteDims exprs (MappingUnStripeExpr es fs) =
     MappingUnStripeExpr (map (SubstituteDims exprs) es) fs"

definition ex_Compose :: "MappingAttr \<Rightarrow> MappingAttr \<Rightarrow> MappingAttr" where
  "ex_Compose a b =
     \<lparr>UseDomainSize = UseDomainSize a, Dimensions = map (SubstituteDims (Dimensions a)) (Dimensions b)\<rparr>"

definition ex_Inverse :: "MappingAttr \<Rightarrow> MappingAttr" where
  "ex_Inverse m =
     \<lparr>UseDomainSize = length (Dimensions m),
      Dimensions = map (\<lambda>i. case IndexOf (MappingDimExpr i) (Dimensions m) of
                              Some k \<Rightarrow> MappingDimExpr k
                            | None \<Rightarrow> MappingNoneExpr) [0..<UseDomainSize m]\<rparr>"

definition ex_Unify :: "MappingAttr \<Rightarrow> MappingAttr \<Rightarrow> MappingAttr" where
  "ex_Unify a b =
     a\<lparr>Dimensions :=
         map (\<lambda>i. if Dimensions a ! i = MappingNoneExpr \<and> i < length (Dimensions b)
                   then Dimensions b ! i else Dimensions a ! i) [0..<length (Dimensions a)]\<rparr>"

definition ex_Resize :: "MappingAttr \<Rightarrow> nat \<Rightarrow> MappingAttr" where
  "ex_Resize m n =
     m\<lparr>Dimensions := take n (Dimensions m) @ replicate (n - length (Dimensions m)) MappingNoneExpr\<rparr>"

definition ex_ShiftRight :: "MappingAttr \<Rightarrow> nat \<Rightarrow> MappingAttr" where
  "ex_ShiftRight m k =
     \<lparr>UseDomainSize = UseDomainSize m + k,
      Dimensions = map (SubstituteDims (map (\<lambda>i. MappingDimExpr (i + k)) [0..<UseDomainSize m]))
                     (Dimensions m)\<rparr>"

fun FillNoneExprs :: "nat \<Rightarrow> MappingExpr list \<Rightarrow> MappingExpr list" where
  "FillNoneExprs n [] = []"
| "FillNoneExprs n (e # es) =
     (if e = MappingNoneExpr then MappingDimExpr n # FillNoneExprs (Suc n) es
      else e # FillNoneExprs n es)"

definition ex_MakeSurjective :: "MappingAttr \<Rightarrow> MappingAttr" where
  "ex_MakeSurjective m =
     \<lparr>UseDomainSize = UseDomainSize m + length (filter (\<lambda>e. e = MappingNoneExpr) (Dimensions m)),
      Dimensions = FillNoneExprs (UseDomainSize m) (Dimensions m)\<rparr>"

definition ex_MinDomainSize :: "MappingAttr \<Rightarrow> nat" where
  "ex_MinDomainSize m = fold (\<lambda>i n. max (Suc i) n) (concat (map ExprDims (Dimensions m))) 0"

definition ex_Resolve ::
  "Location \<Rightarrow> Piece list \<Rightarrow> ValueAccess \<Rightarrow> MappingExpr \<Rightarrow> ValueAccess list
     \<Rightarrow> Diagnostic + (MappingExpr \<times> ValueAccess list)" where
  "ex_Resolve at origin dim_access constraint new_domain =
     (if constraint = MappingNoneExpr
      then Inr (MappingDimExpr (length new_domain), new_domain @ [dim_access])
      else Inr (constraint, new_domain))"

definition ex_algebra :: MappingAlgebra where
  "ex_algebra =
     \<lparr>Compose = ex_Compose, Inverse = ex_Inverse, Canonicalize = (\<lambda>m. m), Unify = ex_Unify,
      ResizeUseDomain = (\<lambda>m n. m\<lparr>UseDomainSize := n\<rparr>), Resize = ex_Resize,
      ShiftRight = ex_ShiftRight, MakeSurjective = ex_MakeSurjective,
      DropFront = (\<lambda>m n. m\<lparr>Dimensions := drop n (Dimensions m)\<rparr>),
      MinDomainSize = ex_MinDomainSize,
      AccessedShape = (\<lambda>e n inv. \<lparr>UseDomainSize = n, Dimensions = []\<rparr>),
      UnificationConstraints = (\<lambda>new_expr old_expr constraints. Some constraints),
      ResolveUnificationConstraint = ex_Resolve\<rparr>"

text \<open>
  The analyses of the instance: each loop iterates over a dimension of its own, given by
  \<open>dims\<close>, and the iteration space of an operation is the identity on the loops given
  by \<open>loops\<close>.
\<close>

definition ex_GetLoopNest :: "(string \<Rightarrow> Value) \<Rightarrow> string list \<Rightarrow> LoopNest" where
  "ex_GetLoopNest dims names =
     \<lparr>ln_domain = map (\<lambda>i. \<lparr>va_value = dims (names ! i),
                              va_mapping = \<lparr>UseDomainSize = i, Dimensions = []\<rparr>\<rparr>)
                    [0..<length names],
      domain_to_loops = GetIdentity (length names)\<rparr>"

definition ex_IterationSpace :: "string list \<Rightarrow> IterationSpace" where
  "ex_IterationSpace names =
     \<lparr>loop_names = names, is_mapping = GetIdentity (length names), fully_specified = True\<rparr>"

definition ex_analyses :: "(string \<Rightarrow> Value) \<Rightarrow> (Operation \<Rightarrow> string list) \<Rightarrow> Analyses" where
  "ex_analyses dims loops =
     \<lparr>GetLoopNest = ex_GetLoopNest dims,
      GetIterationSpace = (\<lambda>op. ex_IterationSpace (loops op)),
      TranslateMapping = (\<lambda>from to mapping. Some mapping)\<rparr>"

section \<open>Examples\<close>

text \<open>
  The programs and states on which the instance runs.  An example operation has the
  location \<open>10 + n\<close> at position \<open>n\<close>; the operation at position 0 defines the
  dimension \<open>(0, 0)\<close> over which the loop \<open>i\<close> iterates.
\<close>

definition ex_op :: "Location \<Rightarrow> Op" where
  "ex_op at =
     \<lparr>getLoc = at, isComputeOp = False, op_memref = None, result_types = [''!sair.range''],
      Storage = (\<lambda>i. None), op_domain = [],
      dependency_mapping = (\<lambda>i. \<lparr>UseDomainSize = 0, Dimensions = []\<rparr>), ValueOperands = []\<rparr>"

text \<open>The annotation \<^verbatim>\<open>memory\<close>, buffer \<open>name\<close>, layout indexed by the loops \<open>names\<close>.\<close>

definition ex_memory :: "string \<Rightarrow> string list \<Rightarrow> BufferAttr" where
  "ex_memory name names =
     \<lparr>ba_space = ''memory'', ba_name = Some name,
      ba_layout = Some \<lparr>nm_names = names, nm_mapping = GetIdentity (length names)\<rparr>\<rparr>"

text \<open>
  A compute operation with the one-dimensional domain \<open>(0, 0)\<close>, one result of the
  element type \<open>ty\<close> annotated with \<open>attr\<close>, and the value operands \<open>operands\<close>.
\<close>

definition ex_compute :: "Location \<Rightarrow> Type \<Rightarrow> BufferAttr option \<Rightarrow> ValueAccess list \<Rightarrow> Op" where
  "ex_compute at ty attr operands =
     (ex_op at)\<lparr>isComputeOp := True, result_types := [ty],
                Storage := (\<lambda>i. if i = 0 then attr else None), op_domain := [(0, 0)],
                ValueOperands := operands\<rparr>"

definition ex_program :: "Op list \<Rightarrow> (Value \<Rightarrow> (Operation \<times> nat) list) \<Rightarrow> Program" where
  "ex_program body uses =
     \<lparr>num_ops = length body,
      ops = (\<lambda>op. if op < length body then body ! op else ex_op 0),
      getUses = uses\<rparr>"

text \<open>The analyses where every operation but the first is in the loop \<open>i\<close>.\<close>

definition ex_loop_i :: Analyses where
  "ex_loop_i = ex_analyses (\<lambda>name. (0, 0)) (\<lambda>op. if op = 0 then [] else [''i''])"


text \<open>
  A storage with the three attributes set, its layout \<^verbatim>\<open>[?, d0]\<close>, and layouts to
  merge into it.
\<close>

definition ex_layout :: "MappingExpr list \<Rightarrow> MappingAttr" where
  "ex_layout exprs = \<lparr>UseDomainSize = 2, Dimensions = exprs\<rparr>"


text \<open>
  Programs that export a value to a memref: a \<^verbatim>\<open>sair.to_memref\<close> operation at position 3
  exports the result of a compute operation to the buffer \<open>out\<close>; the memref is the
  result of the operation at position \<open>memref\<close>.  In \<open>ex_export\<close> the memref is defined
  first, at position 1, and the value computed at position 2; in \<open>ex_export_early\<close> the
  value is computed at position 1, before the memref is defined at position 2.
\<close>

definition ex_memref :: "Operation \<Rightarrow> FromToMemRefOp" where
  "ex_memref memref =
     \<lparr>memref_buffer_name = ''out'', MemRefElementType = ''f32'', memref_domain_size = 1,
      parallel_domain_size = 0, MemRefDefiningOp = memref\<rparr>"

definition ex_to_memref :: "Location \<Rightarrow> Operation \<Rightarrow> Value \<Rightarrow> Op" where
  "ex_to_memref at memref v =
     (ex_op at)\<lparr>op_memref := Some (ex_memref memref), result_types := [], op_domain := [(0, 0)],
                ValueOperands := [\<lparr>va_value = v, va_mapping = GetIdentity 1\<rparr>]\<rparr>"

definition ex_export :: Program where
  "ex_export =
     ex_program [ex_op 10, ex_op 11, ex_compute 12 ''f32'' None [], ex_to_memref 13 1 (2, 0)]
       (\<lambda>v. if v = (2, 0) then [(3, 0)] else [])"

definition ex_export_early :: Program where
  "ex_export_early =
     ex_program [ex_op 10, ex_compute 11 ''f32'' None [], ex_op 12, ex_to_memref 13 2 (1, 0)]
       (\<lambda>v. if v = (1, 0) then [(3, 0)] else [])"

text \<open>
  The buffer \<open>out\<close> of such a program, as the import operation at position 3 declares
  it, once the exported value \<open>v\<close> is registered in it.
\<close>

definition ex_exported :: "Program \<Rightarrow> Value \<Rightarrow> Buffer" where
  "ex_exported prog v =
     AddValue prog v
       (Buffer_import ex_algebra prog 3 (ex_memref (if v = (2, 0) then 1 else 2)) [''i'']
          (GetLoopNest ex_loop_i [''i'']))"

text \<open>
  A program whose operation at position 2 uses the result of the operation at position 1,
  and the analyses where only the operation at position 1 is in the loop \<open>i\<close>.
\<close>

definition ex_cross :: Program where
  "ex_cross =
     ex_program
       [ex_op 10, ex_compute 11 ''f32'' None [],
        ex_compute 12 ''f32'' None [\<lparr>va_value = (1, 0), va_mapping = GetIdentity 1\<rparr>]]
       (\<lambda>v. if v = (1, 0) then [(2, 0)] else [])"

definition ex_producer_in_loop :: Analyses where
  "ex_producer_in_loop = ex_analyses (\<lambda>name. (0, 0)) (\<lambda>op. if op = 1 then [''i''] else [])"

text \<open>
  A program whose operation at position 2 updates in place the buffer \<open>acc\<close> that the
  operation at position 1 writes: both are in the loops \<open>i\<close> and \<open>j\<close>, over the
  dimensions \<open>(0, 0)\<close> and \<open>(0, 1)\<close>; \<open>ex_acc exprs\<close> stores the operand with the
  layout \<^verbatim>\<open>[d0, d1]\<close> and the result with the layout \<open>exprs\<close>.
\<close>

definition ex_in_place :: Program where
  "ex_in_place =
     ex_program
       [ex_op 10,
        (ex_compute 11 ''f32'' None [])\<lparr>op_domain := [(0, 0), (0, 1)]\<rparr>,
        (ex_compute 12 ''f32'' None [\<lparr>va_value = (1, 0), va_mapping = GetIdentity 2\<rparr>])
          \<lparr>op_domain := [(0, 0), (0, 1)]\<rparr>]
       (\<lambda>v. if v = (1, 0) then [(2, 0)] else [])"

definition ex_two_loops :: Analyses where
  "ex_two_loops =
     ex_analyses (\<lambda>name. if name = ''i'' then (0, 0) else (0, 1))
       (\<lambda>op. if op = 0 then [] else [''i'', ''j''])"

definition ex_acc :: "MappingExpr list \<Rightarrow> ValueStorages" where
  "ex_acc exprs =
     [(1, 0) \<mapsto> \<lparr>vs_space = Some ''memory'', vs_buffer_name = Some ''acc'',
                  vs_layout = Some (ex_layout [MappingDimExpr 0, MappingDimExpr 1])\<rparr>,
      (2, 0) \<mapsto> \<lparr>vs_space = Some ''memory'', vs_buffer_name = Some ''acc'',
                  vs_layout = Some (ex_layout exprs)\<rparr>]"

text \<open>
  A program with one compute operation whose result is annotated with \<open>attr\<close>, and the
  annotation \<^verbatim>\<open>memory\<close>, buffer \<open>b\<close>, with the one-dimensional layout \<^verbatim>\<open>[none]\<close>.
\<close>

definition ex_declare :: "Type \<Rightarrow> BufferAttr \<Rightarrow> Program" where
  "ex_declare ty attr = ex_program [ex_op 10, ex_compute 11 ty (Some attr) []] (\<lambda>v. [])"

definition ex_partial :: BufferAttr where
  "ex_partial =
     \<lparr>ba_space = ''memory'', ba_name = Some ''b'',
      ba_layout = Some \<lparr>nm_names = [],
                        nm_mapping = \<lparr>UseDomainSize = 0, Dimensions = [MappingNoneExpr]\<rparr>\<rparr>\<rparr>"

text \<open>
  The buffer that the operation at position 1 of such a program declares: its element
  type, its loop nest and the expressions of its layout vary with the annotation.
\<close>

definition ex_declared :: "Type \<Rightarrow> string list \<Rightarrow> MappingExpr list \<Rightarrow> Buffer" where
  "ex_declared ty nest exprs =
     \<lparr>buf_loc = 11, buf_element_type = ty, buf_loop_nest = nest,
      buf_domain = [\<lparr>va_value = (0, 0),
                     va_mapping = \<lparr>UseDomainSize = length nest, Dimensions = []\<rparr>\<rparr>],
      buf_layout = Some \<lparr>UseDomainSize = 1, Dimensions = exprs\<rparr>,
      buf_import_op = None, buf_writes = [], buf_reads = [], buf_values = []\<rparr>"

text \<open>
  A program with two compute operations in the loops \<open>i\<close> and \<open>j\<close> that declare the
  buffer \<open>b\<close>: the first one for a result of type \<open>f32\<close> with the layout \<^verbatim>\<open>[i]\<close>, the
  second one for a result of type \<open>ty\<close> with the annotation \<open>attr\<close>.
\<close>

definition ex_redeclare :: "Type \<Rightarrow> BufferAttr \<Rightarrow> Program" where
  "ex_redeclare ty attr =
     ex_program
       [ex_op 10, ex_compute 11 ''f32'' (Some (ex_memory ''b'' [''i''])) [],
        ex_compute 12 ty (Some attr) []]
       (\<lambda>v. [])"

text \<open>
  A buffer declared in the loops \<open>i\<close> and \<open>j\<close>, as \<^verbatim>\<open>DeclareBuffer\<close> creates it, and the
  analyses where the operation at position 1 is in the loops \<open>i\<close> and \<open>j\<close> and the
  operation at position 2 in the loop \<open>i\<close> only.
\<close>

definition ex_nested :: Buffer where
  "ex_nested =
     Buffer_new ex_algebra 11 ''f32'' [''i'', ''j''] (GetLoopNest ex_two_loops [''i'', ''j''])"

definition ex_user_outside :: Analyses where
  "ex_user_outside =
     ex_analyses (\<lambda>name. if name = ''i'' then (0, 0) else (0, 1))
       (\<lambda>op. if op = 1 then [''i'', ''j''] else if op = 2 then [''i''] else [])"

text \<open>
  A program with one compute operation over the dimensions \<open>(0, 0)\<close> and \<open>(0, 1)\<close>, its
  result annotated with \<open>attr\<close>; and the buffer \<open>b\<close> that this operation, in the loops
  \<open>i\<close> and \<open>j\<close>, declares with a layout without dimension, once its result is registered
  in it.
\<close>

definition ex_declare_nested :: "BufferAttr \<Rightarrow> Program" where
  "ex_declare_nested attr =
     ex_program
       [ex_op 10, (ex_compute 11 ''f32'' (Some attr) [])\<lparr>op_domain := [(0, 0), (0, 1)]\<rparr>]
       (\<lambda>v. [])"

definition ex_scalar :: Buffer where
  "ex_scalar =
     ex_nested\<lparr>buf_layout := Some (ex_layout []), buf_writes := [(1, 0)],
                buf_values := [(1, 0)]\<rparr>"

text \<open>
  The same program with the operand accessed transposed: the operation at position 2
  reads at \<open>(d0, d1)\<close> the element \<open>(d1, d0)\<close> of the result of the operation at
  position 1.
\<close>

definition ex_transposed :: ValueAccess where
  "ex_transposed =
     \<lparr>va_value = (1, 0),
      va_mapping = \<lparr>UseDomainSize = 2, Dimensions = [MappingDimExpr 1, MappingDimExpr 0]\<rparr>\<rparr>"

definition ex_in_place_transposed :: Program where
  "ex_in_place_transposed =
     ex_program
       [ex_op 10,
        (ex_compute 11 ''f32'' None [])\<lparr>op_domain := [(0, 0), (0, 1)]\<rparr>,
        (ex_compute 12 ''f32'' None [ex_transposed])\<lparr>op_domain := [(0, 0), (0, 1)]\<rparr>]
       (\<lambda>v. if v = (1, 0) then [(2, 0)] else [])"


section \<open>Facts about unification\<close>











section \<open>Facts about merging\<close>







section \<open>Facts about buffers\<close>

lemma SetLoopNest_loop_nest:
  "SetLoopNest alg ln b = Some b' \<Longrightarrow>
     MappingSize (domain_to_loops ln) \<le> length (buf_loop_nest b) \<and>
     buf_loop_nest b' = take (MappingSize (domain_to_loops ln)) (buf_loop_nest b)"
  by (auto simp: SetLoopNest_def Let_def split: if_splits prod.splits option.splits)

lemma SetLoopNest_frame:
  "SetLoopNest alg ln b = Some b' \<Longrightarrow>
     buf_loc b' = buf_loc b \<and> buf_element_type b' = buf_element_type b \<and>
     buf_import_op b' = buf_import_op b \<and> buf_writes b' = buf_writes b \<and>
     buf_reads b' = buf_reads b \<and> buf_values b' = buf_values b"
  by (auto simp: SetLoopNest_def Let_def split: if_splits prod.splits option.splits)

lemma SetLoopNest_layout:
  "SetLoopNest alg ln b = Some b' \<Longrightarrow>
     (case buf_layout b of
        None \<Rightarrow> buf_layout b' = None
      | Some l \<Rightarrow> buf_layout b' = Some l \<or> (\<exists>r. buf_layout b' = Some (Compose alg r l)))"
  by (auto simp: SetLoopNest_def Let_def split: if_splits prod.splits option.splits)

lemma Trim_SetLoopNest:
  "TrimBufferLoopNestForAccess alg an iter_space layout b = Some b' \<Longrightarrow>
     \<exists>ln. SetLoopNest alg ln b = Some b'"
  by (auto simp: TrimBufferLoopNestForAccess_def Let_def)

section \<open>Facts about the writes to external buffers\<close>

lemma CheckWritesAfter_Succeeded:
  "CheckWritesAfter prog name defining_op ws = Succeeded
     \<longleftrightarrow> (\<forall>w \<in> set ws. \<not> isBeforeInBlock (fst w) defining_op)"
  by (induction ws) auto

lemma CheckWritesAfter_Failed:
  "CheckWritesAfter prog name defining_op ws = Failed d \<Longrightarrow>
     \<exists>w \<in> set ws. isBeforeInBlock (fst w) defining_op \<and>
       d = \<lparr>diag_loc = getLoc (ops prog (fst w)),
            diag_message = [Str ''buffer '', Name (Some name), Str '' used before it is defined''],
            diag_note = Some (getLoc (ops prog defining_op), ''buffer defined here'')\<rparr>"
  by (induction ws) (auto simp: emitError_def attachNote_def split: if_splits)

lemma VerifyExternalBufferWrites_Succeeded:
  "VerifyExternalBufferWrites prog buffers = Some Succeeded \<Longrightarrow> WritesFollowDefinition prog buffers"
  unfolding WritesFollowDefinition_def
proof (induction buffers)
  case Nil
  then show ?case by simp
next
  case (Cons e buffers)
  obtain name b where e: "e = (name, b)" by (cases e)
  show ?case using Cons e
    by (auto simp: CheckWritesAfter_Succeeded split: option.splits Outcome.splits)
qed

lemma UsedBeforeDefined_Cons:
  "UsedBeforeDefined prog buffers d \<Longrightarrow> UsedBeforeDefined prog (e # buffers) d"
proof -
  assume "UsedBeforeDefined prog buffers d"
  then obtain name b import m w where
    h: "(name, b) \<in> set buffers" "buf_import_op b = Some import"
      "op_memref (ops prog import) = Some m" "w \<in> set (buf_writes b)"
      "isBeforeInBlock (fst w) (MemRefDefiningOp m)"
      "d = \<lparr>diag_loc = getLoc (ops prog (fst w)),
            diag_message = [Str ''buffer '', Name (Some name), Str '' used before it is defined''],
            diag_note = Some (getLoc (ops prog (MemRefDefiningOp m)), ''buffer defined here'')\<rparr>"
    unfolding UsedBeforeDefined_def by blast
  from h(1) have "(name, b) \<in> set (e # buffers)" by simp
  with h(2-6) show ?thesis unfolding UsedBeforeDefined_def by blast
qed

lemma UsedBeforeDefined_here:
  assumes "buf_import_op b = Some import" "op_memref (ops prog import) = Some m"
    "CheckWritesAfter prog name (MemRefDefiningOp m) (buf_writes b) = Failed d"
  shows "UsedBeforeDefined prog ((name, b) # buffers) d"
proof -
  from CheckWritesAfter_Failed [OF assms(3)] obtain w where
    w: "w \<in> set (buf_writes b)" "isBeforeInBlock (fst w) (MemRefDefiningOp m)"
    "d = \<lparr>diag_loc = getLoc (ops prog (fst w)),
          diag_message = [Str ''buffer '', Name (Some name), Str '' used before it is defined''],
          diag_note = Some (getLoc (ops prog (MemRefDefiningOp m)), ''buffer defined here'')\<rparr>"
    by blast
  have "(name, b) \<in> set ((name, b) # buffers)" by simp
  with assms(1,2) w show ?thesis unfolding UsedBeforeDefined_def by blast
qed

lemma VerifyExternalBufferWrites_Failed:
  "VerifyExternalBufferWrites prog buffers = Some (Failed d) \<Longrightarrow> UsedBeforeDefined prog buffers d"
proof (induction buffers)
  case Nil
  then show ?case by simp
next
  case (Cons e buffers)
  obtain name b where e: "e = (name, b)" by (cases e)
  show ?case
  proof (cases "buf_import_op b")
    case None
    then show ?thesis using Cons e by (auto intro: UsedBeforeDefined_Cons)
  next
    case (Some import)
    then obtain m where m: "op_memref (ops prog import) = Some m"
      using Cons.prems e by (auto split: option.splits)
    show ?thesis
    proof (cases "CheckWritesAfter prog name (MemRefDefiningOp m) (buf_writes b)")
      case Succeeded
      then have "VerifyExternalBufferWrites prog buffers = Some (Failed d)"
        using Cons.prems e Some m by simp
      from Cons.IH [OF this] show ?thesis by (rule UsedBeforeDefined_Cons)
    next
      case (Failed d')
      then have "d' = d" using Cons.prems e Some m by simp
      with Failed e Some m show ?thesis by (simp add: UsedBeforeDefined_here)
    qed
  qed
qed

lemma UsedBeforeDefined_not_follow:
  "UsedBeforeDefined prog buffers d \<Longrightarrow> \<not> WritesFollowDefinition prog buffers"
  unfolding UsedBeforeDefined_def WritesFollowDefinition_def by fastforce

lemma VerifyExternalBufferWrites_reads:
  "VerifyExternalBufferWrites prog (map (\<lambda>(name, b). (name, b\<lparr>buf_reads := r name b\<rparr>)) buffers)
     = VerifyExternalBufferWrites prog buffers"
  by (induction buffers) (auto split: option.splits Outcome.splits)

lemma VerifyExternalBufferWrites_returns:
  "(\<forall>(name, b) \<in> set buffers. \<forall>import. buf_import_op b = Some import \<longrightarrow>
       op_memref (ops prog import) \<noteq> None) \<Longrightarrow>
     \<exists>outcome. VerifyExternalBufferWrites prog buffers = Some outcome"
  by (induction buffers) (auto split: option.splits Outcome.splits)

section \<open>Facts about in-place updates\<close>

lemma InPlaceConflict_not_same:
  "InPlaceConflict alg an prog storages op rs operand d \<Longrightarrow>
     \<not> SameLayoutInPlace alg an prog storages op rs operand"
proof
  assume c: "InPlaceConflict alg an prog storages op rs operand d"
    and ok: "SameLayoutInPlace alg an prog storages op rs operand"
  from c obtain os ms where
    h: "storages (va_value operand) = Some os" "vs_buffer_name os = vs_buffer_name rs"
      "MapOperand alg an prog op operand os = Some ms" "vs_layout ms \<noteq> vs_layout rs"
    unfolding InPlaceConflict_def by blast
  from ok h(1-3) have "vs_layout ms = vs_layout rs"
    unfolding SameLayoutInPlace_def by blast
  with h(4) show False by simp
qed

lemma VerifyInPlaceOperands_Succeeded:
  "VerifyInPlaceOperands alg an prog storages op rs operands = Some Succeeded \<Longrightarrow>
     \<forall>operand \<in> set operands. SameLayoutInPlace alg an prog storages op rs operand"
proof (induction operands)
  case Nil
  then show ?case by simp
next
  case (Cons operand operands)
  from Cons.prems obtain os where os: "storages (va_value operand) = Some os"
    by (auto split: option.splits)
  show ?case
  proof (cases "vs_buffer_name os \<noteq> vs_buffer_name rs")
    case True
    with os have "SameLayoutInPlace alg an prog storages op rs operand"
      by (simp add: SameLayoutInPlace_def)
    moreover from Cons.prems os True have
      "VerifyInPlaceOperands alg an prog storages op rs operands = Some Succeeded" by simp
    ultimately show ?thesis using Cons.IH by simp
  next
    case False
    with Cons.prems os obtain ms where ms: "MapOperand alg an prog op operand os = Some ms"
      by (auto split: option.splits)
    with Cons.prems os False have same: "vs_layout ms = vs_layout rs"
      and rest: "VerifyInPlaceOperands alg an prog storages op rs operands = Some Succeeded"
      by (auto split: if_splits)
    from os ms same have "SameLayoutInPlace alg an prog storages op rs operand"
      by (simp add: SameLayoutInPlace_def)
    with Cons.IH [OF rest] show ?thesis by simp
  qed
qed

lemma VerifyInPlaceOperands_Failed:
  "VerifyInPlaceOperands alg an prog storages op rs operands = Some (Failed d) \<Longrightarrow>
     \<exists>operand \<in> set operands. InPlaceConflict alg an prog storages op rs operand d"
proof (induction operands)
  case Nil
  then show ?case by simp
next
  case (Cons operand operands)
  from Cons.prems obtain os where os: "storages (va_value operand) = Some os"
    by (auto split: option.splits)
  show ?case
  proof (cases "vs_buffer_name os \<noteq> vs_buffer_name rs")
    case True
    with Cons os show ?thesis by auto
  next
    case False
    with Cons.prems os obtain ms where ms: "MapOperand alg an prog op operand os = Some ms"
      by (auto split: option.splits)
    show ?thesis
    proof (cases "vs_layout ms \<noteq> vs_layout rs")
      case True
      with Cons.prems os False ms have
        "d = InPlaceLayoutConflict (getLoc (ops prog op)) (vs_buffer_name rs) (vs_layout ms)
               (vs_layout rs)"
        by simp
      with os False ms True have "InPlaceConflict alg an prog storages op rs operand d"
        unfolding InPlaceConflict_def by blast
      then show ?thesis by simp
    next
      case same: False
      with Cons os False ms show ?thesis by auto
    qed
  qed
qed

lemma VerifyInPlaceOperands_returns:
  "(\<forall>operand \<in> set operands. \<forall>s. storages (va_value operand) \<noteq> None \<and>
       MapOperand alg an prog op operand s \<noteq> None) \<Longrightarrow>
     \<exists>outcome. VerifyInPlaceOperands alg an prog storages op rs operands = Some outcome"
proof (induction operands)
  case Nil
  then show ?case by simp
next
  case (Cons operand operands)
  then obtain os where os: "storages (va_value operand) = Some os" by auto
  from Cons.prems obtain ms where ms: "MapOperand alg an prog op operand os = Some ms"
    by (metis list.set_intros(1) option.exhaust)
  from Cons obtain r where
    "VerifyInPlaceOperands alg an prog storages op rs operands = Some r" by auto
  with os ms show ?case by simp
qed

lemma ResultsConflict_not_in_place:
  "ResultsConflict alg an prog storages op results d \<Longrightarrow>
     \<not> ResultsInPlace alg an prog storages op results"
proof
  assume c: "ResultsConflict alg an prog storages op results d"
    and ok: "ResultsInPlace alg an prog storages op results"
  from c obtain i rs operand where
    h: "i \<in> set results" "storages (op, i) = Some rs" "vs_buffer_name rs \<noteq> None"
      "operand \<in> set (ValueOperands (ops prog op))"
      "InPlaceConflict alg an prog storages op rs operand d"
    unfolding ResultsConflict_def by blast
  from ok h(1-4) have "SameLayoutInPlace alg an prog storages op rs operand"
    unfolding ResultsInPlace_def by blast
  with InPlaceConflict_not_same [OF h(5)] show False by simp
qed

lemma VerifyInPlaceResults_Succeeded:
  "VerifyInPlaceResults alg an prog storages op results = Some Succeeded \<Longrightarrow>
     ResultsInPlace alg an prog storages op results"
proof (induction results)
  case Nil
  then show ?case by (simp add: ResultsInPlace_def)
next
  case (Cons i results)
  from Cons.prems obtain rs where rs: "storages (op, i) = Some rs"
    by (auto split: option.splits)
  show ?case
  proof (cases "vs_buffer_name rs = None")
    case True
    with Cons.prems rs have
      rest: "VerifyInPlaceResults alg an prog storages op results = Some Succeeded" by simp
    from Cons.IH [OF rest] rs True show ?thesis unfolding ResultsInPlace_def by simp
  next
    case False
    with Cons.prems rs have
      r: "VerifyInPlaceOperands alg an prog storages op rs (ValueOperands (ops prog op))
            = Some Succeeded"
      and rest: "VerifyInPlaceResults alg an prog storages op results = Some Succeeded"
      by (auto split: option.splits Outcome.splits)
    from VerifyInPlaceOperands_Succeeded [OF r] Cons.IH [OF rest] rs
    show ?thesis unfolding ResultsInPlace_def by simp
  qed
qed

lemma ResultsConflict_Cons:
  "ResultsConflict alg an prog storages op results d \<Longrightarrow>
     ResultsConflict alg an prog storages op (i # results) d"
  unfolding ResultsConflict_def by auto

lemma VerifyInPlaceResults_Failed:
  "VerifyInPlaceResults alg an prog storages op results = Some (Failed d) \<Longrightarrow>
     ResultsConflict alg an prog storages op results d"
proof (induction results)
  case Nil
  then show ?case by simp
next
  case (Cons i results)
  from Cons.prems obtain rs where rs: "storages (op, i) = Some rs"
    by (auto split: option.splits)
  show ?case
  proof (cases "vs_buffer_name rs = None")
    case True
    with Cons rs show ?thesis by (simp add: ResultsConflict_Cons)
  next
    case False
    with Cons.prems rs obtain r where
      r: "VerifyInPlaceOperands alg an prog storages op rs (ValueOperands (ops prog op)) = Some r"
      by (auto split: option.splits)
    show ?thesis
    proof (cases r)
      case Succeeded
      with Cons rs False r show ?thesis by (simp add: ResultsConflict_Cons)
    next
      case (Failed d')
      with Cons.prems rs False r have "d' = d" by simp
      with r Failed have
        "VerifyInPlaceOperands alg an prog storages op rs (ValueOperands (ops prog op))
           = Some (Failed d)" by simp
      from VerifyInPlaceOperands_Failed [OF this] obtain operand where
        "operand \<in> set (ValueOperands (ops prog op))"
        "InPlaceConflict alg an prog storages op rs operand d"
        by blast
      with rs False show ?thesis unfolding ResultsConflict_def by fastforce
    qed
  qed
qed

lemma VerifyInPlaceResults_returns:
  "(\<forall>i \<in> set results. storages (op, i) \<noteq> None) \<Longrightarrow>
   (\<forall>operand \<in> set (ValueOperands (ops prog op)). \<forall>s. storages (va_value operand) \<noteq> None \<and>
       MapOperand alg an prog op operand s \<noteq> None) \<Longrightarrow>
     \<exists>outcome. VerifyInPlaceResults alg an prog storages op results = Some outcome"
proof (induction results)
  case Nil
  then show ?case by simp
next
  case (Cons i results)
  then obtain rs where rs: "storages (op, i) = Some rs" by auto
  from VerifyInPlaceOperands_returns [OF Cons.prems(2)] obtain r where
    "VerifyInPlaceOperands alg an prog storages op rs (ValueOperands (ops prog op)) = Some r"
    by blast
  moreover from Cons obtain r' where
    "VerifyInPlaceResults alg an prog storages op results = Some r'" by auto
  ultimately show ?case using rs by (cases r) auto
qed

section \<open>Facts about the updates of a buffer\<close>

lemma map_of_assign:
  "map_of (assign name b bm) k =
     (if k = name then (case map_of bm name of None \<Rightarrow> None | Some _ \<Rightarrow> Some b) else map_of bm k)"
  by (induction bm) (auto split: option.splits)

lemma map_of_try_emplace:
  "map_of (fst (try_emplace name b bm)) k =
     (case map_of bm k of Some v \<Rightarrow> Some v | None \<Rightarrow> if k = name then Some b else None)"
  by (auto simp: try_emplace_def map_add_def split: option.splits)

lemma Kept_refl: "Kept alg b b"
  by (simp add: Kept_def SameDeclaration_def LoopNestShrinks_def)

lemma LoopNestShrinks_trans:
  "LoopNestShrinks a b \<Longrightarrow> LoopNestShrinks b c \<Longrightarrow> LoopNestShrinks a c"
proof -
  assume ab: "LoopNestShrinks a b" and bc: "LoopNestShrinks b c"
  let ?a = "buf_loop_nest a" and ?b = "buf_loop_nest b" and ?c = "buf_loop_nest c"
  from ab bc have le: "length ?c \<le> length ?b" "length ?b \<le> length ?a"
    by (simp_all add: LoopNestShrinks_def)
  from bc have "?c = take (length ?c) ?b" by (simp add: LoopNestShrinks_def)
  also from ab have "?b = take (length ?b) ?a" by (simp add: LoopNestShrinks_def)
  finally have "?c = take (length ?c) (take (length ?b) ?a)" .
  with le have "?c = take (length ?c) ?a" by (simp add: min_def)
  with le show ?thesis by (simp add: LoopNestShrinks_def)
qed

lemma Kept_trans: "Kept alg a b \<Longrightarrow> Kept alg b c \<Longrightarrow> Kept alg a c"
  unfolding Kept_def SameDeclaration_def
  by (auto intro: LoopNestShrinks_trans)

lemma SetLoopNest_Kept: "SetLoopNest alg ln b = Some b' \<Longrightarrow> Kept alg b b'"
proof -
  assume s: "SetLoopNest alg ln b = Some b'"
  note n = SetLoopNest_loop_nest [OF s] and f = SetLoopNest_frame [OF s]
    and l = SetLoopNest_layout [OF s]
  have "LoopNestShrinks b b'" using n by (simp add: LoopNestShrinks_def min_def)
  moreover have "SameDeclaration b b'" using f by (simp add: SameDeclaration_def)
  moreover have "rank b' = Some r" if "KeepsSize alg" "rank b = Some r" for r
    using that l by (auto simp: rank_def KeepsSize_def split: option.splits)
  ultimately show ?thesis by (simp add: Kept_def)
qed

lemma Trim_Kept:
  "TrimBufferLoopNestForAccess alg an iter_space layout b = Some b' \<Longrightarrow> Kept alg b b'"
  using Trim_SetLoopNest SetLoopNest_Kept by blast

lemma UnifyBufferShape_failed:
  "UnifyBufferShape alg an prog name op layout iter_space b = Some (outcome, b') \<Longrightarrow>
     outcome \<noteq> Succeeded \<Longrightarrow> b' = b"
  unfolding UnifyBufferShape_def Let_def
  by (auto split: option.splits if_splits sum.splits prod.splits)

lemma UnifyBufferShape_succeeded:
  "UnifyBufferShape alg an prog name op layout iter_space b = Some (Succeeded, b') \<Longrightarrow>
     \<exists>new_values l. b' = UnifyLayout alg l (AppendToDomain alg new_values b)"
  unfolding UnifyBufferShape_def Let_def
  by (auto split: option.splits if_splits sum.splits prod.splits)

lemma AppendToDomain_Kept: "Kept alg b (AppendToDomain alg new_values b)"
  by (auto simp: AppendToDomain_def Let_def Kept_def SameDeclaration_def LoopNestShrinks_def
      rank_def KeepsSize_def split: option.splits)

lemma UnifyLayout_Kept: "Kept alg b (UnifyLayout alg l b)"
  by (auto simp: UnifyLayout_def Kept_def SameDeclaration_def LoopNestShrinks_def
      rank_def KeepsSize_def split: option.splits)

lemma UnifyBufferShape_Kept:
  assumes u: "UnifyBufferShape alg an prog name op layout iter_space b = Some (outcome, b')"
  shows "Kept alg b b' \<and> buf_loop_nest b' = buf_loop_nest b"
proof (cases outcome)
  case Succeeded
  with UnifyBufferShape_succeeded u obtain new_values l where
    b': "b' = UnifyLayout alg l (AppendToDomain alg new_values b)" by blast
  have "Kept alg b b'" unfolding b'
    by (rule Kept_trans [OF AppendToDomain_Kept UnifyLayout_Kept])
  moreover have "buf_loop_nest b' = buf_loop_nest b" unfolding b'
    by (simp add: UnifyLayout_def AppendToDomain_def Let_def split: option.splits)
  ultimately show ?thesis by simp
next
  case (Failed d)
  with UnifyBufferShape_failed [OF u] have "b' = b" by simp
  then show ?thesis by (simp add: Kept_refl)
qed

section \<open>Facts about declaring buffers\<close>

lemma DeclareBuffer_steps:
  assumes d: "DeclareBuffer alg an prog op result attr bm = Some (outcome, bm')"
  shows "bm' = bm \<or>
         (\<exists>name nb buffer. map_of (fst (try_emplace name nb bm)) name = Some buffer \<and>
            (bm' = fst (try_emplace name nb bm) \<or>
             (\<exists>b2. Kept alg buffer b2 \<and> bm' = assign name b2 (fst (try_emplace name nb bm)))))"
proof (cases attr)
  case None
  with d show ?thesis by (simp add: DeclareBuffer_def)
next
  case (Some a)
  show ?thesis
  proof (cases "ba_name a")
    case None
    with d Some show ?thesis by (simp add: DeclareBuffer_def)
  next
    case (Some name)
    let ?iter_space = "GetIterationSpace an op"
    let ?ty = "result_types (ops prog op) ! result"
    let ?nb = "Buffer_new alg (getLoc (ops prog op)) ?ty (loop_names ?iter_space)
                 (GetLoopNest an (loop_names ?iter_space))"
    let ?bm1 = "fst (try_emplace name ?nb bm)"
    from d \<open>attr = Some a\<close> Some have r: "\<not> length (result_types (ops prog op)) \<le> result"
      by (auto simp: DeclareBuffer_def split: if_splits)
    with d \<open>attr = Some a\<close> Some obtain buffer where b: "map_of ?bm1 name = Some buffer"
      by (auto simp: DeclareBuffer_def Let_def split: option.splits)
    have "bm' = ?bm1 \<or> (\<exists>b2. Kept alg buffer b2 \<and> bm' = assign name b2 ?bm1)"
    proof (cases "buf_element_type buffer \<noteq> ?ty")
      case True
      with d \<open>attr = Some a\<close> Some r b show ?thesis by (simp add: DeclareBuffer_def Let_def)
    next
      case False
      with d \<open>attr = Some a\<close> Some r b obtain layout where
        g: "GetBufferLayout alg an op a = Some layout"
        by (auto simp: DeclareBuffer_def Let_def split: option.splits)
      show ?thesis
      proof (cases "rank buffer \<noteq> None \<and> layout \<noteq> None
                    \<and> rank buffer \<noteq> map_option MappingSize layout")
        case True
        with d \<open>attr = Some a\<close> Some r b False g show ?thesis
          by (simp add: DeclareBuffer_def Let_def)
      next
        case no_conflict: False
        with d \<open>attr = Some a\<close> Some r b False g obtain buffer1 where
          t: "TrimBufferLoopNestForAccess alg an ?iter_space layout buffer = Some buffer1"
          by (auto simp: DeclareBuffer_def Let_def split: option.splits)
        note k1 = Trim_Kept [OF t]
        show ?thesis
        proof (cases layout)
          case None
          with d \<open>attr = Some a\<close> Some r b False g no_conflict t
          have "bm' = assign name buffer1 ?bm1"
            by (simp add: DeclareBuffer_def Let_def)
          with k1 show ?thesis by blast
        next
          case (Some l)
          with d \<open>attr = Some a\<close> \<open>ba_name a = Some name\<close> r b False g no_conflict t
          obtain buffer2 where
            u: "UnifyBufferShape alg an prog name op l ?iter_space buffer1 = Some (outcome, buffer2)"
            and bm': "bm' = assign name buffer2 ?bm1"
            by (auto simp: DeclareBuffer_def Let_def split: option.splits)
          from UnifyBufferShape_Kept [OF u] k1 have "Kept alg buffer buffer2"
            by (blast intro: Kept_trans)
          with bm' show ?thesis by blast
        qed
      qed
    qed
    with b show ?thesis by blast
  qed
qed

lemma DeclareBuffer_Kept:
  assumes d: "DeclareBuffer alg an prog op result attr bm = Some (outcome, bm')"
    and k: "map_of bm k = Some b"
  shows "\<exists>b'. map_of bm' k = Some b' \<and> Kept alg b b'"
proof -
  from DeclareBuffer_steps [OF d] consider "bm' = bm"
    | name nb buffer where "map_of (fst (try_emplace name nb bm)) name = Some buffer"
        "bm' = fst (try_emplace name nb bm)"
    | name nb buffer b2 where "map_of (fst (try_emplace name nb bm)) name = Some buffer"
        "Kept alg buffer b2" "bm' = assign name b2 (fst (try_emplace name nb bm))"
    by blast
  then show ?thesis
  proof cases
    case 1
    with k show ?thesis by (simp add: Kept_refl)
  next
    case 2
    with k show ?thesis by (simp add: map_of_try_emplace Kept_refl)
  next
    case 3
    show ?thesis
    proof (cases "k = name")
      case True
      with 3(1) k have "buffer = b" by (simp add: map_of_try_emplace)
      with 3 True show ?thesis by (simp add: map_of_assign)
    next
      case False
      with 3 k show ?thesis by (simp add: map_of_assign map_of_try_emplace Kept_refl)
    qed
  qed
qed

lemma EachBuffer_refl: "(\<And>b. R b b) \<Longrightarrow> EachBuffer R bm bm"
  by (simp add: EachBuffer_def)

lemma EachBuffer_trans:
  "(\<And>a b c. R a b \<Longrightarrow> R b c \<Longrightarrow> R a c) \<Longrightarrow> EachBuffer R x y \<Longrightarrow> EachBuffer R y z \<Longrightarrow>
     EachBuffer R x z"
  unfolding EachBuffer_def by meson

lemma DeclareBuffer_EachBuffer:
  "DeclareBuffer alg an prog op result attr bm = Some (outcome, bm') \<Longrightarrow>
     EachBuffer (Kept alg) bm bm'"
  unfolding EachBuffer_def using DeclareBuffer_Kept by blast

lemma DeclareExternalBuffer_EachBuffer:
  assumes d: "DeclareExternalBuffer alg an prog op m bm = Some (outcome, bm')"
  shows "EachBuffer (Kept alg) bm bm'"
proof -
  let ?iter_space = "GetIterationSpace an op"
  let ?name = "memref_buffer_name m"
  let ?nb = "Buffer_import alg prog op m (loop_names ?iter_space)
               (GetLoopNest an (loop_names ?iter_space))"
  let ?bm1 = "fst (try_emplace ?name ?nb bm)"
  have e1: "EachBuffer (Kept alg) bm ?bm1"
    by (simp add: EachBuffer_def map_of_try_emplace Kept_refl)
  show ?thesis
  proof (cases "snd (try_emplace ?name ?nb bm)")
    case False
    with d have "bm' = ?bm1"
      by (simp add: DeclareExternalBuffer_def Let_def split: prod.splits)
    with e1 show ?thesis by simp
  next
    case True
    with d obtain buffer buffer1 l where
      b: "map_of ?bm1 ?name = Some buffer"
      and u: "UnifyBufferShape alg an prog ?name op l ?iter_space buffer = Some (outcome, buffer1)"
      and bm': "bm' = assign ?name buffer1 ?bm1"
      by (auto simp: DeclareExternalBuffer_def Let_def split: prod.splits option.splits)
    from UnifyBufferShape_Kept [OF u] have k: "Kept alg buffer buffer1" by simp
    have "EachBuffer (Kept alg) ?bm1 bm'"
      unfolding EachBuffer_def bm' using b k by (auto simp: map_of_assign Kept_refl)
    with e1 show ?thesis by (rule EachBuffer_trans [rotated 1]) (rule Kept_trans)
  qed
qed

lemma DeclareExternalBuffers_EachBuffer:
  "DeclareExternalBuffers alg an prog operations bm = Some (outcome, bm') \<Longrightarrow>
     EachBuffer (Kept alg) bm bm'"
proof (induction operations arbitrary: bm)
  case Nil
  then show ?case by (simp add: EachBuffer_refl Kept_refl)
next
  case (Cons op operations)
  show ?case
  proof (cases "op_memref (ops prog op)")
    case None
    with Cons show ?thesis by simp
  next
    case (Some m)
    with Cons.prems obtain r bm1 where
      d: "DeclareExternalBuffer alg an prog op m bm = Some (r, bm1)"
      by (auto split: option.splits)
    note e = DeclareExternalBuffer_EachBuffer [OF d]
    show ?thesis
    proof (cases r)
      case Succeeded
      with Cons.prems Some d have "DeclareExternalBuffers alg an prog operations bm1 = Some (outcome, bm')"
        by simp
      from e Cons.IH [OF this] show ?thesis
        by (rule EachBuffer_trans [rotated 1]) (rule Kept_trans)
    next
      case (Failed x)
      with Cons.prems Some d have "bm' = bm1" by simp
      with e show ?thesis by simp
    qed
  qed
qed

lemma DeclareResults_EachBuffer:
  "DeclareResults alg an prog op results bm = Some (outcome, bm') \<Longrightarrow>
     EachBuffer (Kept alg) bm bm'"
proof (induction results arbitrary: bm)
  case Nil
  then show ?case by (simp add: EachBuffer_refl Kept_refl)
next
  case (Cons i results)
  from Cons.prems obtain r bm1 where
    d: "DeclareBuffer alg an prog op i (Storage (ops prog op) i) bm = Some (r, bm1)"
    by (auto split: option.splits)
  note e = DeclareBuffer_EachBuffer [OF d]
  show ?case
  proof (cases r)
    case Succeeded
    with Cons.prems d have "DeclareResults alg an prog op results bm1 = Some (outcome, bm')"
      by simp
    from e Cons.IH [OF this] show ?thesis
      by (rule EachBuffer_trans [rotated 1]) (rule Kept_trans)
  next
    case (Failed x)
    with Cons.prems d have "bm' = bm1" by simp
    with e show ?thesis by simp
  qed
qed

lemma DeclareInternalBuffers_EachBuffer:
  "DeclareInternalBuffers alg an prog operations bm = Some (outcome, bm') \<Longrightarrow>
     EachBuffer (Kept alg) bm bm'"
proof (induction operations arbitrary: bm)
  case Nil
  then show ?case by (simp add: EachBuffer_refl Kept_refl)
next
  case (Cons op operations)
  show ?case
  proof (cases "isComputeOp (ops prog op)")
    case False
    with Cons show ?thesis by simp
  next
    case True
    with Cons.prems obtain r bm1 where
      d: "DeclareResults alg an prog op [0..<getNumResults prog op] bm = Some (r, bm1)"
      by (auto split: option.splits)
    note e = DeclareResults_EachBuffer [OF d]
    show ?thesis
    proof (cases r)
      case Succeeded
      with Cons.prems True d have
        "DeclareInternalBuffers alg an prog operations bm1 = Some (outcome, bm')"
        by simp
      from e Cons.IH [OF this] show ?thesis
        by (rule EachBuffer_trans [rotated 1]) (rule Kept_trans)
    next
      case (Failed x)
      with Cons.prems True d have "bm' = bm1" by simp
      with e show ?thesis by simp
    qed
  qed
qed

lemma DeclareBuffers_EachBuffer:
  assumes d: "DeclareBuffers alg an prog bm = Some (outcome, bm')"
  shows "EachBuffer (Kept alg) bm bm'"
proof -
  from d obtain r1 bm1 where
    e: "DeclareExternalBuffers alg an prog [0..<num_ops prog] bm = Some (r1, bm1)"
    by (auto simp: DeclareBuffers_def split: option.splits)
  note k1 = DeclareExternalBuffers_EachBuffer [OF e]
  show ?thesis
  proof (cases r1)
    case (Failed x)
    with d e have "bm' = bm1" by (simp add: DeclareBuffers_def)
    with k1 show ?thesis by simp
  next
    case Succeeded
    with d e obtain r2 bm2 where
      i: "DeclareInternalBuffers alg an prog [0..<num_ops prog] bm1 = Some (r2, bm2)"
      by (auto simp: DeclareBuffers_def split: option.splits)
    note k2 = DeclareInternalBuffers_EachBuffer [OF i]
    from d e i Succeeded have "bm' = bm2"
      by (cases r2) (simp_all add: DeclareBuffers_def)
    with k1 k2 show ?thesis
      by (auto intro: EachBuffer_trans [rotated 1] Kept_trans)
  qed
qed

section \<open>Facts about fully specified layouts\<close>

lemma NotFullySpecified_Cons:
  "NotFullySpecified bm d \<Longrightarrow> NotFullySpecified (e # bm) d"
proof -
  assume "NotFullySpecified bm d"
  then obtain name b l where
    h: "(name, b) \<in> set bm" "buf_layout b = Some l" "HasNoneExprs l"
      "d = emitError (buf_loc b)
             [Str ''buffer '', Name (Some name), Str '' layout is not fully specified'']"
    unfolding NotFullySpecified_def by blast
  from h(1) have "(name, b) \<in> set (e # bm)" by simp
  with h(2-4) show ?thesis unfolding NotFullySpecified_def by blast
qed

lemma NotFullySpecified_here:
  "buf_layout b = Some l \<Longrightarrow> HasNoneExprs l \<Longrightarrow>
     NotFullySpecified ((name, b) # bm)
       (emitError (buf_loc b)
          [Str ''buffer '', Name (Some name), Str '' layout is not fully specified''])"
proof -
  assume h: "buf_layout b = Some l" "HasNoneExprs l"
  have "(name, b) \<in> set ((name, b) # bm)" by simp
  with h show ?thesis unfolding NotFullySpecified_def by blast
qed

lemma CheckLayoutsFullySpecified_Succeeded:
  "CheckLayoutsFullySpecified bm = Succeeded \<longleftrightarrow> FullySpecified bm"
  by (induction bm rule: CheckLayoutsFullySpecified.induct)
     (auto simp: FullySpecified_def split: option.splits)

lemma CheckLayoutsFullySpecified_Failed:
  "CheckLayoutsFullySpecified bm = Failed d \<Longrightarrow> NotFullySpecified bm d"
proof (induction bm rule: CheckLayoutsFullySpecified.induct)
  case 1
  then show ?case by simp
next
  case (2 name buffer rest)
  show ?case
  proof (cases "buf_layout buffer")
    case None
    with 2 show ?thesis by (simp add: NotFullySpecified_Cons)
  next
    case (Some l)
    show ?thesis
    proof (cases "HasNoneExprs l")
      case True
      with 2(3) Some have
        "d = emitError (buf_loc buffer)
               [Str ''buffer '', Name (Some name), Str '' layout is not fully specified'']"
        by simp
      with NotFullySpecified_here [OF Some True] show ?thesis by simp
    next
      case False
      with 2 Some show ?thesis by (simp add: NotFullySpecified_Cons)
    qed
  qed
qed

lemma NotFullySpecified_not_fully:
  "NotFullySpecified bm d \<Longrightarrow> \<not> FullySpecified bm"
proof
  assume "NotFullySpecified bm d" and f: "FullySpecified bm"
  then obtain name b l where
    h: "(name, b) \<in> set bm" "buf_layout b = Some l" "HasNoneExprs l"
    unfolding NotFullySpecified_def by blast
  from f h(1) have "\<forall>l. buf_layout b = Some l \<longrightarrow> \<not> HasNoneExprs l"
    unfolding FullySpecified_def by blast
  with h(2,3) show False by blast
qed

lemma Kept_SameDeclaration: "EachBuffer (Kept alg) bm bm' \<Longrightarrow> EachBuffer SameDeclaration bm bm'"
  unfolding EachBuffer_def Kept_def by blast

section \<open>Facts about the checks of a declaration\<close>

lemma DeclareBuffer_existing:
  assumes "attr = Some a" "ba_name a = Some name" "map_of bm name = Some buffer"
    "result < length (result_types (ops prog op))"
  shows "DeclareBuffer alg an prog op result attr bm =
     (if buf_element_type buffer \<noteq> result_types (ops prog op) ! result
      then Some (Failed (ElementTypeConflict (getLoc (ops prog op)) name (buf_loc buffer)), bm)
      else
        case GetBufferLayout alg an op a of
          None \<Rightarrow> None
        | Some layout \<Rightarrow>
            if rank buffer \<noteq> None \<and> layout \<noteq> None
               \<and> rank buffer \<noteq> map_option MappingSize layout
            then Some (Failed (RankConflict (getLoc (ops prog op)) name (buf_loc buffer)), bm)
            else
              (case TrimBufferLoopNestForAccess alg an (GetIterationSpace an op) layout buffer of
                 None \<Rightarrow> None
               | Some buffer1 \<Rightarrow>
                   (case layout of
                      None \<Rightarrow> Some (Succeeded, assign name buffer1 bm)
                    | Some l \<Rightarrow>
                        (case UnifyBufferShape alg an prog name op l (GetIterationSpace an op)
                                buffer1 of
                           None \<Rightarrow> None
                         | Some (outcome, buffer2) \<Rightarrow>
                             Some (outcome, assign name buffer2 bm)))))"
  using assms
  by (simp add: DeclareBuffer_def try_emplace_def Let_def)

lemma DeclareBuffer_existing_failure:
  assumes "attr = Some a" "ba_name a = Some name" "map_of bm name = Some buffer"
    "result < length (result_types (ops prog op))"
    "buf_element_type buffer = result_types (ops prog op) ! result"
    "DeclareBuffer alg an prog op result attr bm = Some (Failed d, bm')"
  shows "d = RankConflict (getLoc (ops prog op)) name (buf_loc buffer) \<or>
         (\<exists>l b1 b2. UnifyBufferShape alg an prog name op l (GetIterationSpace an op) b1
                       = Some (Failed d, b2))"
  using assms(5,6) unfolding DeclareBuffer_existing [OF assms(1-4)]
  by (auto split: option.splits if_splits)

section \<open>Facts about trimming loop nests\<close>

lemma CommonPrefixLength_le:
  "CommonPrefixLength xs ys \<le> length xs \<and> CommonPrefixLength xs ys \<le> length ys"
  by (induction xs ys rule: CommonPrefixLength.induct) auto

lemma CommonPrefixLength_take:
  "take (CommonPrefixLength xs ys) xs = take (CommonPrefixLength xs ys) ys"
  by (induction xs ys rule: CommonPrefixLength.induct) auto

lemma CommonPrefixLength_of_take:
  "CommonPrefixLength xs (take n ys) = min n (CommonPrefixLength xs ys)"
proof (induction xs ys arbitrary: n rule: CommonPrefixLength.induct)
  case (1 x xs y ys)
  then show ?case by (cases n) auto
qed simp_all

lemma max_loop_nest_TrimmedLength:
  "(case layout of
      None \<Rightarrow> NumCommonLoops iter_space nest
    | Some l \<Rightarrow>
        if 0 \<le> find_first (DependencyMask l) \<and>
           find_first (DependencyMask l) < int (NumCommonLoops iter_space nest)
        then nat (find_first (DependencyMask l)) else NumCommonLoops iter_space nest)
   = TrimmedLength iter_space layout nest"
  by (auto simp: TrimmedLength_def FirstIndexedLoop_def find_first_def NumCommonLoops_def Let_def
      split: option.splits list.splits)

lemma TrimmedLength_le:
  "TrimmedLength iter_space layout nest \<le> length nest \<and>
   TrimmedLength iter_space layout nest \<le> length (loop_names iter_space) \<and>
   TrimmedLength iter_space layout nest \<le> CommonPrefixLength (loop_names iter_space) nest"
  using CommonPrefixLength_le [of "loop_names iter_space" nest]
  by (auto simp: TrimmedLength_def Let_def split: option.splits)

lemma Trim_unfold:
  "TrimBufferLoopNestForAccess alg an iter_space layout b =
     SetLoopNest alg
       (GetLoopNest an (take (TrimmedLength iter_space layout (buf_loop_nest b))
                          (loop_names iter_space))) b"
proof (cases layout)
  case None
  then show ?thesis
    by (simp add: TrimBufferLoopNestForAccess_def TrimmedLength_def NumCommonLoops_def)
next
  case (Some l)
  have "(if 0 \<le> find_first (DependencyMask l) \<and>
            find_first (DependencyMask l) < int (NumCommonLoops iter_space (buf_loop_nest b))
         then nat (find_first (DependencyMask l)) else NumCommonLoops iter_space (buf_loop_nest b))
        = TrimmedLength iter_space (Some l) (buf_loop_nest b)"
    using max_loop_nest_TrimmedLength
            [where layout = "Some l" and iter_space = iter_space and nest = "buf_loop_nest b"]
    by simp
  with Some show ?thesis by (simp add: TrimBufferLoopNestForAccess_def Let_def)
qed

lemma Trim_loop_nest:
  assumes c: "OneExprPerLoop an"
    and t: "TrimBufferLoopNestForAccess alg an iter_space layout b = Some b'"
  shows "buf_loop_nest b' = take (TrimmedLength iter_space layout (buf_loop_nest b)) (buf_loop_nest b)"
    and "buf_loop_nest b' = take (TrimmedLength iter_space layout (buf_loop_nest b))
                              (loop_names iter_space)"
proof -
  let ?n = "TrimmedLength iter_space layout (buf_loop_nest b)"
  let ?k = "CommonPrefixLength (loop_names iter_space) (buf_loop_nest b)"
  note le = TrimmedLength_le [of iter_space layout "buf_loop_nest b"]
  from c have "MappingSize (domain_to_loops (GetLoopNest an (take ?n (loop_names iter_space))))
                 = length (take ?n (loop_names iter_space))"
    unfolding OneExprPerLoop_def by blast
  with le have size: "MappingSize (domain_to_loops (GetLoopNest an (take ?n (loop_names iter_space))))
                 = ?n" by simp
  from t SetLoopNest_loop_nest [of alg _ b b'] size
  show 1: "buf_loop_nest b' = take ?n (buf_loop_nest b)"
    unfolding Trim_unfold by auto
  have "take ?n (buf_loop_nest b) = take ?n (take ?k (buf_loop_nest b))"
    using le by (simp add: min_def)
  also have "\<dots> = take ?n (take ?k (loop_names iter_space))"
    by (simp only: CommonPrefixLength_take)
  also have "\<dots> = take ?n (loop_names iter_space)"
    using le by (simp add: min_def)
  finally show "buf_loop_nest b' = take ?n (loop_names iter_space)" using 1 by simp
qed

lemma set_bits_less: "i \<in> set (set_bits bv) \<Longrightarrow> i < length bv"
  by (simp add: set_bits_def)

lemma SetLoopNest_returns:
  assumes "MappingSize (domain_to_loops ln) \<le> length (buf_loop_nest b)"
    and "length (ln_domain ln) \<le> length (buf_domain b)"
    and "\<forall>l. buf_layout b = Some l \<longrightarrow> UseDomainSize l \<le> length (buf_domain b)"
  shows "\<exists>b'. SetLoopNest alg ln b = Some b'"
proof -
  let ?p0 = "map (\<lambda>i. i < length (ln_domain ln)) [0..<length (buf_domain b)]"
  let ?p = "case buf_layout b of Some l \<Rightarrow> bv_or ?p0 (DependencyMask l) | None \<Rightarrow> ?p0"
  have "length ?p \<le> length (buf_domain b)"
    using assms(3) by (auto simp: bv_or_def DependencyMask_def split: option.splits)
  then have "\<not> list_ex (\<lambda>dim. length (buf_domain b) \<le> dim) (set_bits ?p)"
    by (auto simp: list_ex_iff dest!: set_bits_less)
  with assms(1,2) show ?thesis
    by (auto simp: SetLoopNest_def Let_def split: prod.splits)
qed

lemma Trim_returns:
  assumes c: "OneExprPerLoop an"
    and "length (ln_domain (GetLoopNest an
            (take (TrimmedLength iter_space layout (buf_loop_nest b)) (loop_names iter_space))))
         \<le> length (buf_domain b)"
    and "\<forall>l. buf_layout b = Some l \<longrightarrow> UseDomainSize l \<le> length (buf_domain b)"
  shows "\<exists>b'. TrimBufferLoopNestForAccess alg an iter_space layout b = Some b'"
proof -
  let ?n = "TrimmedLength iter_space layout (buf_loop_nest b)"
  note le = TrimmedLength_le [of iter_space layout "buf_loop_nest b"]
  from c have "MappingSize (domain_to_loops (GetLoopNest an (take ?n (loop_names iter_space))))
                 = length (take ?n (loop_names iter_space))"
    unfolding OneExprPerLoop_def by blast
  with le have "MappingSize (domain_to_loops (GetLoopNest an (take ?n (loop_names iter_space))))
                 \<le> length (buf_loop_nest b)" by simp
  from SetLoopNest_returns [OF this assms(2,3)] show ?thesis unfolding Trim_unfold .
qed

lemma TrimForUsers_loop_nest:
  assumes c: "OneExprPerLoop an"
  shows "TrimForUsers alg an users b1 = Some b2 \<Longrightarrow> buf_loop_nest b1 = take m nest \<Longrightarrow>
         m \<le> length nest \<Longrightarrow>
         buf_loop_nest b2 =
           take (fold (\<lambda>op n. min n (CommonPrefixLength (loop_names (GetIterationSpace an op)) nest))
                   users m) nest"
proof (induction users arbitrary: b1 m)
  case Nil
  then show ?case by simp
next
  case (Cons user users)
  let ?k = "CommonPrefixLength (loop_names (GetIterationSpace an user)) nest"
  from Cons.prems(1) obtain b where
    t: "TrimBufferLoopNestForAccess alg an (GetIterationSpace an user) None b1 = Some b"
    and rest: "TrimForUsers alg an users b = Some b2"
    by (auto split: option.splits)
  from Trim_loop_nest(1) [OF c t] Cons.prems(2,3)
  have "buf_loop_nest b = take (min m ?k) nest"
    by (simp add: TrimmedLength_def CommonPrefixLength_of_take min_def)
  moreover have "min m ?k \<le> length nest" using Cons.prems(3) by simp
  ultimately show ?case using Cons.IH [OF rest] by simp
qed

lemma RegisterBufferUse_loop_nest:
  assumes c: "OneExprPerLoop an"
    and r: "RegisterBufferUse alg an prog v new storage buffers = Some buffers'"
    and n: "vs_buffer_name storage = None" "vs_buffer_name new = Some name"
    and b: "map_of buffers name = Some b"
  shows "\<exists>b'. map_of buffers' name = Some b' \<and>
           buf_loop_nest b' =
             take (CommonLoops an (getDefiningOp v # getUsers prog v) (buf_loop_nest b))
               (buf_loop_nest b)"
proof -
  let ?nest = "buf_loop_nest b"
  let ?k = "CommonPrefixLength (loop_names (GetIterationSpace an (getDefiningOp v))) ?nest"
  from r n b obtain b1 b2 where
    t: "TrimBufferLoopNestForAccess alg an (GetIterationSpace an (getDefiningOp v)) None
          (AddValue prog v b) = Some b1"
    and u: "TrimForUsers alg an (getUsers prog v) b1 = Some b2"
    and bs: "buffers' = assign name b2 buffers"
    by (auto simp: RegisterBufferUse_def split: option.splits)
  have a: "buf_loop_nest (AddValue prog v b) = ?nest"
    by (simp add: AddValue_def Let_def)
  from Trim_loop_nest(1) [OF c t] a have "buf_loop_nest b1 = take ?k ?nest"
    by (simp add: TrimmedLength_def)
  moreover have "?k \<le> length ?nest" using CommonPrefixLength_le by blast
  ultimately have "buf_loop_nest b2 =
      take (fold (\<lambda>op n. min n (CommonPrefixLength (loop_names (GetIterationSpace an op)) ?nest))
              (getUsers prog v) ?k) ?nest"
    by (rule TrimForUsers_loop_nest [OF c u])
  moreover have "min (length ?nest) ?k = ?k"
    using CommonPrefixLength_le [of "loop_names (GetIterationSpace an (getDefiningOp v))" ?nest]
    by (simp add: min_def)
  ultimately have "buf_loop_nest b2 =
      take (CommonLoops an (getDefiningOp v # getUsers prog v) ?nest) ?nest"
    by (simp add: CommonLoops_def)
  with bs b show ?thesis by (simp add: map_of_assign)
qed

lemma UpdateStorage_buffers:
  "UpdateStorage alg an prog v new storage buffers = Some (outcome, s', buffers') \<Longrightarrow>
     RegisterBufferUse alg an prog v new storage buffers = Some buffers'"
  by (auto simp: UpdateStorage_def Let_def split: option.splits prod.splits LogicalResult.splits)

section \<open>Facts about the loop nest after a declaration\<close>

lemma UnifyBufferShape_loop_nest:
  "UnifyBufferShape alg an prog name op layout iter_space b = Some (outcome, b') \<Longrightarrow>
     buf_loop_nest b' = buf_loop_nest b"
  using UnifyBufferShape_Kept by blast

lemma DeclareBuffer_loop_nest:
  assumes c: "OneExprPerLoop an"
    and e: "attr = Some a" "ba_name a = Some name" "map_of bm name = Some buffer"
      "result < length (result_types (ops prog op))"
    and g: "GetBufferLayout alg an op a = Some layout"
    and d: "DeclareBuffer alg an prog op result attr bm = Some (Succeeded, bm')"
  shows "\<exists>buffer'. map_of bm' name = Some buffer' \<and>
           buf_loop_nest buffer' =
             take (TrimmedLength (GetIterationSpace an op) layout (buf_loop_nest buffer))
               (buf_loop_nest buffer)"
proof -
  from d g obtain b1 where
    t: "TrimBufferLoopNestForAccess alg an (GetIterationSpace an op) layout buffer = Some b1"
    unfolding DeclareBuffer_existing [OF e] by (auto split: if_splits option.splits)
  note n = Trim_loop_nest(1) [OF c t]
  show ?thesis
  proof (cases layout)
    case None
    with d g t have "bm' = assign name b1 bm"
      unfolding DeclareBuffer_existing [OF e] by (auto split: if_splits)
    with n e(3) show ?thesis by (simp add: map_of_assign)
  next
    case (Some l)
    with d g t obtain b2 where
      u: "UnifyBufferShape alg an prog name op l (GetIterationSpace an op) b1 = Some (Succeeded, b2)"
      and bm': "bm' = assign name b2 bm"
      unfolding DeclareBuffer_existing [OF e] by (auto split: if_splits option.splits)
    from UnifyBufferShape_loop_nest [OF u] n bm' e(3) show ?thesis
      by (simp add: map_of_assign)
  qed
qed

lemma AddDimensionsToBuffer_loop_nest:
  assumes c: "OneExprPerLoop an"
    and a: "AddDimensionsToBuffer alg an prog name op op_iter_space new_layout (bm, storages)
              = Some (bm', storages')"
    and b: "map_of bm name = Some buffer"
  shows "\<exists>buffer'. map_of bm' name = Some buffer' \<and>
           buf_loop_nest buffer' =
             take (TrimmedLength op_iter_space (Some new_layout) (buf_loop_nest buffer))
               (buf_loop_nest buffer)"
proof -
  from a b obtain b1 b2 b3 n where
    t: "TrimBufferLoopNestForAccess alg an op_iter_space (Some new_layout) buffer = Some b1"
    and p: "AddNonePrefixToLayout n b1 = Some b2"
    and u: "UnifyBufferShape alg an prog name op new_layout op_iter_space b2 = Some (Succeeded, b3)"
    and bm': "bm' = assign name b3 bm"
    by (auto simp: AddDimensionsToBuffer_def split: option.splits if_splits Outcome.splits)
  from p have "buf_loop_nest b2 = buf_loop_nest b1"
    by (auto simp: AddNonePrefixToLayout_def split: option.splits if_splits)
  with Trim_loop_nest(1) [OF c t] UnifyBufferShape_loop_nest [OF u] bm' b
  show ?thesis by (simp add: map_of_assign)
qed

section \<open>Facts about the length of loop nests\<close>

lemma LoopNestShrinks_refl: "LoopNestShrinks b b"
  by (simp add: LoopNestShrinks_def)

lemma Kept_shrinks: "Kept alg b b' \<Longrightarrow> LoopNestShrinks b b'"
  by (simp add: Kept_def)

lemma EachBuffer_Kept_shrinks: "EachBuffer (Kept alg) bm bm' \<Longrightarrow> EachBuffer LoopNestShrinks bm bm'"
  unfolding EachBuffer_def using Kept_shrinks by blast

lemma EachBuffer_assign:
  assumes b: "map_of bm name = Some b" and r: "R b b'" and refl: "\<And>x. R x x"
  shows "EachBuffer R bm (assign name b' bm)"
  unfolding EachBuffer_def using b r refl by (auto simp: map_of_assign)

lemma VerifyAndMinimizeBuffer_shrinks:
  "VerifyAndMinimizeBuffer alg an prog name b = Some (outcome, b') \<Longrightarrow> LoopNestShrinks b b'"
  unfolding VerifyAndMinimizeBuffer_def Let_def
  by (auto split: option.splits sum.splits if_splits
      intro: LoopNestShrinks_refl Kept_shrinks [OF SetLoopNest_Kept])

lemma VerifyAndMinimizeBufferLoopNests_EachBuffer:
  "VerifyAndMinimizeBufferLoopNests alg an prog bm = Some (outcome, bm') \<Longrightarrow>
     EachBuffer LoopNestShrinks bm bm' \<and> map fst bm' = map fst bm"
proof (induction bm arbitrary: outcome bm')
  case Nil
  then show ?case by (simp add: EachBuffer_def)
next
  case (Cons p rest)
  obtain name b where p: "p = (name, b)" by (cases p)
  from Cons.prems p obtain r b1 where
    v: "VerifyAndMinimizeBuffer alg an prog name b = Some (r, b1)"
    by (auto split: option.splits)
  note s = VerifyAndMinimizeBuffer_shrinks [OF v]
  show ?case
  proof (cases r)
    case (Failed d)
    with Cons.prems p v have "bm' = (name, b1) # rest" by simp
    with s p show ?thesis by (simp add: EachBuffer_def LoopNestShrinks_refl)
  next
    case Succeeded
    with Cons.prems p v obtain rest1 where
      n: "VerifyAndMinimizeBufferLoopNests alg an prog rest = Some (outcome, rest1)"
      and bm': "bm' = (name, b1) # rest1"
      by (auto split: option.splits)
    from Cons.IH [OF n] s p bm' show ?thesis by (simp add: EachBuffer_def)
  qed
qed

lemma TrimForUsers_shrinks:
  "TrimForUsers alg an users b = Some b' \<Longrightarrow> LoopNestShrinks b b'"
proof (induction users arbitrary: b)
  case Nil
  then show ?case by (simp add: LoopNestShrinks_refl)
next
  case (Cons user rest)
  from Cons.prems obtain b1 where
    t: "TrimBufferLoopNestForAccess alg an (GetIterationSpace an user) None b = Some b1"
    and u: "TrimForUsers alg an rest b1 = Some b'"
    by (auto split: option.splits)
  from Kept_shrinks [OF Trim_Kept [OF t]] Cons.IH [OF u] show ?case
    by (rule LoopNestShrinks_trans)
qed

lemma RegisterBufferUse_EachBuffer:
  assumes r: "RegisterBufferUse alg an prog v new storage bm = Some bm'"
  shows "EachBuffer LoopNestShrinks bm bm'"
proof (cases "bm' = bm")
  case True
  then show ?thesis by (simp add: EachBuffer_refl LoopNestShrinks_refl)
next
  case False
  with r obtain name b b1 b2 where
    b: "map_of bm name = Some b"
    and t: "TrimBufferLoopNestForAccess alg an (GetIterationSpace an (getDefiningOp v)) None
              (AddValue prog v b) = Some b1"
    and u: "TrimForUsers alg an (getUsers prog v) b1 = Some b2"
    and bm': "bm' = assign name b2 bm"
    by (auto simp: RegisterBufferUse_def split: option.splits if_splits)
  have "LoopNestShrinks b (AddValue prog v b)"
    by (simp add: LoopNestShrinks_def AddValue_def Let_def)
  from this Kept_shrinks [OF Trim_Kept [OF t]] have "LoopNestShrinks b b1"
    by (rule LoopNestShrinks_trans)
  from this TrimForUsers_shrinks [OF u] have "LoopNestShrinks b b2"
    by (rule LoopNestShrinks_trans)
  with b bm' show ?thesis by (simp add: EachBuffer_assign LoopNestShrinks_refl)
qed

lemma AddDimensionsToBuffer_EachBuffer:
  assumes a: "AddDimensionsToBuffer alg an prog name op op_iter_space new_layout (bm, storages)
                = Some (bm', storages')"
  shows "EachBuffer LoopNestShrinks bm bm'"
proof -
  from a obtain b b1 b2 b3 n where
    b: "map_of bm name = Some b"
    and t: "TrimBufferLoopNestForAccess alg an op_iter_space (Some new_layout) b = Some b1"
    and p: "AddNonePrefixToLayout n b1 = Some b2"
    and u: "UnifyBufferShape alg an prog name op new_layout op_iter_space b2 = Some (Succeeded, b3)"
    and bm': "bm' = assign name b3 bm"
    by (auto simp: AddDimensionsToBuffer_def split: option.splits if_splits Outcome.splits)
  from p have "buf_loop_nest b2 = buf_loop_nest b1"
    by (auto simp: AddNonePrefixToLayout_def split: option.splits if_splits)
  with Kept_shrinks [OF Trim_Kept [OF t]] UnifyBufferShape_loop_nest [OF u]
  have "LoopNestShrinks b b3" by (simp add: LoopNestShrinks_def)
  with b bm' show ?thesis by (simp add: EachBuffer_assign LoopNestShrinks_refl)
qed

lemma Mutate_EachBuffer:
  "Mutate alg an prog m bm = Some bm' \<Longrightarrow> EachBuffer LoopNestShrinks bm bm'"
proof (cases m)
  case Declare
  moreover assume "Mutate alg an prog m bm = Some bm'"
  ultimately obtain outcome where "DeclareBuffers alg an prog bm = Some (outcome, bm')"
    by auto
  from EachBuffer_Kept_shrinks [OF DeclareBuffers_EachBuffer [OF this]] show ?thesis .
next
  case (Update v new storage)
  moreover assume "Mutate alg an prog m bm = Some bm'"
  ultimately obtain outcome s' where
    "UpdateStorage alg an prog v new storage bm = Some (outcome, s', bm')"
    by auto
  from RegisterBufferUse_EachBuffer [OF UpdateStorage_buffers [OF this]] show ?thesis .
next
  case (AddDimensions name op op_iter_space new_layout storages)
  moreover assume "Mutate alg an prog m bm = Some bm'"
  ultimately obtain storages' where
    "AddDimensionsToBuffer alg an prog name op op_iter_space new_layout (bm, storages)
       = Some (bm', storages')"
    by auto
  from AddDimensionsToBuffer_EachBuffer [OF this] show ?thesis .
next
  case Minimize
  moreover assume "Mutate alg an prog m bm = Some bm'"
  ultimately obtain outcome where
    "VerifyAndMinimizeBufferLoopNests alg an prog bm = Some (outcome, bm')"
    by auto
  from VerifyAndMinimizeBufferLoopNests_EachBuffer [OF this] show ?thesis by simp
qed

lemma Mutations_EachBuffer:
  "Mutations alg an prog ms bm = Some bm' \<Longrightarrow> EachBuffer LoopNestShrinks bm bm'"
proof (induction ms arbitrary: bm)
  case Nil
  then show ?case by (simp add: EachBuffer_refl LoopNestShrinks_refl)
next
  case (Cons m rest)
  from Cons.prems obtain bm1 where
    m: "Mutate alg an prog m bm = Some bm1" and r: "Mutations alg an prog rest bm1 = Some bm'"
    by (auto split: option.splits)
  from Mutate_EachBuffer [OF m] Cons.IH [OF r] show ?case
    by (rule EachBuffer_trans [rotated, OF _ _ ]) (rule LoopNestShrinks_trans)
qed

section \<open>Facts about the first declaration of a buffer and about adding dimensions\<close>

lemma CommonPrefixLength_same: "CommonPrefixLength xs xs = length xs"
  by (induction xs) auto

lemma DeclareBuffer_first_loop_nest:
  assumes c: "OneExprPerLoop an"
    and e: "attr = Some a" "ba_name a = Some name" "map_of bm name = None"
      "result < length (result_types (ops prog op))"
    and g: "GetBufferLayout alg an op a = Some layout"
    and d: "DeclareBuffer alg an prog op result attr bm = Some (outcome, bm')"
  shows "\<exists>buffer'. map_of bm' name = Some buffer' \<and>
           buf_loop_nest buffer' =
             take (TrimmedLength (GetIterationSpace an op) layout
                     (loop_names (GetIterationSpace an op)))
               (loop_names (GetIterationSpace an op))"
proof -
  let ?it = "GetIterationSpace an op"
  let ?ty = "result_types (ops prog op) ! result"
  let ?nb = "Buffer_new alg (getLoc (ops prog op)) ?ty (loop_names ?it)
               (GetLoopNest an (loop_names ?it))"
  let ?bm1 = "fst (try_emplace name ?nb bm)"
  from e(3) have found: "map_of ?bm1 name = Some ?nb"
    by (simp add: map_of_try_emplace)
  have new: "buf_element_type ?nb = ?ty" "rank ?nb = None" "buf_loop_nest ?nb = loop_names ?it"
    by (simp_all add: Buffer_new_def rank_def)
  from d e g found new obtain b1 where
    t: "TrimBufferLoopNestForAccess alg an ?it layout ?nb = Some b1"
    by (auto simp: DeclareBuffer_def Let_def split: option.splits)
  from Trim_loop_nest(1) [OF c t] new(3)
  have n1: "buf_loop_nest b1 = take (TrimmedLength ?it layout (loop_names ?it)) (loop_names ?it)"
    by simp
  show ?thesis
  proof (cases layout)
    case None
    with d e g found new t have "bm' = assign name b1 ?bm1"
      by (simp add: DeclareBuffer_def Let_def)
    with found n1 show ?thesis by (simp add: map_of_assign)
  next
    case (Some l)
    with d e g found new t obtain b2 where
      u: "UnifyBufferShape alg an prog name op l ?it b1 = Some (outcome, b2)"
      and bm': "bm' = assign name b2 ?bm1"
      by (auto simp: DeclareBuffer_def Let_def split: option.splits)
    from UnifyBufferShape_loop_nest [OF u] n1 bm' found show ?thesis
      by (simp add: map_of_assign)
  qed
qed

lemma AddUnknownPrefixToValues_returns:
  "0 \<le> n \<Longrightarrow> \<forall>v \<in> set vs. \<exists>s l. storages v = Some s \<and> vs_layout s = Some l \<Longrightarrow>
     \<exists>storages'. AddUnknownPrefixToValues n vs storages = Some storages'"
proof (induction vs arbitrary: storages)
  case Nil
  then show ?case by simp
next
  case (Cons v rest)
  from Cons.prems(2) obtain s l where s: "storages v = Some s" "vs_layout s = Some l"
    by auto
  let ?s1 = "s\<lparr>vs_layout := Some (AddPrefix l (replicate (nat n) MappingUnknownExpr))\<rparr>"
  from s Cons.prems(1) have p: "AddUnknownPrefixToLayout n s = Some ?s1"
    by (simp add: AddUnknownPrefixToLayout_def)
  have "\<forall>w \<in> set rest. \<exists>s' l'. (storages(v \<mapsto> ?s1)) w = Some s' \<and> vs_layout s' = Some l'"
    using Cons.prems(2) by auto
  from Cons.IH [OF Cons.prems(1) this] obtain storages' where
    "AddUnknownPrefixToValues n rest (storages(v \<mapsto> ?s1)) = Some storages'"
    by blast
  with s p show ?case by simp
qed

lemma UnifyBufferShape_values:
  assumes u: "UnifyBufferShape alg an prog name op layout iter_space b = Some (outcome, b')"
  shows "buf_values b' = buf_values b"
proof (cases outcome)
  case Succeeded
  with UnifyBufferShape_succeeded u obtain new_values l where
    "b' = UnifyLayout alg l (AppendToDomain alg new_values b)" by blast
  then show ?thesis
    by (simp add: UnifyLayout_def AppendToDomain_def Let_def split: option.splits)
next
  case (Failed d)
  with UnifyBufferShape_failed [OF u] show ?thesis by simp
qed

lemma AddDimensionsToBuffer_returns:
  assumes c: "OneExprPerLoop an" and k: "KeepsSize alg"
    and b: "map_of bm name = Some buffer" "buf_layout buffer = Some old_layout"
      "MappingSize old_layout \<le> MappingSize new_layout" "\<not> is_external buffer"
    and fits: "length (ln_domain (GetLoopNest an
                  (take (TrimmedLength op_iter_space (Some new_layout) (buf_loop_nest buffer))
                     (loop_names op_iter_space))))
               \<le> length (buf_domain buffer)"
      "UseDomainSize old_layout \<le> length (buf_domain buffer)"
    and u: "\<forall>trimmed prefixed.
              TrimBufferLoopNestForAccess alg an op_iter_space (Some new_layout) buffer
                = Some trimmed \<and>
              AddNonePrefixToLayout (int (MappingSize new_layout) - int (MappingSize old_layout))
                trimmed = Some prefixed \<longrightarrow>
              (\<exists>unified. UnifyBufferShape alg an prog name op new_layout op_iter_space prefixed
                            = Some (Succeeded, unified))"
    and v: "\<forall>v \<in> set (buf_values buffer). \<exists>s l. storages v = Some s \<and> vs_layout s = Some l"
  shows "\<exists>result. AddDimensionsToBuffer alg an prog name op op_iter_space new_layout
                     (bm, storages) = Some result"
proof -
  let ?n = "int (MappingSize new_layout) - int (MappingSize old_layout)"
  from b(2) fits(2)
  have "\<forall>l. buf_layout buffer = Some l \<longrightarrow> UseDomainSize l \<le> length (buf_domain buffer)"
    by simp
  from Trim_returns [OF c fits(1) this] obtain b1 where
    t: "TrimBufferLoopNestForAccess alg an op_iter_space (Some new_layout) buffer = Some b1"
    by blast
  from b(2) have "rank buffer = Some (MappingSize old_layout)" by (simp add: rank_def)
  with Trim_Kept [OF t] k have r1: "rank b1 = Some (MappingSize old_layout)"
    by (simp add: Kept_def)
  then obtain l1 where l1: "buf_layout b1 = Some l1"
    by (auto simp: rank_def split: option.splits)
  let ?b2 = "b1\<lparr>buf_layout := Some (AddPrefix l1 (replicate (nat ?n) MappingNoneExpr))\<rparr>"
  from l1 b(3) have p: "AddNonePrefixToLayout ?n b1 = Some ?b2"
    by (simp add: AddNonePrefixToLayout_def)
  from u t p obtain b3 where
    u3: "UnifyBufferShape alg an prog name op new_layout op_iter_space ?b2 = Some (Succeeded, b3)"
    by blast
  from Trim_SetLoopNest [OF t] obtain ln where "SetLoopNest alg ln buffer = Some b1" by blast
  from SetLoopNest_frame [OF this] UnifyBufferShape_values [OF u3]
  have "buf_values b3 = buf_values buffer" by simp
  with v b(3) AddUnknownPrefixToValues_returns [of ?n "buf_values b3" storages]
  obtain storages' where
    a: "AddUnknownPrefixToValues ?n (buf_values b3) storages = Some storages'"
    by auto
  from b t r1 p u3 a show ?thesis
    by (simp add: AddDimensionsToBuffer_def)
qed

section \<open>Facts about the communication volume\<close>

lemma VerifyCommunicationVolume_common_loops:
  assumes "fully_specified use_iter_space = fully_specified other_iter_space"
    and "CommonPrefixLength
           (loop_names (GetIterationSpace an (getDefiningOp (va_value operand))))
           (loop_names use_iter_space)
         = CommonPrefixLength
             (loop_names (GetIterationSpace an (getDefiningOp (va_value operand))))
             (loop_names other_iter_space)"
  shows "VerifyCommunicationVolume alg an prog storages at use_iter_space operand
         = VerifyCommunicationVolume alg an prog storages at other_iter_space operand"
proof -
  let ?def = "GetIterationSpace an (getDefiningOp (va_value operand))"
  have "LayoutToCommunicationVolume alg layout rank ?def use_iter_space
        = LayoutToCommunicationVolume alg layout rank ?def other_iter_space" for layout rank
    using assms(2)
    by (simp add: LayoutToCommunicationVolume_def CommunicationVolume_def NumCommonLoops_def)
  with assms(1) show ?thesis
    by (simp add: VerifyCommunicationVolume_def Let_def split: option.splits)
qed

lemma VerifyCommunicationVolume_empty_volume:
  assumes sizes: "\<forall>a b. MappingSize (Compose alg a b) = MappingSize b"
      "\<forall>m. MappingSize (Canonicalize alg m) = MappingSize m"
    and s: "storages (va_value operand) = Some storage"
    and e: "MappingSize (CommunicationVolume alg (MappingSize (va_mapping operand))
              (GetIterationSpace an (getDefiningOp (va_value operand))) use_iter_space) = 0"
  shows "VerifyCommunicationVolume alg an prog storages at use_iter_space operand
         = Some Succeeded"
proof -
  have "\<not> HasNoneExprs
            (LayoutToCommunicationVolume alg layout (MappingSize (va_mapping operand))
               (GetIterationSpace an (getDefiningOp (va_value operand))) use_iter_space)"
    for layout
  proof -
    have "MappingSize
            (LayoutToCommunicationVolume alg layout (MappingSize (va_mapping operand))
               (GetIterationSpace an (getDefiningOp (va_value operand))) use_iter_space) = 0"
      using sizes e by (simp add: LayoutToCommunicationVolume_def Let_def)
    then show ?thesis by (simp add: HasNoneExprs_def MappingSize_def)
  qed
  with s show ?thesis
    by (simp add: VerifyCommunicationVolume_def Let_def split: option.splits)
qed

section \<open>Facts about mapping a storage through an operand\<close>

lemma MapOperand_unfold:
  "MapOperand alg an prog op operand s =
     (case vs_layout s of
        None \<Rightarrow> Some s
      | Some l \<Rightarrow>
          map_option (\<lambda>t. s\<lparr>vs_layout := Some (Canonicalize alg (Compose alg t l))\<rparr>)
            (TranslateMapping an op (getDefiningOp (va_value operand))
               (ResizeUseDomain alg
                  (Resize alg (va_mapping operand)
                     (length (op_domain (ops prog (getDefiningOp (va_value operand))))))
                  (length (op_domain (ops prog op))))))"
  by (simp add: MapOperand_def Map_def Let_def split: option.splits)

lemma SameLayoutInPlace_unfold:
  "SameLayoutInPlace alg an prog storages op result_storage operand \<longleftrightarrow>
     (\<forall>operand_storage.
        storages (va_value operand) = Some operand_storage \<longrightarrow>
        vs_buffer_name operand_storage = vs_buffer_name result_storage \<longrightarrow>
        (case vs_layout operand_storage of
           None \<Rightarrow> vs_layout result_storage = None
         | Some l \<Rightarrow>
             (\<forall>t. TranslateMapping an op (getDefiningOp (va_value operand))
                    (ResizeUseDomain alg
                       (Resize alg (va_mapping operand)
                          (length (op_domain (ops prog (getDefiningOp (va_value operand))))))
                       (length (op_domain (ops prog op)))) = Some t \<longrightarrow>
                  vs_layout result_storage = Some (Canonicalize alg (Compose alg t l)))))"
  unfolding SameLayoutInPlace_def MapOperand_unfold
  by (auto split: option.splits)

section \<open>The properties of the specification\<close>



text \<open>
  C2.  When \<^verbatim>\<open>DeclareBuffers\<close> succeeds, no buffer of the table has a layout with a none
  expression.  When its two walks, over the import operations and over the compute
  operations, have succeeded, \<^verbatim>\<open>DeclareBuffers\<close> succeeds exactly when no layout of the
  table they leave has a none expression, and otherwise fails with the diagnostic
  "buffer ... layout is not fully specified" of a buffer whose layout has one, emitted at
  the location of that buffer.  The location of a buffer, like its element type, is the
  same after \<^verbatim>\<open>DeclareBuffers\<close> as before.
\<close>

theorem declared_layouts_fully_specified:
  "(DeclareBuffers alg an prog buffers = Some (outcome, buffers') \<longrightarrow>
      (outcome = Succeeded \<longrightarrow> FullySpecified buffers') \<and>
      EachBuffer SameDeclaration buffers buffers')
   \<and> (DeclareExternalBuffers alg an prog [0..<num_ops prog] buffers = Some (Succeeded, imported) \<and>
       DeclareInternalBuffers alg an prog [0..<num_ops prog] imported = Some (Succeeded, declared)
       \<longrightarrow>
       (\<exists>result. DeclareBuffers alg an prog buffers = Some (result, declared) \<and>
          (result = Succeeded \<longleftrightarrow> FullySpecified declared) \<and>
          (\<forall>d. result = Failed d \<longrightarrow> NotFullySpecified declared d)))"
proof (intro conjI impI)
  assume d: "DeclareBuffers alg an prog buffers = Some (outcome, buffers')"
  show "EachBuffer SameDeclaration buffers buffers'"
    using DeclareBuffers_EachBuffer [OF d] by (rule Kept_SameDeclaration)
  show "FullySpecified buffers'" if "outcome = Succeeded"
    using d that
    by (auto simp: DeclareBuffers_def CheckLayoutsFullySpecified_Succeeded
        split: option.splits Outcome.splits)
next
  assume w: "DeclareExternalBuffers alg an prog [0..<num_ops prog] buffers = Some (Succeeded, imported) \<and>
       DeclareInternalBuffers alg an prog [0..<num_ops prog] imported = Some (Succeeded, declared)"
  then have r: "DeclareBuffers alg an prog buffers
                  = Some (CheckLayoutsFullySpecified declared, declared)"
    by (simp add: DeclareBuffers_def)
  have "(CheckLayoutsFullySpecified declared = Succeeded \<longleftrightarrow> FullySpecified declared) \<and>
        (\<forall>d. CheckLayoutsFullySpecified declared = Failed d \<longrightarrow> NotFullySpecified declared d)"
    by (simp add: CheckLayoutsFullySpecified_Succeeded CheckLayoutsFullySpecified_Failed)
  with r show "\<exists>result. DeclareBuffers alg an prog buffers = Some (result, declared) \<and>
          (result = Succeeded \<longleftrightarrow> FullySpecified declared) \<and>
          (\<forall>d. result = Failed d \<longrightarrow> NotFullySpecified declared d)"
    by blast
qed

text \<open>
  A result annotated with the layout \<^verbatim>\<open>[i]\<close> declares a buffer whose layout is fully
  specified; annotated with the layout \<^verbatim>\<open>[none]\<close>, a buffer whose layout is not, and
  the declaration fails at the location of the operation that first declared the buffer.
\<close>

theorem declared_layouts_fully_specified_witness:
  "DeclareBuffers ex_algebra ex_loop_i (ex_declare ''f32'' (ex_memory ''b'' [''i''])) []
     = Some (Succeeded, [(''b'', ex_declared ''f32'' [] [MappingDimExpr 0])])
   \<and> FullySpecified [(''b'', ex_declared ''f32'' [] [MappingDimExpr 0])]
   \<and> DeclareBuffers ex_algebra ex_loop_i (ex_declare ''f32'' ex_partial) []
     = Some (Failed \<lparr>diag_loc = 11,
                     diag_message = [Str ''buffer '', Name (Some ''b''),
                                     Str '' layout is not fully specified''],
                     diag_note = None\<rparr>,
             [(''b'', ex_declared ''f32'' [''i''] [MappingNoneExpr])])
   \<and> NotFullySpecified [(''b'', ex_declared ''f32'' [''i''] [MappingNoneExpr])]
       \<lparr>diag_loc = 11,
        diag_message = [Str ''buffer '', Name (Some ''b''), Str '' layout is not fully specified''],
        diag_note = None\<rparr>
   \<and> \<not> FullySpecified [(''b'', ex_declared ''f32'' [''i''] [MappingNoneExpr])]"
proof -
  let ?d = "\<lparr>diag_loc = 11,
             diag_message = [Str ''buffer '', Name (Some ''b''),
                             Str '' layout is not fully specified''],
             diag_note = None\<rparr>"
  have full: "DeclareBuffers ex_algebra ex_loop_i (ex_declare ''f32'' (ex_memory ''b'' [''i''])) []
                = Some (Succeeded, [(''b'', ex_declared ''f32'' [] [MappingDimExpr 0])])"
    by code_simp
  have partial: "DeclareBuffers ex_algebra ex_loop_i (ex_declare ''f32'' ex_partial) []
                   = Some (Failed ?d, [(''b'', ex_declared ''f32'' [''i''] [MappingNoneExpr])])"
    by code_simp
  have walks:
    "DeclareExternalBuffers ex_algebra ex_loop_i (ex_declare ''f32'' ex_partial)
       [0..<num_ops (ex_declare ''f32'' ex_partial)] [] = Some (Succeeded, [])"
    "DeclareInternalBuffers ex_algebra ex_loop_i (ex_declare ''f32'' ex_partial)
       [0..<num_ops (ex_declare ''f32'' ex_partial)] []
       = Some (Succeeded, [(''b'', ex_declared ''f32'' [''i''] [MappingNoneExpr])])"
    by code_simp+
  show ?thesis
    using declared_layouts_fully_specified
            [where alg = ex_algebra and an = ex_loop_i
               and prog = "ex_declare ''f32'' (ex_memory ''b'' [''i''])" and buffers = "[]"
               and outcome = Succeeded
               and buffers' = "[(''b'', ex_declared ''f32'' [] [MappingDimExpr 0])]"]
          declared_layouts_fully_specified
            [where alg = ex_algebra and an = ex_loop_i
               and prog = "ex_declare ''f32'' ex_partial" and buffers = "[]"
               and imported = "[]"
               and declared = "[(''b'', ex_declared ''f32'' [''i''] [MappingNoneExpr])]"]
          full partial walks
    by auto
qed

text \<open>
  C3.  The mapping from a loop nest to its loops having one expression for each loop:
  \<^verbatim>\<open>TrimBufferLoopNestForAccess\<close>, when it returns, leaves of the loop nest of the
  buffer the prefix of length \<open>min k f\<close>, which is also a prefix of the loops of the
  iteration space; \<open>k\<close> is the number of leading loops common to the iteration space and
  the loop nest, and the cap \<open>f\<close>, the position of the first loop the layout references,
  applies only when a layout is given and references a loop.  It returns when the domain
  of the trimmed loop nest and the use domain of the layout fit the domain of the buffer.
  That is the loop nest of the buffer after a successful \<^verbatim>\<open>DeclareBuffer\<close> for a buffer
  already in the table.  After a \<^verbatim>\<open>DeclareBuffer\<close> that creates the buffer, whatever its
  outcome, the loop nest is that prefix of the loops of the operation: the buffer is
  created in all of them, so that \<open>k\<close> is their number.  And it is the loop nest after
  \<^verbatim>\<open>AddDimensionsToBuffer\<close>, which returns when the mapping algebra keeps sizes, the
  buffer is in the table, not external, with a layout no larger than the new one, the
  trimming returns, the unification of the shapes succeeds and every value of the buffer
  has a storage with a layout.  When \<^verbatim>\<open>UpdateStorage\<close> gives a buffer name to a value
  that had none, the loop nest of the buffer is left the prefix common to the iteration
  spaces of the defining operation and of every user, no layout being looked at.
\<close>

theorem loop_nest_trimmed_for_access:
  "OneExprPerLoop an \<longrightarrow>
     (TrimBufferLoopNestForAccess alg an iter_space layout b = Some b' \<longrightarrow>
        buf_loop_nest b'
          = take (TrimmedLength iter_space layout (buf_loop_nest b)) (buf_loop_nest b) \<and>
        buf_loop_nest b'
          = take (TrimmedLength iter_space layout (buf_loop_nest b)) (loop_names iter_space))
     \<and> (length (ln_domain (GetLoopNest an
                   (take (TrimmedLength iter_space layout (buf_loop_nest b))
                      (loop_names iter_space))))
          \<le> length (buf_domain b) \<and>
        (\<forall>l. buf_layout b = Some l \<longrightarrow> UseDomainSize l \<le> length (buf_domain b)) \<longrightarrow>
          (\<exists>trimmed. TrimBufferLoopNestForAccess alg an iter_space layout b = Some trimmed))
     \<and> TrimmedLength iter_space layout nest
         = (case layout of
              None \<Rightarrow> CommonPrefixLength (loop_names iter_space) nest
            | Some l \<Rightarrow>
                (case FirstIndexedLoop l of
                   None \<Rightarrow> CommonPrefixLength (loop_names iter_space) nest
                 | Some f \<Rightarrow> min (CommonPrefixLength (loop_names iter_space) nest) f))
     \<and> (attr = Some a \<and> ba_name a = Some name \<and> map_of buffers name = Some buffer \<and>
        result < length (result_types (ops prog op)) \<and>
        GetBufferLayout alg an op a = Some declared \<and>
        DeclareBuffer alg an prog op result attr buffers = Some (Succeeded, buffers') \<longrightarrow>
          (\<exists>buffer'. map_of buffers' name = Some buffer' \<and>
             buf_loop_nest buffer' =
               take (TrimmedLength (GetIterationSpace an op) declared (buf_loop_nest buffer))
                 (buf_loop_nest buffer)))
     \<and> (attr = Some a \<and> ba_name a = Some name \<and> map_of buffers name = None \<and>
        result < length (result_types (ops prog op)) \<and>
        GetBufferLayout alg an op a = Some declared \<and>
        DeclareBuffer alg an prog op result attr buffers = Some (outcome, created) \<longrightarrow>
          (\<exists>buffer'. map_of created name = Some buffer' \<and>
             buf_loop_nest buffer' =
               take (TrimmedLength (GetIterationSpace an op) declared
                       (loop_names (GetIterationSpace an op)))
                 (loop_names (GetIterationSpace an op))))
     \<and> TrimmedLength iter_space layout (loop_names iter_space)
         = (case layout of
              None \<Rightarrow> length (loop_names iter_space)
            | Some l \<Rightarrow>
                (case FirstIndexedLoop l of
                   None \<Rightarrow> length (loop_names iter_space)
                 | Some f \<Rightarrow> min (length (loop_names iter_space)) f))
     \<and> (AddDimensionsToBuffer alg an prog name op iter_space new_layout (buffers, storages)
          = Some (buffers', storages') \<and>
        map_of buffers name = Some buffer \<longrightarrow>
          (\<exists>buffer'. map_of buffers' name = Some buffer' \<and>
             buf_loop_nest buffer' =
               take (TrimmedLength iter_space (Some new_layout) (buf_loop_nest buffer))
                 (buf_loop_nest buffer)))
     \<and> (KeepsSize alg \<and> map_of buffers name = Some buffer \<and>
        buf_layout buffer = Some old_layout \<and>
        MappingSize old_layout \<le> MappingSize new_layout \<and> \<not> is_external buffer \<and>
        length (ln_domain (GetLoopNest an
                  (take (TrimmedLength iter_space (Some new_layout) (buf_loop_nest buffer))
                     (loop_names iter_space))))
          \<le> length (buf_domain buffer) \<and>
        UseDomainSize old_layout \<le> length (buf_domain buffer) \<and>
        (\<forall>trimmed prefixed.
           TrimBufferLoopNestForAccess alg an iter_space (Some new_layout) buffer = Some trimmed \<and>
           AddNonePrefixToLayout (int (MappingSize new_layout) - int (MappingSize old_layout))
             trimmed = Some prefixed \<longrightarrow>
           (\<exists>unified. UnifyBufferShape alg an prog name op new_layout iter_space prefixed
                         = Some (Succeeded, unified))) \<and>
        (\<forall>member \<in> set (buf_values buffer).
           \<exists>s l. storages member = Some s \<and> vs_layout s = Some l) \<longrightarrow>
          (\<exists>extended.
             AddDimensionsToBuffer alg an prog name op iter_space new_layout (buffers, storages)
               = Some extended))
     \<and> (UpdateStorage alg an prog v new storage buffers = Some (outcome, storage', buffers') \<and>
        vs_buffer_name storage = None \<and> vs_buffer_name new = Some name \<and>
        map_of buffers name = Some buffer \<longrightarrow>
          (\<exists>buffer'. map_of buffers' name = Some buffer' \<and>
             buf_loop_nest buffer' =
               take (CommonLoops an (getDefiningOp v # getUsers prog v) (buf_loop_nest buffer))
                 (buf_loop_nest buffer)))"
proof (intro impI conjI)
  assume c: "OneExprPerLoop an"
  {
    assume t: "TrimBufferLoopNestForAccess alg an iter_space layout b = Some b'"
    from Trim_loop_nest [OF c t]
    show "buf_loop_nest b'
            = take (TrimmedLength iter_space layout (buf_loop_nest b)) (buf_loop_nest b)"
      and "buf_loop_nest b'
            = take (TrimmedLength iter_space layout (buf_loop_nest b)) (loop_names iter_space)"
      by simp_all
  }
  {
    assume "length (ln_domain (GetLoopNest an
                   (take (TrimmedLength iter_space layout (buf_loop_nest b))
                      (loop_names iter_space))))
          \<le> length (buf_domain b) \<and>
        (\<forall>l. buf_layout b = Some l \<longrightarrow> UseDomainSize l \<le> length (buf_domain b))"
    then show "\<exists>trimmed. TrimBufferLoopNestForAccess alg an iter_space layout b = Some trimmed"
      using Trim_returns [OF c] by blast
  }
  show "TrimmedLength iter_space layout nest
         = (case layout of
              None \<Rightarrow> CommonPrefixLength (loop_names iter_space) nest
            | Some l \<Rightarrow>
                (case FirstIndexedLoop l of
                   None \<Rightarrow> CommonPrefixLength (loop_names iter_space) nest
                 | Some f \<Rightarrow> min (CommonPrefixLength (loop_names iter_space) nest) f))"
    by (simp add: TrimmedLength_def Let_def)
  {
    assume "attr = Some a \<and> ba_name a = Some name \<and> map_of buffers name = Some buffer \<and>
        result < length (result_types (ops prog op)) \<and>
        GetBufferLayout alg an op a = Some declared \<and>
        DeclareBuffer alg an prog op result attr buffers = Some (Succeeded, buffers')"
    then show "\<exists>buffer'. map_of buffers' name = Some buffer' \<and>
             buf_loop_nest buffer' =
               take (TrimmedLength (GetIterationSpace an op) declared (buf_loop_nest buffer))
                 (buf_loop_nest buffer)"
      using DeclareBuffer_loop_nest [OF c] by blast
  }
  {
    assume "attr = Some a \<and> ba_name a = Some name \<and> map_of buffers name = None \<and>
        result < length (result_types (ops prog op)) \<and>
        GetBufferLayout alg an op a = Some declared \<and>
        DeclareBuffer alg an prog op result attr buffers = Some (outcome, created)"
    then show "\<exists>buffer'. map_of created name = Some buffer' \<and>
             buf_loop_nest buffer' =
               take (TrimmedLength (GetIterationSpace an op) declared
                       (loop_names (GetIterationSpace an op)))
                 (loop_names (GetIterationSpace an op))"
      using DeclareBuffer_first_loop_nest [OF c] by blast
  }
  show "TrimmedLength iter_space layout (loop_names iter_space)
         = (case layout of
              None \<Rightarrow> length (loop_names iter_space)
            | Some l \<Rightarrow>
                (case FirstIndexedLoop l of
                   None \<Rightarrow> length (loop_names iter_space)
                 | Some f \<Rightarrow> min (length (loop_names iter_space)) f))"
    by (simp add: TrimmedLength_def CommonPrefixLength_same Let_def)
  {
    assume "AddDimensionsToBuffer alg an prog name op iter_space new_layout (buffers, storages)
          = Some (buffers', storages') \<and>
        map_of buffers name = Some buffer"
    then show "\<exists>buffer'. map_of buffers' name = Some buffer' \<and>
             buf_loop_nest buffer' =
               take (TrimmedLength iter_space (Some new_layout) (buf_loop_nest buffer))
                 (buf_loop_nest buffer)"
      using AddDimensionsToBuffer_loop_nest [OF c] by blast
  }
  {
    assume h: "KeepsSize alg \<and> map_of buffers name = Some buffer \<and>
        buf_layout buffer = Some old_layout \<and>
        MappingSize old_layout \<le> MappingSize new_layout \<and> \<not> is_external buffer \<and>
        length (ln_domain (GetLoopNest an
                  (take (TrimmedLength iter_space (Some new_layout) (buf_loop_nest buffer))
                     (loop_names iter_space))))
          \<le> length (buf_domain buffer) \<and>
        UseDomainSize old_layout \<le> length (buf_domain buffer) \<and>
        (\<forall>trimmed prefixed.
           TrimBufferLoopNestForAccess alg an iter_space (Some new_layout) buffer = Some trimmed \<and>
           AddNonePrefixToLayout (int (MappingSize new_layout) - int (MappingSize old_layout))
             trimmed = Some prefixed \<longrightarrow>
           (\<exists>unified. UnifyBufferShape alg an prog name op new_layout iter_space prefixed
                         = Some (Succeeded, unified))) \<and>
        (\<forall>member \<in> set (buf_values buffer).
           \<exists>s l. storages member = Some s \<and> vs_layout s = Some l)"
    show "\<exists>extended.
             AddDimensionsToBuffer alg an prog name op iter_space new_layout (buffers, storages)
               = Some extended"
      by (rule AddDimensionsToBuffer_returns [OF c]) (use h in blast)+
  }
  {
    assume "UpdateStorage alg an prog v new storage buffers = Some (outcome, storage', buffers') \<and>
        vs_buffer_name storage = None \<and> vs_buffer_name new = Some name \<and>
        map_of buffers name = Some buffer"
    then show "\<exists>buffer'. map_of buffers' name = Some buffer' \<and>
             buf_loop_nest buffer' =
               take (CommonLoops an (getDefiningOp v # getUsers prog v) (buf_loop_nest buffer))
                 (buf_loop_nest buffer)"
      using RegisterBufferUse_loop_nest [OF c UpdateStorage_buffers] by blast
  }
qed

text \<open>
  A buffer nested in \<open>i\<close> and \<open>j\<close>, accessed from these loops with a layout that indexes
  \<open>j\<close>, is left nested in \<open>i\<close>, by \<^verbatim>\<open>TrimBufferLoopNestForAccess\<close>, by the declaration
  of an operation in \<open>i\<close> and \<open>j\<close> with the layout \<^verbatim>\<open>[j]\<close>, and by
  \<^verbatim>\<open>AddDimensionsToBuffer\<close> with a layout that adds the dimension \<open>j\<close>.  The first
  declaration of a buffer by an operation in the loop \<open>i\<close> with the layout \<^verbatim>\<open>[i]\<close> leaves
  the buffer in no loop.  Registered for a value defined in \<open>i\<close> and \<open>j\<close> and used in
  \<open>i\<close> only, the buffer is left nested in \<open>i\<close> as well.
\<close>

theorem loop_nest_trimmed_for_access_witness:
  "(\<exists>trimmed.
      TrimBufferLoopNestForAccess ex_algebra ex_two_loops (ex_IterationSpace [''i'', ''j''])
        (Some (ex_layout [MappingDimExpr 1])) ex_nested = Some trimmed
      \<and> buf_loop_nest trimmed = [''i''])
   \<and> TrimmedLength (ex_IterationSpace [''i'', ''j'']) (Some (ex_layout [MappingDimExpr 1]))
       [''i'', ''j''] = 1
   \<and> (\<exists>buffers' buffer'.
         DeclareBuffer ex_algebra ex_two_loops (ex_declare_nested (ex_memory ''b'' [''j''])) 1 0
           (Some (ex_memory ''b'' [''j''])) [(''b'', ex_nested)] = Some (Succeeded, buffers')
         \<and> map_of buffers' ''b'' = Some buffer' \<and> buf_loop_nest buffer' = [''i''])
   \<and> (\<exists>created buffer'.
         DeclareBuffer ex_algebra ex_loop_i (ex_declare ''f32'' (ex_memory ''b'' [''i''])) 1 0
           (Some (ex_memory ''b'' [''i''])) [] = Some (Succeeded, created)
         \<and> map_of created ''b'' = Some buffer' \<and> buf_loop_nest buffer' = []
         \<and> loop_names (GetIterationSpace ex_loop_i 1) = [''i''])
   \<and> (\<exists>extended storages' buffer'.
         AddDimensionsToBuffer ex_algebra ex_two_loops (ex_declare_nested (ex_memory ''b'' []))
           ''b'' 1 (ex_IterationSpace [''i'', ''j'']) (ex_layout [MappingDimExpr 1])
           ([(''b'', ex_scalar)],
            [(1, 0) \<mapsto> \<lparr>vs_space = Some ''memory'', vs_buffer_name = Some ''b'',
                         vs_layout = Some (ex_layout [])\<rparr>])
           = Some (extended, storages')
         \<and> map_of extended ''b'' = Some buffer' \<and> buf_loop_nest buffer' = [''i'']
         \<and> buf_loop_nest ex_scalar = [''i'', ''j''])
   \<and> (\<exists>buffers' buffer'.
         UpdateStorage ex_algebra ex_user_outside ex_cross (1, 0)
           \<lparr>vs_space = Some ''memory'', vs_buffer_name = Some ''b'', vs_layout = None\<rparr>
           ValueStorage_default [(''b'', ex_nested)]
           = Some (Succeeded,
                   \<lparr>vs_space = Some ''memory'', vs_buffer_name = Some ''b'', vs_layout = None\<rparr>,
                   buffers')
         \<and> map_of buffers' ''b'' = Some buffer' \<and> buf_loop_nest buffer' = [''i''])"
proof -
  let ?space = "ex_IterationSpace [''i'', ''j'']"
  let ?new_layout = "ex_layout [MappingDimExpr 1]"
  let ?layout = "Some ?new_layout"
  let ?new = "\<lparr>vs_space = Some ''memory'', vs_buffer_name = Some ''b'', vs_layout = None\<rparr>"
  let ?one = "\<lparr>va_value = (0, 0), va_mapping = \<lparr>UseDomainSize = 1, Dimensions = []\<rparr>\<rparr>"
  let ?two = "\<lparr>va_value = (0, 1), va_mapping = \<lparr>UseDomainSize = 1, Dimensions = []\<rparr>\<rparr>"
  let ?registered =
    "ex_nested\<lparr>buf_loop_nest := [''i''], buf_domain := [?one],
               buf_writes := [(1, 0)], buf_reads := [(2, 0)], buf_values := [(1, 0)]\<rparr>"
  let ?redeclared =
    "ex_nested\<lparr>buf_loop_nest := [''i''], buf_domain := [?one, ?two],
               buf_layout := Some ?new_layout\<rparr>"
  let ?prog = "ex_declare_nested (ex_memory ''b'' [])"
  let ?storages =
    "[(1, 0) \<mapsto> \<lparr>vs_space = Some ''memory'', vs_buffer_name = Some ''b'',
                  vs_layout = Some (ex_layout [])\<rparr>]"
  let ?trimmed =
    "ex_scalar\<lparr>buf_loop_nest := [''i''], buf_domain := [?one],
               buf_layout := Some \<lparr>UseDomainSize = 1, Dimensions = []\<rparr>\<rparr>"
  let ?prefixed =
    "?trimmed\<lparr>buf_layout := Some \<lparr>UseDomainSize = 1, Dimensions = [MappingNoneExpr]\<rparr>\<rparr>"
  let ?unified =
    "ex_scalar\<lparr>buf_loop_nest := [''i''], buf_domain := [?one, ?two],
               buf_layout := Some ?new_layout\<rparr>"
  have loops: "OneExprPerLoop ex_two_loops" "OneExprPerLoop ex_user_outside"
    "OneExprPerLoop ex_loop_i"
    by (simp_all add: OneExprPerLoop_def ex_two_loops_def ex_user_outside_def ex_loop_i_def
        ex_analyses_def ex_GetLoopNest_def GetIdentity_def MappingSize_def)
  have keeps: "KeepsSize ex_algebra"
    by (simp add: KeepsSize_def ex_algebra_def MappingSize_def ex_Compose_def ex_Unify_def)
  have fits: "length (ln_domain (GetLoopNest ex_two_loops
                 (take (TrimmedLength ?space ?layout (buf_loop_nest ex_nested))
                    (loop_names ?space))))
              \<le> length (buf_domain ex_nested)"
    by code_simp
  have no_layout: "\<forall>l. buf_layout ex_nested = Some l \<longrightarrow> UseDomainSize l \<le> length (buf_domain ex_nested)"
    by (simp add: ex_nested_def Buffer_new_def)
  have prefix: "take (TrimmedLength ?space ?layout (buf_loop_nest ex_nested))
                  (buf_loop_nest ex_nested) = [''i'']"
    "TrimmedLength ?space ?layout [''i'', ''j''] = 1"
    "take (CommonLoops ex_user_outside (getDefiningOp (1, 0) # getUsers ex_cross (1, 0))
             (buf_loop_nest ex_nested)) (buf_loop_nest ex_nested) = [''i'']"
    "take (TrimmedLength (GetIterationSpace ex_two_loops 1) ?layout (buf_loop_nest ex_nested))
       (buf_loop_nest ex_nested) = [''i'']"
    "take (TrimmedLength (GetIterationSpace ex_loop_i 1) (Some (GetIdentity 1))
             (loop_names (GetIterationSpace ex_loop_i 1)))
       (loop_names (GetIterationSpace ex_loop_i 1)) = []"
    "take (TrimmedLength ?space ?layout (buf_loop_nest ex_scalar)) (buf_loop_nest ex_scalar)
       = [''i'']"
    "loop_names (GetIterationSpace ex_loop_i 1) = [''i'']"
    "buf_loop_nest ex_scalar = [''i'', ''j'']"
    by code_simp+
  have registered: "UpdateStorage ex_algebra ex_user_outside ex_cross (1, 0) ?new
                      ValueStorage_default [(''b'', ex_nested)]
                      = Some (Succeeded, ?new, [(''b'', ?registered)])"
    by code_simp
  have named: "vs_buffer_name ValueStorage_default = None" "vs_buffer_name ?new = Some ''b''"
    "map_of [(''b'', ex_nested)] ''b'' = Some ex_nested"
    by (simp_all add: ValueStorage_default_def)
  have redeclared:
    "DeclareBuffer ex_algebra ex_two_loops (ex_declare_nested (ex_memory ''b'' [''j''])) 1 0
       (Some (ex_memory ''b'' [''j''])) [(''b'', ex_nested)]
       = Some (Succeeded, [(''b'', ?redeclared)])"
    "GetBufferLayout ex_algebra ex_two_loops 1 (ex_memory ''b'' [''j'']) = Some ?layout"
    "0 < length (result_types (ops (ex_declare_nested (ex_memory ''b'' [''j''])) 1))"
    "ba_name (ex_memory ''b'' [''j'']) = Some ''b''"
    by code_simp+
  have first:
    "DeclareBuffer ex_algebra ex_loop_i (ex_declare ''f32'' (ex_memory ''b'' [''i''])) 1 0
       (Some (ex_memory ''b'' [''i''])) []
       = Some (Succeeded, [(''b'', ex_declared ''f32'' [] [MappingDimExpr 0])])"
    "GetBufferLayout ex_algebra ex_loop_i 1 (ex_memory ''b'' [''i'']) = Some (Some (GetIdentity 1))"
    "0 < length (result_types (ops (ex_declare ''f32'' (ex_memory ''b'' [''i''])) 1))"
    "ba_name (ex_memory ''b'' [''i'']) = Some ''b''"
    by code_simp+
  have scalar: "map_of [(''b'', ex_scalar)] ''b'' = Some ex_scalar"
    "buf_layout ex_scalar = Some (ex_layout [])"
    "MappingSize (ex_layout []) \<le> MappingSize ?new_layout"
    "\<not> is_external ex_scalar"
    "length (ln_domain (GetLoopNest ex_two_loops
               (take (TrimmedLength ?space ?layout (buf_loop_nest ex_scalar))
                  (loop_names ?space))))
       \<le> length (buf_domain ex_scalar)"
    "UseDomainSize (ex_layout []) \<le> length (buf_domain ex_scalar)"
    by simp code_simp+
  have steps:
    "TrimBufferLoopNestForAccess ex_algebra ex_two_loops ?space ?layout ex_scalar = Some ?trimmed"
    "AddNonePrefixToLayout (int (MappingSize ?new_layout) - int (MappingSize (ex_layout [])))
       ?trimmed = Some ?prefixed"
    "UnifyBufferShape ex_algebra ex_two_loops ?prog ''b'' 1 ?new_layout ?space ?prefixed
       = Some (Succeeded, ?unified)"
    by code_simp+
  have unifies:
    "\<forall>trimmed prefixed.
       TrimBufferLoopNestForAccess ex_algebra ex_two_loops ?space ?layout ex_scalar = Some trimmed \<and>
       AddNonePrefixToLayout (int (MappingSize ?new_layout) - int (MappingSize (ex_layout [])))
         trimmed = Some prefixed \<longrightarrow>
       (\<exists>unified. UnifyBufferShape ex_algebra ex_two_loops ?prog ''b'' 1 ?new_layout ?space prefixed
                     = Some (Succeeded, unified))"
  proof (intro allI impI, elim conjE)
    fix trimmed prefixed
    assume t: "TrimBufferLoopNestForAccess ex_algebra ex_two_loops ?space ?layout ex_scalar
                 = Some trimmed"
      and p: "AddNonePrefixToLayout
                (int (MappingSize ?new_layout) - int (MappingSize (ex_layout []))) trimmed
                = Some prefixed"
    from t steps(1) have "trimmed = ?trimmed" by simp
    with p steps(2) have "prefixed = ?prefixed" by simp
    with steps(3)
    show "\<exists>unified. UnifyBufferShape ex_algebra ex_two_loops ?prog ''b'' 1 ?new_layout ?space
                       prefixed = Some (Succeeded, unified)"
      by blast
  qed
  have stored: "\<forall>member \<in> set (buf_values ex_scalar).
                  \<exists>s l. ?storages member = Some s \<and> vs_layout s = Some l"
  proof -
    have "buf_values ex_scalar = [(1, 0)]" by code_simp
    then show ?thesis by simp
  qed
  from loops(1) fits no_layout
  have "\<exists>trimmed. TrimBufferLoopNestForAccess ex_algebra ex_two_loops ?space ?layout ex_nested
                = Some trimmed"
    using loop_nest_trimmed_for_access
            [where an = ex_two_loops and alg = ex_algebra and iter_space = ?space
               and layout = ?layout and b = ex_nested and b' = ex_nested and nest = "[]"
               and attr = None and a = "ex_memory ''b'' []" and name = "''b''" and buffers = "[]"
               and result = 0 and prog = ex_cross and op = 0 and declared = None
               and buffers' = "[]" and buffer = ex_nested and outcome = Succeeded
               and created = "[]" and new_layout = ?new_layout and storages = Map.empty
               and storages' = Map.empty and old_layout = "ex_layout []" and v = "(0, 0)"
               and new = ValueStorage_default and storage = ValueStorage_default
               and storage' = ValueStorage_default]
    by simp
  then obtain trimmed where
    trimmed: "TrimBufferLoopNestForAccess ex_algebra ex_two_loops ?space ?layout ex_nested
                = Some trimmed"
    by blast
  with loops(1) prefix(1) have 1: "buf_loop_nest trimmed = [''i'']"
    using loop_nest_trimmed_for_access
            [where an = ex_two_loops and alg = ex_algebra and iter_space = ?space
               and layout = ?layout and b = ex_nested and b' = trimmed and nest = "[]"
               and attr = None and a = "ex_memory ''b'' []" and name = "''b''" and buffers = "[]"
               and result = 0 and prog = ex_cross and op = 0 and declared = None
               and buffers' = "[]" and buffer = ex_nested and outcome = Succeeded
               and created = "[]" and new_layout = ?new_layout and storages = Map.empty
               and storages' = Map.empty and old_layout = "ex_layout []" and v = "(0, 0)"
               and new = ValueStorage_default and storage = ValueStorage_default
               and storage' = ValueStorage_default]
    by simp
  from loops(2) registered named prefix(3)
  have 2: "\<exists>buffer'. map_of [(''b'', ?registered)] ''b'' = Some buffer'
                  \<and> buf_loop_nest buffer' = [''i'']"
    using loop_nest_trimmed_for_access
            [where an = ex_user_outside and alg = ex_algebra and iter_space = ?space
               and layout = ?layout and b = ex_nested and b' = ex_nested and nest = "[]"
               and attr = None and a = "ex_memory ''b'' []" and name = "''b''"
               and buffers = "[(''b'', ex_nested)]" and result = 0 and prog = ex_cross and op = 0
               and declared = None and buffers' = "[(''b'', ?registered)]" and buffer = ex_nested
               and outcome = Succeeded and created = "[]" and new_layout = ?new_layout
               and storages = Map.empty and storages' = Map.empty and old_layout = "ex_layout []"
               and v = "(1, 0)" and new = ?new and storage = ValueStorage_default
               and storage' = ?new]
    by simp
  from loops(1) redeclared named(3) prefix(4)
  have 3: "\<exists>buffer'. map_of [(''b'', ?redeclared)] ''b'' = Some buffer'
                  \<and> buf_loop_nest buffer' = [''i'']"
    using loop_nest_trimmed_for_access
            [where an = ex_two_loops and alg = ex_algebra and iter_space = ?space
               and layout = ?layout and b = ex_nested and b' = ex_nested and nest = "[]"
               and attr = "Some (ex_memory ''b'' [''j''])" and a = "ex_memory ''b'' [''j'']"
               and name = "''b''" and buffers = "[(''b'', ex_nested)]" and result = 0
               and prog = "ex_declare_nested (ex_memory ''b'' [''j''])" and op = 1
               and declared = ?layout and buffers' = "[(''b'', ?redeclared)]"
               and buffer = ex_nested and outcome = Succeeded and created = "[]"
               and new_layout = ?new_layout and storages = Map.empty and storages' = Map.empty
               and old_layout = "ex_layout []" and v = "(0, 0)" and new = ValueStorage_default
               and storage = ValueStorage_default and storage' = ValueStorage_default]
    by simp
  from loops(3) first prefix(5)
  have 4: "\<exists>buffer'. map_of [(''b'', ex_declared ''f32'' [] [MappingDimExpr 0])] ''b''
                    = Some buffer'
                  \<and> buf_loop_nest buffer' = []"
    using loop_nest_trimmed_for_access
            [where an = ex_loop_i and alg = ex_algebra and iter_space = ?space
               and layout = ?layout and b = ex_nested and b' = ex_nested and nest = "[]"
               and attr = "Some (ex_memory ''b'' [''i''])" and a = "ex_memory ''b'' [''i'']"
               and name = "''b''" and buffers = "[]" and result = 0
               and prog = "ex_declare ''f32'' (ex_memory ''b'' [''i''])" and op = 1
               and declared = "Some (GetIdentity 1)" and buffers' = "[]" and buffer = ex_nested
               and outcome = Succeeded
               and created = "[(''b'', ex_declared ''f32'' [] [MappingDimExpr 0])]"
               and new_layout = ?new_layout and storages = Map.empty and storages' = Map.empty
               and old_layout = "ex_layout []" and v = "(0, 0)" and new = ValueStorage_default
               and storage = ValueStorage_default and storage' = ValueStorage_default]
    by simp
  from loops(1) keeps scalar unifies stored
  have "\<exists>extended. AddDimensionsToBuffer ex_algebra ex_two_loops ?prog ''b'' 1 ?space ?new_layout
                      ([(''b'', ex_scalar)], ?storages) = Some extended"
    using loop_nest_trimmed_for_access
            [where an = ex_two_loops and alg = ex_algebra and iter_space = ?space
               and layout = ?layout and b = ex_nested and b' = ex_nested and nest = "[]"
               and attr = None and a = "ex_memory ''b'' []" and name = "''b''"
               and buffers = "[(''b'', ex_scalar)]" and result = 0 and prog = ?prog and op = 1
               and declared = None and buffers' = "[]" and buffer = ex_scalar
               and outcome = Succeeded and created = "[]" and new_layout = ?new_layout
               and storages = ?storages and storages' = Map.empty and old_layout = "ex_layout []"
               and v = "(0, 0)" and new = ValueStorage_default and storage = ValueStorage_default
               and storage' = ValueStorage_default]
    by simp
  then obtain extended storages' where
    extended: "AddDimensionsToBuffer ex_algebra ex_two_loops ?prog ''b'' 1 ?space ?new_layout
                 ([(''b'', ex_scalar)], ?storages) = Some (extended, storages')"
    by auto
  with loops(1) scalar(1) prefix(6)
  have 5: "\<exists>buffer'. map_of extended ''b'' = Some buffer' \<and> buf_loop_nest buffer' = [''i'']"
    using loop_nest_trimmed_for_access
            [where an = ex_two_loops and alg = ex_algebra and iter_space = ?space
               and layout = ?layout and b = ex_nested and b' = ex_nested and nest = "[]"
               and attr = None and a = "ex_memory ''b'' []" and name = "''b''"
               and buffers = "[(''b'', ex_scalar)]" and result = 0 and prog = ?prog and op = 1
               and declared = None and buffers' = extended and buffer = ex_scalar
               and outcome = Succeeded and created = "[]" and new_layout = ?new_layout
               and storages = ?storages and storages' = storages' and old_layout = "ex_layout []"
               and v = "(0, 0)" and new = ValueStorage_default and storage = ValueStorage_default
               and storage' = ValueStorage_default]
    by simp
  from 1 trimmed have c1: "\<exists>trimmed.
      TrimBufferLoopNestForAccess ex_algebra ex_two_loops ?space ?layout ex_nested = Some trimmed
      \<and> buf_loop_nest trimmed = [''i'']" by blast
  from 2 registered have c6: "\<exists>buffers' buffer'.
         UpdateStorage ex_algebra ex_user_outside ex_cross (1, 0) ?new
           ValueStorage_default [(''b'', ex_nested)] = Some (Succeeded, ?new, buffers')
         \<and> map_of buffers' ''b'' = Some buffer' \<and> buf_loop_nest buffer' = [''i'']" by blast
  from 3 redeclared(1) have c3: "\<exists>buffers' buffer'.
         DeclareBuffer ex_algebra ex_two_loops (ex_declare_nested (ex_memory ''b'' [''j''])) 1 0
           (Some (ex_memory ''b'' [''j''])) [(''b'', ex_nested)] = Some (Succeeded, buffers')
         \<and> map_of buffers' ''b'' = Some buffer' \<and> buf_loop_nest buffer' = [''i'']" by blast
  from 4 first(1) prefix(7) have c4: "\<exists>created buffer'.
         DeclareBuffer ex_algebra ex_loop_i (ex_declare ''f32'' (ex_memory ''b'' [''i''])) 1 0
           (Some (ex_memory ''b'' [''i''])) [] = Some (Succeeded, created)
         \<and> map_of created ''b'' = Some buffer' \<and> buf_loop_nest buffer' = []
         \<and> loop_names (GetIterationSpace ex_loop_i 1) = [''i'']" by blast
  from 5 extended prefix(8) have c5: "\<exists>extended storages' buffer'.
         AddDimensionsToBuffer ex_algebra ex_two_loops ?prog ''b'' 1 ?space ?new_layout
           ([(''b'', ex_scalar)], ?storages) = Some (extended, storages')
         \<and> map_of extended ''b'' = Some buffer' \<and> buf_loop_nest buffer' = [''i'']
         \<and> buf_loop_nest ex_scalar = [''i'', ''j'']" by blast
  from c1 prefix(2) c3 c4 c5 c6 show ?thesis by (intro conjI)
qed

text \<open>
  C4.  For a result annotated with the name of a buffer that is already in the table:
  when the element type of the result differs from the element type of the buffer,
  \<^verbatim>\<open>DeclareBuffer\<close> fails with the diagnostic "buffer ... has different element type
  than in previous occurence" at the operation, with the note "previous occurence here"
  at the location of the buffer, and leaves the table as it was.  When the element types
  are equal the check passes: whatever \<^verbatim>\<open>DeclareBuffer\<close> returns, the buffer is in the
  table with the same element type, and a failure is the rank conflict or a failure of
  \<^verbatim>\<open>UnifyBufferShape\<close>.
\<close>

theorem element_type_checked:
  "attr = Some a \<and> ba_name a = Some name \<and> map_of buffer_map name = Some buffer \<and>
   result < length (result_types (ops prog op)) \<longrightarrow>
     (buf_element_type buffer \<noteq> result_types (ops prog op) ! result \<longrightarrow>
        DeclareBuffer alg an prog op result attr buffer_map =
          Some (Failed
                  \<lparr>diag_loc = getLoc (ops prog op),
                   diag_message =
                     [Str ''buffer '', Name (Some name),
                      Str '' has different element type than in previous occurence''],
                   diag_note = Some (buf_loc buffer, ''previous occurence here'')\<rparr>,
                buffer_map))
     \<and> (buf_element_type buffer = result_types (ops prog op) ! result \<longrightarrow>
          (\<forall>outcome buffer_map'.
             DeclareBuffer alg an prog op result attr buffer_map = Some (outcome, buffer_map') \<longrightarrow>
               (\<exists>buffer'. map_of buffer_map' name = Some buffer' \<and>
                           buf_element_type buffer' = buf_element_type buffer) \<and>
               (\<forall>d. outcome = Failed d \<longrightarrow>
                  d = RankConflict (getLoc (ops prog op)) name (buf_loc buffer) \<or>
                  (\<exists>l b1 b2. UnifyBufferShape alg an prog name op l (GetIterationSpace an op) b1
                                = Some (Failed d, b2)))))"
proof (intro impI conjI allI)
  assume h: "attr = Some a \<and> ba_name a = Some name \<and> map_of buffer_map name = Some buffer \<and>
             result < length (result_types (ops prog op))"
  then have e: "attr = Some a" "ba_name a = Some name" "map_of buffer_map name = Some buffer"
    "result < length (result_types (ops prog op))" by simp_all
  show "DeclareBuffer alg an prog op result attr buffer_map =
          Some (Failed
                  \<lparr>diag_loc = getLoc (ops prog op),
                   diag_message =
                     [Str ''buffer '', Name (Some name),
                      Str '' has different element type than in previous occurence''],
                   diag_note = Some (buf_loc buffer, ''previous occurence here'')\<rparr>,
                buffer_map)"
    if "buf_element_type buffer \<noteq> result_types (ops prog op) ! result"
    using that
    by (simp add: DeclareBuffer_existing [OF e] ElementTypeConflict_def emitError_def
        attachNote_def)
  fix outcome buffer_map'
  assume same: "buf_element_type buffer = result_types (ops prog op) ! result"
    and d: "DeclareBuffer alg an prog op result attr buffer_map = Some (outcome, buffer_map')"
  from DeclareBuffer_Kept [OF d e(3)] obtain buffer' where
    "map_of buffer_map' name = Some buffer'" "Kept alg buffer buffer'" by blast
  then show "\<exists>buffer'. map_of buffer_map' name = Some buffer' \<and>
                       buf_element_type buffer' = buf_element_type buffer"
    by (auto simp: Kept_def SameDeclaration_def)
  fix diag
  assume "outcome = Failed diag"
  with d have "DeclareBuffer alg an prog op result attr buffer_map = Some (Failed diag, buffer_map')"
    by simp
  from DeclareBuffer_existing_failure [OF e same this]
  show "diag = RankConflict (getLoc (ops prog op)) name (buf_loc buffer) \<or>
        (\<exists>l b1 b2. UnifyBufferShape alg an prog name op l (GetIterationSpace an op) b1
                      = Some (Failed diag, b2))" .
qed

text \<open>
  The buffer \<open>b\<close> declared for a result of type \<open>f32\<close>, then for a result of type \<open>i32\<close>
  and for another result of type \<open>f32\<close>.
\<close>

theorem element_type_checked_witness:
  "DeclareBuffer ex_algebra ex_two_loops (ex_redeclare ''i32'' (ex_memory ''b'' [''i''])) 2 0
     (Some (ex_memory ''b'' [''i''])) [(''b'', ex_declared ''f32'' [] [MappingDimExpr 0])]
     = Some (Failed
               \<lparr>diag_loc = 12,
                diag_message =
                  [Str ''buffer '', Name (Some ''b''),
                   Str '' has different element type than in previous occurence''],
                diag_note = Some (11, ''previous occurence here'')\<rparr>,
             [(''b'', ex_declared ''f32'' [] [MappingDimExpr 0])])
   \<and> (\<exists>buffer_map' buffer'.
         DeclareBuffer ex_algebra ex_two_loops (ex_redeclare ''f32'' (ex_memory ''b'' [''i''])) 2 0
           (Some (ex_memory ''b'' [''i''])) [(''b'', ex_declared ''f32'' [] [MappingDimExpr 0])]
           = Some (Succeeded, buffer_map')
         \<and> map_of buffer_map' ''b'' = Some buffer'
         \<and> buf_element_type buffer' = ''f32'')"
proof -
  let ?a = "ex_memory ''b'' [''i'']"
  let ?b = "ex_declared ''f32'' [] [MappingDimExpr 0]"
  let ?after =
    "[(''b'', ?b\<lparr>buf_domain := buf_domain ?b @ buf_domain ?b,
                  buf_layout := Some \<lparr>UseDomainSize = 2, Dimensions = [MappingDimExpr 0]\<rparr>\<rparr>)]"
  have declared: "ba_name ?a = Some ''b''" "map_of [(''b'', ?b)] ''b'' = Some ?b"
    "0 < length (result_types (ops (ex_redeclare ''i32'' ?a) 2))"
    "0 < length (result_types (ops (ex_redeclare ''f32'' ?a) 2))"
    "buf_element_type ?b \<noteq> result_types (ops (ex_redeclare ''i32'' ?a) 2) ! 0"
    "buf_element_type ?b = result_types (ops (ex_redeclare ''f32'' ?a) 2) ! 0"
    "getLoc (ops (ex_redeclare ''i32'' ?a) 2) = 12" "buf_loc ?b = 11"
    "buf_element_type ?b = ''f32''"
    by (simp_all add: ex_memory_def ex_redeclare_def ex_program_def ex_compute_def ex_op_def
        ex_declared_def)
  have same: "DeclareBuffer ex_algebra ex_two_loops (ex_redeclare ''f32'' ?a) 2 0 (Some ?a)
                [(''b'', ?b)] = Some (Succeeded, ?after)"
    by code_simp
  show ?thesis
    using element_type_checked
            [where attr = "Some ?a" and a = ?a and name = "''b''"
               and buffer_map = "[(''b'', ?b)]" and buffer = ?b and result = 0
               and prog = "ex_redeclare ''i32'' ?a" and op = 2 and alg = ex_algebra
               and an = ex_two_loops]
          element_type_checked
            [where attr = "Some ?a" and a = ?a and name = "''b''"
               and buffer_map = "[(''b'', ?b)]" and buffer = ?b and result = 0
               and prog = "ex_redeclare ''f32'' ?a" and op = 2 and alg = ex_algebra
               and an = ex_two_loops]
          declared same
    by auto
qed

text \<open>
  C5, as the code has it.  For a result annotated with the name of a buffer that is
  already in the table and has a rank: when the element types agree and the annotation
  implies a layout whose size differs from the rank, \<^verbatim>\<open>DeclareBuffer\<close> fails with the
  diagnostic "buffer ... rank differs from previous occurence" at the operation, with
  the note "previous occurence here" at the location of the buffer, and leaves the table
  as it was.  Whatever \<^verbatim>\<open>DeclareBuffer\<close> returns, the buffer has the same rank
  afterwards (the mapping algebra keeping sizes), and when it succeeds the size of the
  implied layout is that rank.
\<close>

theorem rank_stable:
  "attr = Some a \<and> ba_name a = Some name \<and> map_of buffer_map name = Some buffer \<and>
   result < length (result_types (ops prog op)) \<and> rank buffer = Some r \<longrightarrow>
     (buf_element_type buffer = result_types (ops prog op) ! result \<and>
      GetBufferLayout alg an op a = Some (Some layout) \<and> MappingSize layout \<noteq> r \<longrightarrow>
        DeclareBuffer alg an prog op result attr buffer_map =
          Some (Failed
                  \<lparr>diag_loc = getLoc (ops prog op),
                   diag_message =
                     [Str ''buffer '', Name (Some name),
                      Str '' rank differs from previous occurence''],
                   diag_note = Some (buf_loc buffer, ''previous occurence here'')\<rparr>,
                buffer_map))
     \<and> (\<forall>outcome buffer_map'.
          DeclareBuffer alg an prog op result attr buffer_map = Some (outcome, buffer_map') \<longrightarrow>
            (KeepsSize alg \<longrightarrow>
               (\<exists>buffer'. map_of buffer_map' name = Some buffer' \<and> rank buffer' = Some r)) \<and>
            (outcome = Succeeded \<and> GetBufferLayout alg an op a = Some (Some layout) \<longrightarrow>
               MappingSize layout = r))"
proof (intro impI conjI allI)
  assume h: "attr = Some a \<and> ba_name a = Some name \<and> map_of buffer_map name = Some buffer \<and>
             result < length (result_types (ops prog op)) \<and> rank buffer = Some r"
  then have e: "attr = Some a" "ba_name a = Some name" "map_of buffer_map name = Some buffer"
    "result < length (result_types (ops prog op))" and r: "rank buffer = Some r" by simp_all
  show "DeclareBuffer alg an prog op result attr buffer_map =
          Some (Failed
                  \<lparr>diag_loc = getLoc (ops prog op),
                   diag_message =
                     [Str ''buffer '', Name (Some name),
                      Str '' rank differs from previous occurence''],
                   diag_note = Some (buf_loc buffer, ''previous occurence here'')\<rparr>,
                buffer_map)"
    if "buf_element_type buffer = result_types (ops prog op) ! result \<and>
        GetBufferLayout alg an op a = Some (Some layout) \<and> MappingSize layout \<noteq> r"
    using that r
    by (auto simp: DeclareBuffer_existing [OF e] RankConflict_def emitError_def attachNote_def)
  fix outcome buffer_map'
  assume d: "DeclareBuffer alg an prog op result attr buffer_map = Some (outcome, buffer_map')"
  from DeclareBuffer_Kept [OF d e(3)] obtain buffer' where
    "map_of buffer_map' name = Some buffer'" "Kept alg buffer buffer'" by blast
  with r show "\<exists>buffer'. map_of buffer_map' name = Some buffer' \<and> rank buffer' = Some r"
    if "KeepsSize alg" using that by (auto simp: Kept_def)
  show "MappingSize layout = r"
    if "outcome = Succeeded \<and> GetBufferLayout alg an op a = Some (Some layout)"
    using that d r unfolding DeclareBuffer_existing [OF e]
    by (auto split: if_splits option.splits)
qed

text \<open>
  The claim as stated fails where the element types differ as well: the buffer \<open>b\<close> has
  the element type \<open>f32\<close> and the rank 1, the new declaration is for a result of type
  \<open>i32\<close> with the layout \<^verbatim>\<open>[i, j]\<close> of size 2, and \<^verbatim>\<open>DeclareBuffer\<close> fails with the
  element-type diagnostic, the check that comes first, not with the rank diagnostic.
\<close>

theorem rank_conflict_counterexample:
  "map_of [(''b'', ex_declared ''f32'' [] [MappingDimExpr 0])] ''b''
     = Some (ex_declared ''f32'' [] [MappingDimExpr 0])
   \<and> rank (ex_declared ''f32'' [] [MappingDimExpr 0]) = Some 1
   \<and> GetBufferLayout ex_algebra ex_two_loops 2 (ex_memory ''b'' [''i'', ''j''])
     = Some (Some (GetIdentity 2))
   \<and> MappingSize (GetIdentity 2) = 2
   \<and> DeclareBuffer ex_algebra ex_two_loops (ex_redeclare ''i32'' (ex_memory ''b'' [''i'', ''j''])) 2 0
       (Some (ex_memory ''b'' [''i'', ''j''])) [(''b'', ex_declared ''f32'' [] [MappingDimExpr 0])]
     = Some (Failed (ElementTypeConflict 12 ''b'' 11),
             [(''b'', ex_declared ''f32'' [] [MappingDimExpr 0])])
   \<and> ElementTypeConflict 12 ''b'' 11 \<noteq> RankConflict 12 ''b'' 11"
  by code_simp

theorem rank_stable_witness:
  "DeclareBuffer ex_algebra ex_two_loops (ex_redeclare ''f32'' (ex_memory ''b'' [''i'', ''j''])) 2 0
     (Some (ex_memory ''b'' [''i'', ''j''])) [(''b'', ex_declared ''f32'' [] [MappingDimExpr 0])]
     = Some (Failed
               \<lparr>diag_loc = 12,
                diag_message =
                  [Str ''buffer '', Name (Some ''b''),
                   Str '' rank differs from previous occurence''],
                diag_note = Some (11, ''previous occurence here'')\<rparr>,
             [(''b'', ex_declared ''f32'' [] [MappingDimExpr 0])])
   \<and> (\<exists>buffer_map' buffer'.
         DeclareBuffer ex_algebra ex_two_loops (ex_redeclare ''f32'' (ex_memory ''b'' [''i''])) 2 0
           (Some (ex_memory ''b'' [''i''])) [(''b'', ex_declared ''f32'' [] [MappingDimExpr 0])]
           = Some (Succeeded, buffer_map')
         \<and> map_of buffer_map' ''b'' = Some buffer'
         \<and> rank buffer' = Some 1)
   \<and> MappingSize (ex_layout [MappingDimExpr 0]) = 1"
proof -
  let ?a = "ex_memory ''b'' [''i'']"
  let ?a2 = "ex_memory ''b'' [''i'', ''j'']"
  let ?b = "ex_declared ''f32'' [] [MappingDimExpr 0]"
  let ?after =
    "[(''b'', ?b\<lparr>buf_domain := buf_domain ?b @ buf_domain ?b,
                  buf_layout := Some \<lparr>UseDomainSize = 2, Dimensions = [MappingDimExpr 0]\<rparr>\<rparr>)]"
  have keeps: "KeepsSize ex_algebra"
    by (simp add: KeepsSize_def ex_algebra_def MappingSize_def ex_Compose_def ex_Unify_def)
  have declared: "ba_name ?a = Some ''b''" "ba_name ?a2 = Some ''b''"
    "map_of [(''b'', ?b)] ''b'' = Some ?b"
    "0 < length (result_types (ops (ex_redeclare ''f32'' ?a) 2))"
    "0 < length (result_types (ops (ex_redeclare ''f32'' ?a2) 2))"
    "buf_element_type ?b = result_types (ops (ex_redeclare ''f32'' ?a2) 2) ! 0"
    "getLoc (ops (ex_redeclare ''f32'' ?a2) 2) = 12" "buf_loc ?b = 11"
    "rank ?b = Some 1"
    by (simp_all add: ex_memory_def ex_redeclare_def ex_program_def ex_compute_def ex_op_def
        ex_declared_def rank_def MappingSize_def)
  have implied: "GetBufferLayout ex_algebra ex_two_loops 2 ?a2 = Some (Some (GetIdentity 2))"
    "MappingSize (GetIdentity 2) \<noteq> 1"
    "GetBufferLayout ex_algebra ex_two_loops 2 ?a = Some (Some (ex_layout [MappingDimExpr 0]))"
    by code_simp+
  have same: "DeclareBuffer ex_algebra ex_two_loops (ex_redeclare ''f32'' ?a) 2 0 (Some ?a)
                [(''b'', ?b)] = Some (Succeeded, ?after)"
    by code_simp
  show ?thesis
    using rank_stable
            [where attr = "Some ?a2" and a = ?a2 and name = "''b''"
               and buffer_map = "[(''b'', ?b)]" and buffer = ?b and result = 0
               and prog = "ex_redeclare ''f32'' ?a2" and op = 2 and alg = ex_algebra
               and an = ex_two_loops and r = 1 and layout = "GetIdentity 2"]
          rank_stable
            [where attr = "Some ?a" and a = ?a and name = "''b''"
               and buffer_map = "[(''b'', ?b)]" and buffer = ?b and result = 0
               and prog = "ex_redeclare ''f32'' ?a" and op = 2 and alg = ex_algebra
               and an = ex_two_loops and r = 1 and layout = "ex_layout [MappingDimExpr 0]"]
          keeps declared implied same
    by auto
qed

text \<open>
  C6.  The loop nest of a buffer never gets longer.  \<^verbatim>\<open>Buffer::SetLoopNest\<close>, when it
  returns, leaves a loop nest no longer than the one the buffer had, a prefix of it; given a
  longer loop nest it stops at its \<^verbatim>\<open>assert\<close>.  The mapping from a loop nest to its loops
  having one expression for each loop, the two calls of the analysis, in
  \<^verbatim>\<open>TrimBufferLoopNestForAccess\<close> and in \<^verbatim>\<open>VerifyAndMinimizeBufferLoopNests\<close>, pass a loop
  nest that is not longer.  The other methods that update a buffer leave its loop nest as
  it is.  After \<^verbatim>\<open>VerifyAndMinimizeBufferLoopNests\<close>, whatever its outcome, the table has the
  same names in the same order, and the loop nest of each buffer is a prefix of the one it
  had; and so it is after any sequence of \<^verbatim>\<open>DeclareBuffers\<close>, \<^verbatim>\<open>UpdateStorage\<close>,
  \<^verbatim>\<open>AddDimensionsToBuffer\<close> and \<^verbatim>\<open>VerifyAndMinimizeBufferLoopNests\<close> that returns.
\<close>

theorem loop_nest_never_grows:
  "(SetLoopNest alg ln b = Some shrunk \<longrightarrow>
      length (buf_loop_nest shrunk) \<le> length (buf_loop_nest b) \<and>
      buf_loop_nest shrunk = take (MappingSize (domain_to_loops ln)) (buf_loop_nest b))
   \<and> (length (buf_loop_nest b) < MappingSize (domain_to_loops ln) \<longrightarrow>
        SetLoopNest alg ln b = None)
   \<and> (OneExprPerLoop an \<longrightarrow>
        (\<exists>trimmed. TrimBufferLoopNestForAccess alg an iter_space layout b
                      = SetLoopNest alg trimmed b
                    \<and> MappingSize (domain_to_loops trimmed) \<le> length (buf_loop_nest b))
        \<and> MappingSize (domain_to_loops (GetLoopNest an (take n (buf_loop_nest b))))
            \<le> length (buf_loop_nest b))
   \<and> buf_loop_nest (UnifyLayout alg new_layout b) = buf_loop_nest b
   \<and> buf_loop_nest (AddValue prog v b) = buf_loop_nest b
   \<and> buf_loop_nest (AppendToDomain alg new_values b) = buf_loop_nest b
   \<and> (AddNonePrefixToLayout num_new_dims b = Some prefixed \<longrightarrow>
        buf_loop_nest prefixed = buf_loop_nest b)
   \<and> (VerifyAndMinimizeBufferLoopNests alg an prog declared = Some (outcome, minimized) \<longrightarrow>
        map fst minimized = map fst declared \<and>
        (\<forall>name buffer. map_of declared name = Some buffer \<longrightarrow>
           (\<exists>buffer'. map_of minimized name = Some buffer' \<and>
              length (buf_loop_nest buffer') \<le> length (buf_loop_nest buffer) \<and>
              buf_loop_nest buffer' = take (length (buf_loop_nest buffer')) (buf_loop_nest buffer))))
   \<and> (Mutations alg an prog mutations buffers = Some buffers' \<longrightarrow>
        (\<forall>name buffer. map_of buffers name = Some buffer \<longrightarrow>
           (\<exists>buffer'. map_of buffers' name = Some buffer' \<and>
              length (buf_loop_nest buffer') \<le> length (buf_loop_nest buffer) \<and>
              buf_loop_nest buffer' = take (length (buf_loop_nest buffer')) (buf_loop_nest buffer))))"
proof (intro conjI impI)
  assume s: "SetLoopNest alg ln b = Some shrunk"
  from SetLoopNest_loop_nest [OF s]
  show "length (buf_loop_nest shrunk) \<le> length (buf_loop_nest b)"
    and "buf_loop_nest shrunk = take (MappingSize (domain_to_loops ln)) (buf_loop_nest b)"
    by simp_all
next
  assume "length (buf_loop_nest b) < MappingSize (domain_to_loops ln)"
  then show "SetLoopNest alg ln b = None" by (simp add: SetLoopNest_def Let_def)
next
  assume c: "OneExprPerLoop an"
  let ?k = "TrimmedLength iter_space layout (buf_loop_nest b)"
  let ?ln = "GetLoopNest an (take ?k (loop_names iter_space))"
  from c have "MappingSize (domain_to_loops ?ln) = length (take ?k (loop_names iter_space))"
    unfolding OneExprPerLoop_def by blast
  with TrimmedLength_le [of iter_space layout "buf_loop_nest b"]
  have "MappingSize (domain_to_loops ?ln) \<le> length (buf_loop_nest b)" by simp
  with Trim_unfold [of alg an iter_space layout b]
  show "\<exists>trimmed. TrimBufferLoopNestForAccess alg an iter_space layout b
                      = SetLoopNest alg trimmed b
                    \<and> MappingSize (domain_to_loops trimmed) \<le> length (buf_loop_nest b)"
    by blast
next
  assume c: "OneExprPerLoop an"
  then have "MappingSize (domain_to_loops (GetLoopNest an (take n (buf_loop_nest b))))
               = length (take n (buf_loop_nest b))"
    unfolding OneExprPerLoop_def by blast
  then show "MappingSize (domain_to_loops (GetLoopNest an (take n (buf_loop_nest b))))
               \<le> length (buf_loop_nest b)" by simp
next
  show "buf_loop_nest (UnifyLayout alg new_layout b) = buf_loop_nest b"
    by (simp add: UnifyLayout_def split: option.splits)
next
  show "buf_loop_nest (AddValue prog v b) = buf_loop_nest b"
    by (simp add: AddValue_def Let_def)
next
  show "buf_loop_nest (AppendToDomain alg new_values b) = buf_loop_nest b"
    by (simp add: AppendToDomain_def Let_def split: option.splits)
next
  assume "AddNonePrefixToLayout num_new_dims b = Some prefixed"
  then show "buf_loop_nest prefixed = buf_loop_nest b"
    by (auto simp: AddNonePrefixToLayout_def split: option.splits if_splits)
next
  assume m: "VerifyAndMinimizeBufferLoopNests alg an prog declared = Some (outcome, minimized)"
  from VerifyAndMinimizeBufferLoopNests_EachBuffer [OF m]
  show "map fst minimized = map fst declared"
    and "\<forall>name buffer. map_of declared name = Some buffer \<longrightarrow>
           (\<exists>buffer'. map_of minimized name = Some buffer' \<and>
              length (buf_loop_nest buffer') \<le> length (buf_loop_nest buffer) \<and>
              buf_loop_nest buffer' = take (length (buf_loop_nest buffer')) (buf_loop_nest buffer))"
    by (simp_all add: EachBuffer_def LoopNestShrinks_def)
next
  assume m: "Mutations alg an prog mutations buffers = Some buffers'"
  from Mutations_EachBuffer [OF m]
  show "\<forall>name buffer. map_of buffers name = Some buffer \<longrightarrow>
           (\<exists>buffer'. map_of buffers' name = Some buffer' \<and>
              length (buf_loop_nest buffer') \<le> length (buf_loop_nest buffer) \<and>
              buf_loop_nest buffer' = take (length (buf_loop_nest buffer')) (buf_loop_nest buffer))"
    by (simp add: EachBuffer_def LoopNestShrinks_def)
qed

text \<open>
  One operation in the loop \<open>i\<close> declares the buffer \<open>b\<close> with a layout of no dimension:
  the buffer is declared in the loop \<open>i\<close>, and once the result of the operation is
  registered in it, minimizing leaves it in no loop.  Setting the loop nest of the
  declared buffer to the loops \<open>i\<close> and \<open>j\<close> stops.
\<close>

theorem loop_nest_never_grows_witness:
  "Mutations ex_algebra ex_loop_i (ex_declare ''f32'' (ex_memory ''b'' [])) [Declare] []
     = Some [(''b'', ex_declared ''f32'' [''i''] [])]
   \<and> (\<exists>minimized.
         Mutations ex_algebra ex_loop_i (ex_declare ''f32'' (ex_memory ''b'' []))
           [Update (1, 0)
              \<lparr>vs_space = Some ''memory'', vs_buffer_name = Some ''b'', vs_layout = None\<rparr>
              ValueStorage_default,
            Minimize]
           [(''b'', ex_declared ''f32'' [''i''] [])]
           = Some [(''b'', minimized)]
         \<and> buf_loop_nest minimized = []
         \<and> length (buf_loop_nest minimized)
             \<le> length (buf_loop_nest (ex_declared ''f32'' [''i''] [])))
   \<and> (\<exists>shrunk. SetLoopNest ex_algebra (GetLoopNest ex_loop_i []) (ex_declared ''f32'' [''i''] [])
                   = Some shrunk
                 \<and> length (buf_loop_nest shrunk)
                     \<le> length (buf_loop_nest (ex_declared ''f32'' [''i''] [])))
   \<and> SetLoopNest ex_algebra (GetLoopNest ex_two_loops [''i'', ''j''])
         (ex_declared ''f32'' [''i''] []) = None"
proof -
  let ?prog = "ex_declare ''f32'' (ex_memory ''b'' [])"
  let ?declared = "ex_declared ''f32'' [''i''] []"
  let ?new = "\<lparr>vs_space = Some ''memory'', vs_buffer_name = Some ''b'', vs_layout = None\<rparr>"
  let ?shrunk =
    "(ex_declared ''f32'' [] [])\<lparr>buf_domain := [],
        buf_layout := Some \<lparr>UseDomainSize = 0, Dimensions = []\<rparr>\<rparr>"
  let ?minimized = "?shrunk\<lparr>buf_writes := [(1, 0)], buf_values := [(1, 0)]\<rparr>"
  have declared: "Mutations ex_algebra ex_loop_i ?prog [Declare] [] = Some [(''b'', ?declared)]"
    by code_simp
  have minimized:
    "Mutations ex_algebra ex_loop_i ?prog [Update (1, 0) ?new ValueStorage_default, Minimize]
       [(''b'', ?declared)] = Some [(''b'', ?minimized)]"
    by code_simp
  have shrunk: "SetLoopNest ex_algebra (GetLoopNest ex_loop_i []) ?declared = Some ?shrunk"
    by code_simp
  have longer: "length (buf_loop_nest ?declared)
                  < MappingSize (domain_to_loops (GetLoopNest ex_two_loops [''i'', ''j'']))"
    by code_simp
  have found: "map_of [(''b'', ?declared)] ''b'' = Some ?declared"
    by simp
  from minimized found
  have "\<exists>buffer'. map_of [(''b'', ?minimized)] ''b'' = Some buffer' \<and>
          length (buf_loop_nest buffer') \<le> length (buf_loop_nest ?declared)"
    using loop_nest_never_grows
            [where alg = ex_algebra and an = ex_loop_i and prog = ?prog
               and mutations = "[Update (1, 0) ?new ValueStorage_default, Minimize]"
               and buffers = "[(''b'', ?declared)]" and buffers' = "[(''b'', ?minimized)]"]
    by blast
  then have "length (buf_loop_nest ?minimized) \<le> length (buf_loop_nest ?declared)"
    by simp
  moreover from shrunk
  have "length (buf_loop_nest ?shrunk) \<le> length (buf_loop_nest ?declared)"
    using loop_nest_never_grows
            [where alg = ex_algebra and ln = "GetLoopNest ex_loop_i []" and b = ?declared
               and shrunk = ?shrunk]
    by blast
  moreover from longer
  have "SetLoopNest ex_algebra (GetLoopNest ex_two_loops [''i'', ''j'']) ?declared = None"
    using loop_nest_never_grows
            [where alg = ex_algebra and ln = "GetLoopNest ex_two_loops [''i'', ''j'']"
               and b = ?declared]
    by blast
  moreover have "buf_loop_nest ?minimized = []"
    by (simp add: ex_declared_def)
  ultimately show ?thesis using declared minimized shrunk by blast
qed

text \<open>
  C7.  For an operand whose producer and user both have fully specified iteration spaces
  and whose value has a layout, \<^verbatim>\<open>VerifyCommunicationVolume\<close> fails exactly when the
  mapping from the layout to the communication volume (the inverse of the layout composed
  with the producer's iteration space, composed with \<^verbatim>\<open>CommunicationVolume\<close>, then
  canonicalized) has a none expression; the diagnostic is emitted at the location of the
  use, with the note "operand defined here" at the operation defining the value.  When
  the layout of the value is null, or one of the two iteration spaces is not fully
  specified, the check succeeds.  The communication volume is computed from the number
  \<open>k\<close> of leading loops common to the producer and the user: the mapping of the
  producer's iteration space, resized to the rank of the value and cut to its first \<open>k\<close>
  loops, is inverted, made surjective, inverted again, and its first \<open>k\<close> dimensions,
  those of the common loops, are dropped.  So the user counts in the check only through
  the loops it shares with the producer: two users with as many common loops, both with a
  fully specified iteration space or both without, are checked alike.  And, composition
  and canonicalization keeping the number of dimensions, when the communication volume
  has no dimension the check of a value that has a storage succeeds whatever the layout.
\<close>

theorem communication_volume_verified:
  "(fully_specified use_iter_space \<and>
    fully_specified (GetIterationSpace an (getDefiningOp (va_value operand))) \<and>
    storages (va_value operand) = Some storage \<and> vs_layout storage = Some layout \<longrightarrow>
      VerifyCommunicationVolume alg an prog storages at use_iter_space operand =
        Some (if HasNoneExprs
                   (Canonicalize alg
                      (Compose alg
                         (Inverse alg
                            (Compose alg
                               (is_mapping (GetIterationSpace an (getDefiningOp (va_value operand))))
                               layout))
                         (CommunicationVolume alg (MappingSize (va_mapping operand))
                            (GetIterationSpace an (getDefiningOp (va_value operand)))
                            use_iter_space)))
              then Failed
                     \<lparr>diag_loc = at,
                      diag_message =
                        [Str (''operand storage must cover all operand dimensions ''
                              @ ''that are not covered by loops common to both operand and user'')],
                      diag_note =
                        Some (getLoc (ops prog (getDefiningOp (va_value operand))),
                              ''operand defined here'')\<rparr>
              else Succeeded))
   \<and> (\<not> fully_specified use_iter_space \<or>
       \<not> fully_specified (GetIterationSpace an (getDefiningOp (va_value operand))) \<or>
       (storages (va_value operand) = Some storage \<and> vs_layout storage = None) \<longrightarrow>
      VerifyCommunicationVolume alg an prog storages at use_iter_space operand = Some Succeeded)
   \<and> CommunicationVolume alg value_rank def_iter_space user_iter_space
       = (let num_common_loops =
                CommonPrefixLength (loop_names def_iter_space) (loop_names user_iter_space)
          in DropFront alg
               (Inverse alg
                  (MakeSurjective alg
                     (Inverse alg
                        (Resize alg (ResizeUseDomain alg (is_mapping def_iter_space) value_rank)
                           num_common_loops))))
               num_common_loops)
   \<and> (fully_specified use_iter_space = fully_specified other_iter_space \<and>
       CommonPrefixLength
         (loop_names (GetIterationSpace an (getDefiningOp (va_value operand))))
         (loop_names use_iter_space)
       = CommonPrefixLength
           (loop_names (GetIterationSpace an (getDefiningOp (va_value operand))))
           (loop_names other_iter_space) \<longrightarrow>
      VerifyCommunicationVolume alg an prog storages at use_iter_space operand
      = VerifyCommunicationVolume alg an prog storages at other_iter_space operand)
   \<and> ((\<forall>a b. MappingSize (Compose alg a b) = MappingSize b) \<and>
       (\<forall>m. MappingSize (Canonicalize alg m) = MappingSize m) \<and>
       storages (va_value operand) = Some storage \<and>
       MappingSize (CommunicationVolume alg (MappingSize (va_mapping operand))
          (GetIterationSpace an (getDefiningOp (va_value operand))) use_iter_space) = 0 \<longrightarrow>
      VerifyCommunicationVolume alg an prog storages at use_iter_space operand = Some Succeeded)"
proof (intro conjI impI)
  assume "fully_specified use_iter_space \<and>
    fully_specified (GetIterationSpace an (getDefiningOp (va_value operand))) \<and>
    storages (va_value operand) = Some storage \<and> vs_layout storage = Some layout"
  then show "VerifyCommunicationVolume alg an prog storages at use_iter_space operand =
        Some (if HasNoneExprs
                   (Canonicalize alg
                      (Compose alg
                         (Inverse alg
                            (Compose alg
                               (is_mapping (GetIterationSpace an (getDefiningOp (va_value operand))))
                               layout))
                         (CommunicationVolume alg (MappingSize (va_mapping operand))
                            (GetIterationSpace an (getDefiningOp (va_value operand)))
                            use_iter_space)))
              then Failed
                     \<lparr>diag_loc = at,
                      diag_message =
                        [Str (''operand storage must cover all operand dimensions ''
                              @ ''that are not covered by loops common to both operand and user'')],
                      diag_note =
                        Some (getLoc (ops prog (getDefiningOp (va_value operand))),
                              ''operand defined here'')\<rparr>
              else Succeeded)"
    by (simp add: VerifyCommunicationVolume_def LayoutToCommunicationVolume_def
        IncompleteStorage_def emitError_def attachNote_def Let_def)
next
  assume "\<not> fully_specified use_iter_space \<or>
       \<not> fully_specified (GetIterationSpace an (getDefiningOp (va_value operand))) \<or>
       (storages (va_value operand) = Some storage \<and> vs_layout storage = None)"
  then show "VerifyCommunicationVolume alg an prog storages at use_iter_space operand
             = Some Succeeded"
    by (auto simp: VerifyCommunicationVolume_def Let_def)
next
  show "CommunicationVolume alg value_rank def_iter_space user_iter_space
       = (let num_common_loops =
                CommonPrefixLength (loop_names def_iter_space) (loop_names user_iter_space)
          in DropFront alg
               (Inverse alg
                  (MakeSurjective alg
                     (Inverse alg
                        (Resize alg (ResizeUseDomain alg (is_mapping def_iter_space) value_rank)
                           num_common_loops))))
               num_common_loops)"
    by (simp add: CommunicationVolume_def NumCommonLoops_def Let_def)
next
  assume "fully_specified use_iter_space = fully_specified other_iter_space \<and>
       CommonPrefixLength
         (loop_names (GetIterationSpace an (getDefiningOp (va_value operand))))
         (loop_names use_iter_space)
       = CommonPrefixLength
           (loop_names (GetIterationSpace an (getDefiningOp (va_value operand))))
           (loop_names other_iter_space)"
  then show "VerifyCommunicationVolume alg an prog storages at use_iter_space operand
      = VerifyCommunicationVolume alg an prog storages at other_iter_space operand"
    using VerifyCommunicationVolume_common_loops by blast
next
  assume "(\<forall>a b. MappingSize (Compose alg a b) = MappingSize b) \<and>
       (\<forall>m. MappingSize (Canonicalize alg m) = MappingSize m) \<and>
       storages (va_value operand) = Some storage \<and>
       MappingSize (CommunicationVolume alg (MappingSize (va_mapping operand))
          (GetIterationSpace an (getDefiningOp (va_value operand))) use_iter_space) = 0"
  then show "VerifyCommunicationVolume alg an prog storages at use_iter_space operand
             = Some Succeeded"
    using VerifyCommunicationVolume_empty_volume by blast
qed

text \<open>
  An operand produced in the loop \<open>i\<close> and used outside of it: a register layout without
  dimension does not cover the communication volume, a layout indexed by \<open>i\<close> does, and
  a storage without layout is not checked, nor is a user whose iteration space is not
  fully specified.  An operand produced in the loops \<open>i\<close> and
  \<open>j\<close>: for a user in the loop \<open>i\<close> the communication volume is the dimension of \<open>j\<close>,
  so that the layout \<^verbatim>\<open>[d1]\<close> covers it and the layout \<^verbatim>\<open>[d0]\<close> does not; the same layout
  \<^verbatim>\<open>[d1]\<close> does not cover it for a user outside of both loops; for a user in both loops
  the volume has no dimension and a layout without dimension covers it; and a user in the
  loops \<open>i\<close> and \<open>k\<close> is checked as the user in the loop \<open>i\<close>.
\<close>

theorem communication_volume_verified_witness:
  "VerifyCommunicationVolume ex_algebra ex_producer_in_loop ex_cross
       [(1, 0) \<mapsto> \<lparr>vs_space = Some ''register'', vs_buffer_name = None, vs_layout = Some \<lparr>UseDomainSize = 1, Dimensions = []\<rparr>\<rparr>]
       12 (ex_IterationSpace []) \<lparr>va_value = (1, 0), va_mapping = GetIdentity 1\<rparr>
     = Some (Failed \<lparr>diag_loc = 12,
          diag_message =
            [Str (''operand storage must cover all operand dimensions ''
                  @ ''that are not covered by loops common to both operand and user'')],
          diag_note = Some (11, ''operand defined here'')\<rparr>)
   \<and> VerifyCommunicationVolume ex_algebra ex_producer_in_loop ex_cross
       [(1, 0) \<mapsto> \<lparr>vs_space = Some ''memory'', vs_buffer_name = Some ''b'', vs_layout = Some (GetIdentity 1)\<rparr>]
       12 (ex_IterationSpace []) \<lparr>va_value = (1, 0), va_mapping = GetIdentity 1\<rparr>
     = Some Succeeded
   \<and> VerifyCommunicationVolume ex_algebra ex_producer_in_loop ex_cross
       [(1, 0) \<mapsto> ValueStorage_default]
       12 (ex_IterationSpace []) \<lparr>va_value = (1, 0), va_mapping = GetIdentity 1\<rparr>
     = Some Succeeded
   \<and> CommunicationVolume ex_algebra 2 (ex_IterationSpace [''i'', ''j'']) (ex_IterationSpace [''i''])
     = \<lparr>UseDomainSize = 2, Dimensions = [MappingDimExpr 1]\<rparr>
   \<and> VerifyCommunicationVolume ex_algebra ex_user_outside ex_in_place
       [(1, 0) \<mapsto> \<lparr>vs_space = Some ''memory'', vs_buffer_name = Some ''b'', vs_layout = Some (ex_layout [MappingDimExpr 1])\<rparr>]
       12 (ex_IterationSpace [''i'']) \<lparr>va_value = (1, 0), va_mapping = GetIdentity 2\<rparr>
     = Some Succeeded
   \<and> VerifyCommunicationVolume ex_algebra ex_user_outside ex_in_place
       [(1, 0) \<mapsto> \<lparr>vs_space = Some ''memory'', vs_buffer_name = Some ''b'', vs_layout = Some (ex_layout [MappingDimExpr 0])\<rparr>]
       12 (ex_IterationSpace [''i'']) \<lparr>va_value = (1, 0), va_mapping = GetIdentity 2\<rparr>
     = Some (Failed \<lparr>diag_loc = 12,
          diag_message =
            [Str (''operand storage must cover all operand dimensions ''
                  @ ''that are not covered by loops common to both operand and user'')],
          diag_note = Some (11, ''operand defined here'')\<rparr>)
   \<and> VerifyCommunicationVolume ex_algebra ex_user_outside ex_in_place
       [(1, 0) \<mapsto> \<lparr>vs_space = Some ''memory'', vs_buffer_name = Some ''b'', vs_layout = Some (ex_layout [MappingDimExpr 1])\<rparr>]
       12 (ex_IterationSpace []) \<lparr>va_value = (1, 0), va_mapping = GetIdentity 2\<rparr>
     = Some (Failed \<lparr>diag_loc = 12,
          diag_message =
            [Str (''operand storage must cover all operand dimensions ''
                  @ ''that are not covered by loops common to both operand and user'')],
          diag_note = Some (11, ''operand defined here'')\<rparr>)
   \<and> VerifyCommunicationVolume ex_algebra ex_user_outside ex_in_place
       [(1, 0) \<mapsto> \<lparr>vs_space = Some ''memory'', vs_buffer_name = Some ''b'', vs_layout = Some (ex_layout [])\<rparr>]
       12 (ex_IterationSpace [''i'', ''j'']) \<lparr>va_value = (1, 0), va_mapping = GetIdentity 2\<rparr>
     = Some Succeeded
   \<and> VerifyCommunicationVolume ex_algebra ex_user_outside ex_in_place
       [(1, 0) \<mapsto> \<lparr>vs_space = Some ''memory'', vs_buffer_name = Some ''b'', vs_layout = Some (ex_layout [MappingDimExpr 1])\<rparr>]
       12 (ex_IterationSpace [''i'', ''k'']) \<lparr>va_value = (1, 0), va_mapping = GetIdentity 2\<rparr>
     = Some Succeeded
   \<and> VerifyCommunicationVolume ex_algebra ex_producer_in_loop ex_cross
       [(1, 0) \<mapsto> \<lparr>vs_space = Some ''register'', vs_buffer_name = None, vs_layout = Some \<lparr>UseDomainSize = 1, Dimensions = []\<rparr>\<rparr>]
       12 ((ex_IterationSpace [])\<lparr>fully_specified := False\<rparr>)
       \<lparr>va_value = (1, 0), va_mapping = GetIdentity 1\<rparr>
     = Some Succeeded"
proof -
  let ?operand = "\<lparr>va_value = (1, 0), va_mapping = GetIdentity 1\<rparr>"
  let ?produced = "\<lparr>va_value = (1, 0), va_mapping = GetIdentity 2\<rparr>"
  let ?register = "\<lparr>vs_space = Some ''register'', vs_buffer_name = None, vs_layout = Some \<lparr>UseDomainSize = 1, Dimensions = []\<rparr>\<rparr>"
  let ?memory = "\<lparr>vs_space = Some ''memory'', vs_buffer_name = Some ''b'', vs_layout = Some (GetIdentity 1)\<rparr>"
  let ?row = "\<lparr>vs_space = Some ''memory'', vs_buffer_name = Some ''b'', vs_layout = Some (ex_layout [MappingDimExpr 0])\<rparr>"
  let ?column = "\<lparr>vs_space = Some ''memory'', vs_buffer_name = Some ''b'', vs_layout = Some (ex_layout [MappingDimExpr 1])\<rparr>"
  let ?scalar = "\<lparr>vs_space = Some ''memory'', vs_buffer_name = Some ''b'', vs_layout = Some (ex_layout [])\<rparr>"
  let ?def = "GetIterationSpace ex_producer_in_loop (getDefiningOp (va_value ?operand))"
  let ?nested = "GetIterationSpace ex_user_outside (getDefiningOp (va_value ?produced))"
  let ?volume = "\<lambda>layout.
        Canonicalize ex_algebra
          (Compose ex_algebra (Inverse ex_algebra (Compose ex_algebra (is_mapping ?def) layout))
             (CommunicationVolume ex_algebra (MappingSize (va_mapping ?operand)) ?def
                (ex_IterationSpace [])))"
  let ?covered = "\<lambda>layout use.
        Canonicalize ex_algebra
          (Compose ex_algebra (Inverse ex_algebra (Compose ex_algebra (is_mapping ?nested) layout))
             (CommunicationVolume ex_algebra (MappingSize (va_mapping ?produced)) ?nested
                (ex_IterationSpace use)))"
  have specified: "fully_specified (ex_IterationSpace [])" "fully_specified ?def"
    "fully_specified ?nested" "fully_specified (ex_IterationSpace [''i''])"
    "fully_specified (ex_IterationSpace [''i'', ''j''])"
    "fully_specified (ex_IterationSpace [''i'', ''k''])"
    by (simp_all add: ex_IterationSpace_def ex_producer_in_loop_def ex_user_outside_def
        ex_analyses_def)
  have uncovered: "HasNoneExprs (?volume \<lparr>UseDomainSize = 1, Dimensions = []\<rparr>)"
    by code_simp
  have covered: "\<not> HasNoneExprs (?volume (GetIdentity 1))"
    by code_simp
  have at_11: "getLoc (ops ex_cross (getDefiningOp (va_value ?operand))) = 11"
    "getLoc (ops ex_in_place (getDefiningOp (va_value ?produced))) = 11"
    by code_simp+
  have column: "\<not> HasNoneExprs (?covered (ex_layout [MappingDimExpr 1]) [''i''])"
    "HasNoneExprs (?covered (ex_layout [MappingDimExpr 0]) [''i''])"
    "HasNoneExprs (?covered (ex_layout [MappingDimExpr 1]) [])"
    by code_simp+
  have common: "CommonPrefixLength (loop_names ?nested) (loop_names (ex_IterationSpace [''i'', ''k'']))
                = CommonPrefixLength (loop_names ?nested) (loop_names (ex_IterationSpace [''i'']))"
    by code_simp
  have sizes: "\<forall>a b. MappingSize (Compose ex_algebra a b) = MappingSize b"
    "\<forall>m. MappingSize (Canonicalize ex_algebra m) = MappingSize m"
    by (simp_all add: ex_algebra_def ex_Compose_def MappingSize_def)
  have empty: "MappingSize (CommunicationVolume ex_algebra (MappingSize (va_mapping ?produced))
                  ?nested (ex_IterationSpace [''i'', ''j''])) = 0"
    by code_simp
  have volume: "(let num_common_loops =
                       CommonPrefixLength (loop_names (ex_IterationSpace [''i'', ''j'']))
                         (loop_names (ex_IterationSpace [''i'']))
                 in DropFront ex_algebra
                      (Inverse ex_algebra
                         (MakeSurjective ex_algebra
                            (Inverse ex_algebra
                               (Resize ex_algebra
                                  (ResizeUseDomain ex_algebra
                                     (is_mapping (ex_IterationSpace [''i'', ''j''])) 2)
                                  num_common_loops))))
                      num_common_loops)
                = \<lparr>UseDomainSize = 2, Dimensions = [MappingDimExpr 1]\<rparr>"
    by code_simp
  from specified uncovered at_11
  have 1: "VerifyCommunicationVolume ex_algebra ex_producer_in_loop ex_cross
       [(1, 0) \<mapsto> ?register]
       12 (ex_IterationSpace []) ?operand
           = Some (Failed \<lparr>diag_loc = 12,
          diag_message =
            [Str (''operand storage must cover all operand dimensions ''
                  @ ''that are not covered by loops common to both operand and user'')],
          diag_note = Some (11, ''operand defined here'')\<rparr>)"
    using communication_volume_verified
            [where use_iter_space = "ex_IterationSpace []" and an = ex_producer_in_loop
               and operand = ?operand and storages = "[(1, 0) \<mapsto> ?register]"
               and storage = ?register
               and layout = "\<lparr>UseDomainSize = 1, Dimensions = []\<rparr>"
               and alg = ex_algebra and prog = ex_cross and at = 12 and value_rank = 0
               and def_iter_space = "ex_IterationSpace []"
               and user_iter_space = "ex_IterationSpace []"
               and other_iter_space = "ex_IterationSpace []"]
    by simp
  from specified covered
  have 2: "VerifyCommunicationVolume ex_algebra ex_producer_in_loop ex_cross
       [(1, 0) \<mapsto> ?memory]
       12 (ex_IterationSpace []) ?operand
           = Some Succeeded"
    using communication_volume_verified
            [where use_iter_space = "ex_IterationSpace []" and an = ex_producer_in_loop
               and operand = ?operand and storages = "[(1, 0) \<mapsto> ?memory]"
               and storage = ?memory and layout = "GetIdentity 1" and alg = ex_algebra
               and prog = ex_cross and at = 12 and value_rank = 0
               and def_iter_space = "ex_IterationSpace []"
               and user_iter_space = "ex_IterationSpace []"
               and other_iter_space = "ex_IterationSpace []"]
    by simp
  have 3: "VerifyCommunicationVolume ex_algebra ex_producer_in_loop ex_cross
       [(1, 0) \<mapsto> ValueStorage_default]
       12 (ex_IterationSpace []) ?operand
           = Some Succeeded"
    using communication_volume_verified
            [where use_iter_space = "ex_IterationSpace []" and an = ex_producer_in_loop
               and operand = ?operand and storages = "[(1, 0) \<mapsto> ValueStorage_default]"
               and storage = ValueStorage_default and layout = "ex_layout []"
               and alg = ex_algebra and prog = ex_cross and at = 12 and value_rank = 0
               and def_iter_space = "ex_IterationSpace []"
               and user_iter_space = "ex_IterationSpace []"
               and other_iter_space = "ex_IterationSpace []"]
    by (simp add: ValueStorage_default_def)
  from volume
  have 4: "CommunicationVolume ex_algebra 2 (ex_IterationSpace [''i'', ''j''])
             (ex_IterationSpace [''i''])
           = \<lparr>UseDomainSize = 2, Dimensions = [MappingDimExpr 1]\<rparr>"
    using communication_volume_verified
            [where use_iter_space = "ex_IterationSpace []" and an = ex_user_outside
               and operand = ?produced and storages = Map.empty
               and storage = ValueStorage_default and layout = "ex_layout []"
               and alg = ex_algebra and prog = ex_in_place and at = 12 and value_rank = 2
               and def_iter_space = "ex_IterationSpace [''i'', ''j'']"
               and user_iter_space = "ex_IterationSpace [''i'']"
               and other_iter_space = "ex_IterationSpace []"]
    by simp
  from specified column(1)
  have 5: "VerifyCommunicationVolume ex_algebra ex_user_outside ex_in_place
       [(1, 0) \<mapsto> ?column]
       12 (ex_IterationSpace [''i'']) ?produced
           = Some Succeeded"
    using communication_volume_verified
            [where use_iter_space = "ex_IterationSpace [''i'']" and an = ex_user_outside
               and operand = ?produced and storages = "[(1, 0) \<mapsto> ?column]"
               and storage = ?column and layout = "ex_layout [MappingDimExpr 1]"
               and alg = ex_algebra and prog = ex_in_place and at = 12 and value_rank = 0
               and def_iter_space = "ex_IterationSpace []"
               and user_iter_space = "ex_IterationSpace []"
               and other_iter_space = "ex_IterationSpace []"]
    by simp
  from specified column(2) at_11
  have 6: "VerifyCommunicationVolume ex_algebra ex_user_outside ex_in_place
       [(1, 0) \<mapsto> ?row]
       12 (ex_IterationSpace [''i'']) ?produced
           = Some (Failed \<lparr>diag_loc = 12,
          diag_message =
            [Str (''operand storage must cover all operand dimensions ''
                  @ ''that are not covered by loops common to both operand and user'')],
          diag_note = Some (11, ''operand defined here'')\<rparr>)"
    using communication_volume_verified
            [where use_iter_space = "ex_IterationSpace [''i'']" and an = ex_user_outside
               and operand = ?produced and storages = "[(1, 0) \<mapsto> ?row]"
               and storage = ?row and layout = "ex_layout [MappingDimExpr 0]"
               and alg = ex_algebra and prog = ex_in_place and at = 12 and value_rank = 0
               and def_iter_space = "ex_IterationSpace []"
               and user_iter_space = "ex_IterationSpace []"
               and other_iter_space = "ex_IterationSpace []"]
    by simp
  from specified column(3) at_11
  have 7: "VerifyCommunicationVolume ex_algebra ex_user_outside ex_in_place
       [(1, 0) \<mapsto> ?column]
       12 (ex_IterationSpace []) ?produced
           = Some (Failed \<lparr>diag_loc = 12,
          diag_message =
            [Str (''operand storage must cover all operand dimensions ''
                  @ ''that are not covered by loops common to both operand and user'')],
          diag_note = Some (11, ''operand defined here'')\<rparr>)"
    using communication_volume_verified
            [where use_iter_space = "ex_IterationSpace []" and an = ex_user_outside
               and operand = ?produced and storages = "[(1, 0) \<mapsto> ?column]"
               and storage = ?column and layout = "ex_layout [MappingDimExpr 1]"
               and alg = ex_algebra and prog = ex_in_place and at = 12 and value_rank = 0
               and def_iter_space = "ex_IterationSpace []"
               and user_iter_space = "ex_IterationSpace []"
               and other_iter_space = "ex_IterationSpace []"]
    by simp
  from sizes empty
  have 8: "VerifyCommunicationVolume ex_algebra ex_user_outside ex_in_place
       [(1, 0) \<mapsto> ?scalar]
       12 (ex_IterationSpace [''i'', ''j'']) ?produced
           = Some Succeeded"
    using communication_volume_verified
            [where use_iter_space = "ex_IterationSpace [''i'', ''j'']" and an = ex_user_outside
               and operand = ?produced and storages = "[(1, 0) \<mapsto> ?scalar]"
               and storage = ?scalar and layout = "ex_layout []" and alg = ex_algebra
               and prog = ex_in_place and at = 12 and value_rank = 0
               and def_iter_space = "ex_IterationSpace []"
               and user_iter_space = "ex_IterationSpace []"
               and other_iter_space = "ex_IterationSpace []"]
    by simp
  from specified common 5
  have 9: "VerifyCommunicationVolume ex_algebra ex_user_outside ex_in_place
       [(1, 0) \<mapsto> ?column]
       12 (ex_IterationSpace [''i'', ''k'']) ?produced
           = Some Succeeded"
    using communication_volume_verified
            [where use_iter_space = "ex_IterationSpace [''i'', ''k'']" and an = ex_user_outside
               and operand = ?produced and storages = "[(1, 0) \<mapsto> ?column]"
               and storage = ValueStorage_default and layout = "ex_layout []"
               and alg = ex_algebra and prog = ex_in_place and at = 12 and value_rank = 0
               and def_iter_space = "ex_IterationSpace []"
               and user_iter_space = "ex_IterationSpace []"
               and other_iter_space = "ex_IterationSpace [''i'']"]
    by simp
  have 10: "VerifyCommunicationVolume ex_algebra ex_producer_in_loop ex_cross
       [(1, 0) \<mapsto> ?register]
       12 ((ex_IterationSpace [])\<lparr>fully_specified := False\<rparr>) ?operand
           = Some Succeeded"
    using communication_volume_verified
            [where use_iter_space = "(ex_IterationSpace [])\<lparr>fully_specified := False\<rparr>"
               and an = ex_producer_in_loop and operand = ?operand
               and storages = "[(1, 0) \<mapsto> ?register]" and storage = ?register
               and layout = "\<lparr>UseDomainSize = 1, Dimensions = []\<rparr>"
               and alg = ex_algebra and prog = ex_cross and at = 12 and value_rank = 0
               and def_iter_space = "ex_IterationSpace []"
               and user_iter_space = "ex_IterationSpace []"
               and other_iter_space = "ex_IterationSpace []"]
    by simp
  from 1 2 3 4 5 6 7 8 9 10 show ?thesis by (intro conjI)
qed

text \<open>
  C8.  For a compute operation, the in-place check of \<^verbatim>\<open>VerifyStorages\<close>, when it
  returns, succeeds exactly when, for every result whose storage has a buffer name and
  every value operand whose storage has the same buffer name, the storage of the operand
  mapped through the operand (\<^verbatim>\<open>Map\<close>) has the very layout attribute of the result.
  Otherwise it fails with the in-place-update diagnostic of such a result and operand,
  emitted at the operation.  It returns whenever the values have storages and \<^verbatim>\<open>Map\<close>
  translates the mappings.  Mapping a storage through an operand keeps its space and its
  buffer name and re-expresses its layout in the iteration space of the operation: the
  mapping of the operand, resized to the domain of the defining operation and to the
  domain of the operation, is translated to a mapping between the two iteration spaces,
  composed with the layout and canonicalized; a null layout stays null.  So an operand
  stored in the buffer of a result passes exactly when that composition is the layout
  attribute of the result.
\<close>

theorem in_place_update_same_layout:
  "(VerifyInPlaceUpdate alg an prog storages op = Some outcome \<longrightarrow>
      (outcome = Succeeded
         \<longleftrightarrow> ResultsInPlace alg an prog storages op [0..<getNumResults prog op]) \<and>
      (\<forall>d. outcome = Failed d \<longrightarrow>
         ResultsConflict alg an prog storages op [0..<getNumResults prog op] d \<and>
         diag_loc d = getLoc (ops prog op)))
   \<and> ((\<forall>i < getNumResults prog op. storages (op, i) \<noteq> None) \<and>
       (\<forall>operand \<in> set (ValueOperands (ops prog op)). \<forall>s.
          storages (va_value operand) \<noteq> None \<and> MapOperand alg an prog op operand s \<noteq> None) \<longrightarrow>
       (\<exists>outcome. VerifyInPlaceUpdate alg an prog storages op = Some outcome))
   \<and> MapOperand alg an prog op operand s
       = (case vs_layout s of
            None \<Rightarrow> Some s
          | Some l \<Rightarrow>
              map_option (\<lambda>t. s\<lparr>vs_layout := Some (Canonicalize alg (Compose alg t l))\<rparr>)
                (TranslateMapping an op (getDefiningOp (va_value operand))
                   (ResizeUseDomain alg
                      (Resize alg (va_mapping operand)
                         (length (op_domain (ops prog (getDefiningOp (va_value operand))))))
                      (length (op_domain (ops prog op))))))
   \<and> (SameLayoutInPlace alg an prog storages op result_storage operand \<longleftrightarrow>
        (\<forall>operand_storage.
           storages (va_value operand) = Some operand_storage \<longrightarrow>
           vs_buffer_name operand_storage = vs_buffer_name result_storage \<longrightarrow>
           (case vs_layout operand_storage of
              None \<Rightarrow> vs_layout result_storage = None
            | Some l \<Rightarrow>
                (\<forall>t. TranslateMapping an op (getDefiningOp (va_value operand))
                       (ResizeUseDomain alg
                          (Resize alg (va_mapping operand)
                             (length (op_domain (ops prog (getDefiningOp (va_value operand))))))
                          (length (op_domain (ops prog op)))) = Some t \<longrightarrow>
                     vs_layout result_storage = Some (Canonicalize alg (Compose alg t l))))))"
proof (intro conjI impI allI)
  assume v: "VerifyInPlaceUpdate alg an prog storages op = Some outcome"
  show "outcome = Succeeded
         \<longleftrightarrow> ResultsInPlace alg an prog storages op [0..<getNumResults prog op]"
  proof
    assume "outcome = Succeeded"
    with v show "ResultsInPlace alg an prog storages op [0..<getNumResults prog op]"
      by (simp add: VerifyInPlaceUpdate_def VerifyInPlaceResults_Succeeded)
  next
    assume ok: "ResultsInPlace alg an prog storages op [0..<getNumResults prog op]"
    show "outcome = Succeeded"
    proof (cases outcome)
      case Succeeded
      then show ?thesis .
    next
      case (Failed d)
      with v have "ResultsConflict alg an prog storages op [0..<getNumResults prog op] d"
        by (simp add: VerifyInPlaceUpdate_def VerifyInPlaceResults_Failed)
      with ok show ?thesis by (simp add: ResultsConflict_not_in_place)
    qed
  qed
  fix d
  assume "outcome = Failed d"
  with v show c: "ResultsConflict alg an prog storages op [0..<getNumResults prog op] d"
    by (simp add: VerifyInPlaceUpdate_def VerifyInPlaceResults_Failed)
  then obtain i rs operand where
    "InPlaceConflict alg an prog storages op rs operand d"
    unfolding ResultsConflict_def by blast
  then obtain ms :: ValueStorage where
    "d = InPlaceLayoutConflict (getLoc (ops prog op)) (vs_buffer_name rs) (vs_layout ms)
           (vs_layout rs)"
    unfolding InPlaceConflict_def by blast
  then show "diag_loc d = getLoc (ops prog op)"
    by (simp add: InPlaceLayoutConflict_def emitError_def)
next
  assume "(\<forall>i < getNumResults prog op. storages (op, i) \<noteq> None) \<and>
       (\<forall>operand \<in> set (ValueOperands (ops prog op)). \<forall>s.
          storages (va_value operand) \<noteq> None \<and> MapOperand alg an prog op operand s \<noteq> None)"
  then show "\<exists>outcome. VerifyInPlaceUpdate alg an prog storages op = Some outcome"
    unfolding VerifyInPlaceUpdate_def by (intro VerifyInPlaceResults_returns) simp_all
next
  show "MapOperand alg an prog op operand s
       = (case vs_layout s of
            None \<Rightarrow> Some s
          | Some l \<Rightarrow>
              map_option (\<lambda>t. s\<lparr>vs_layout := Some (Canonicalize alg (Compose alg t l))\<rparr>)
                (TranslateMapping an op (getDefiningOp (va_value operand))
                   (ResizeUseDomain alg
                      (Resize alg (va_mapping operand)
                         (length (op_domain (ops prog (getDefiningOp (va_value operand))))))
                      (length (op_domain (ops prog op))))))"
    by (rule MapOperand_unfold)
next
  show "SameLayoutInPlace alg an prog storages op result_storage operand \<longleftrightarrow>
        (\<forall>operand_storage.
           storages (va_value operand) = Some operand_storage \<longrightarrow>
           vs_buffer_name operand_storage = vs_buffer_name result_storage \<longrightarrow>
           (case vs_layout operand_storage of
              None \<Rightarrow> vs_layout result_storage = None
            | Some l \<Rightarrow>
                (\<forall>t. TranslateMapping an op (getDefiningOp (va_value operand))
                       (ResizeUseDomain alg
                          (Resize alg (va_mapping operand)
                             (length (op_domain (ops prog (getDefiningOp (va_value operand))))))
                          (length (op_domain (ops prog op)))) = Some t \<longrightarrow>
                     vs_layout result_storage = Some (Canonicalize alg (Compose alg t l)))))"
    by (rule SameLayoutInPlace_unfold)
qed

text \<open>
  An operation that reads and writes the buffer \<open>acc\<close>, the operand stored with the layout
  \<^verbatim>\<open>[d0, d1]\<close>.  When the operand is accessed with the identity mapping: with the layout
  \<^verbatim>\<open>[d1, d0]\<close> for the result, a permutation, the check fails; with the same layout for
  both it succeeds.  When the operand is accessed transposed, its storage mapped to the
  operation has the layout \<^verbatim>\<open>[d1, d0]\<close>: the check succeeds with the layout \<^verbatim>\<open>[d1, d0]\<close>
  for the result and fails with the layout \<^verbatim>\<open>[d0, d1]\<close>, the very attribute the storage of
  the operand has.
\<close>

theorem in_place_update_same_layout_witness:
  "VerifyInPlaceUpdate ex_algebra ex_two_loops ex_in_place
       (ex_acc [MappingDimExpr 1, MappingDimExpr 0]) 2
     = Some (Failed (InPlaceLayoutConflict 12 (Some ''acc'')
                (Some (ex_layout [MappingDimExpr 0, MappingDimExpr 1]))
                (Some (ex_layout [MappingDimExpr 1, MappingDimExpr 0]))))
   \<and> \<not> ResultsInPlace ex_algebra ex_two_loops ex_in_place
       (ex_acc [MappingDimExpr 1, MappingDimExpr 0]) 2 [0..<getNumResults ex_in_place 2]
   \<and> diag_loc (InPlaceLayoutConflict 12 (Some ''acc'')
                (Some (ex_layout [MappingDimExpr 0, MappingDimExpr 1]))
                (Some (ex_layout [MappingDimExpr 1, MappingDimExpr 0])))
       = getLoc (ops ex_in_place 2)
   \<and> VerifyInPlaceUpdate ex_algebra ex_two_loops ex_in_place
       (ex_acc [MappingDimExpr 0, MappingDimExpr 1]) 2
     = Some Succeeded
   \<and> ResultsInPlace ex_algebra ex_two_loops ex_in_place
       (ex_acc [MappingDimExpr 0, MappingDimExpr 1]) 2 [0..<getNumResults ex_in_place 2]
   \<and> MapOperand ex_algebra ex_two_loops ex_in_place_transposed 2 ex_transposed
       \<lparr>vs_space = Some ''memory'', vs_buffer_name = Some ''acc'', vs_layout = Some (ex_layout [MappingDimExpr 0, MappingDimExpr 1])\<rparr>
     = Some \<lparr>vs_space = Some ''memory'', vs_buffer_name = Some ''acc'',
             vs_layout = Some (ex_layout [MappingDimExpr 1, MappingDimExpr 0])\<rparr>
   \<and> VerifyInPlaceUpdate ex_algebra ex_two_loops ex_in_place_transposed
       (ex_acc [MappingDimExpr 1, MappingDimExpr 0]) 2
     = Some Succeeded
   \<and> ResultsInPlace ex_algebra ex_two_loops ex_in_place_transposed
       (ex_acc [MappingDimExpr 1, MappingDimExpr 0]) 2 [0..<getNumResults ex_in_place_transposed 2]
   \<and> VerifyInPlaceUpdate ex_algebra ex_two_loops ex_in_place_transposed
       (ex_acc [MappingDimExpr 0, MappingDimExpr 1]) 2
     = Some (Failed (InPlaceLayoutConflict 12 (Some ''acc'')
                (Some (ex_layout [MappingDimExpr 1, MappingDimExpr 0]))
                (Some (ex_layout [MappingDimExpr 0, MappingDimExpr 1]))))
   \<and> \<not> ResultsInPlace ex_algebra ex_two_loops ex_in_place_transposed
       (ex_acc [MappingDimExpr 0, MappingDimExpr 1]) 2 [0..<getNumResults ex_in_place_transposed 2]
   \<and> \<not> SameLayoutInPlace ex_algebra ex_two_loops ex_in_place_transposed (ex_acc [MappingDimExpr 0, MappingDimExpr 1]) 2
          \<lparr>vs_space = Some ''memory'', vs_buffer_name = Some ''acc'', vs_layout = Some (ex_layout [MappingDimExpr 0, MappingDimExpr 1])\<rparr> ex_transposed
   \<and> (\<exists>outcome. VerifyInPlaceUpdate ex_algebra ex_two_loops ex_in_place_transposed
                    (ex_acc [MappingDimExpr 1, MappingDimExpr 0]) 2 = Some outcome)"
proof -
  let ?d = "InPlaceLayoutConflict 12 (Some ''acc'')
                (Some (ex_layout [MappingDimExpr 0, MappingDimExpr 1]))
                (Some (ex_layout [MappingDimExpr 1, MappingDimExpr 0]))"
  let ?e = "InPlaceLayoutConflict 12 (Some ''acc'')
                (Some (ex_layout [MappingDimExpr 1, MappingDimExpr 0]))
                (Some (ex_layout [MappingDimExpr 0, MappingDimExpr 1]))"
  let ?stored = "\<lparr>vs_space = Some ''memory'', vs_buffer_name = Some ''acc'', vs_layout = Some (ex_layout [MappingDimExpr 0, MappingDimExpr 1])\<rparr>"
  have permuted: "VerifyInPlaceUpdate ex_algebra ex_two_loops ex_in_place
       (ex_acc [MappingDimExpr 1, MappingDimExpr 0]) 2 = Some (Failed ?d)"
    by code_simp
  have same: "VerifyInPlaceUpdate ex_algebra ex_two_loops ex_in_place
       (ex_acc [MappingDimExpr 0, MappingDimExpr 1]) 2 = Some Succeeded"
    by code_simp
  have mapped: "VerifyInPlaceUpdate ex_algebra ex_two_loops ex_in_place_transposed
       (ex_acc [MappingDimExpr 1, MappingDimExpr 0]) 2 = Some Succeeded"
    by code_simp
  have unmapped: "VerifyInPlaceUpdate ex_algebra ex_two_loops ex_in_place_transposed
       (ex_acc [MappingDimExpr 0, MappingDimExpr 1]) 2 = Some (Failed ?e)"
    by code_simp
  have through:
    "(case vs_layout ?stored of
        None \<Rightarrow> Some ?stored
      | Some l \<Rightarrow>
          map_option (\<lambda>t. ?stored\<lparr>vs_layout := Some (Canonicalize ex_algebra
                                                          (Compose ex_algebra t l))\<rparr>)
            (TranslateMapping ex_two_loops 2 (getDefiningOp (va_value ex_transposed))
               (ResizeUseDomain ex_algebra
                  (Resize ex_algebra (va_mapping ex_transposed)
                     (length (op_domain (ops ex_in_place_transposed
                                           (getDefiningOp (va_value ex_transposed))))))
                  (length (op_domain (ops ex_in_place_transposed 2))))))
     = Some \<lparr>vs_space = Some ''memory'', vs_buffer_name = Some ''acc'',
             vs_layout = Some (ex_layout [MappingDimExpr 1, MappingDimExpr 0])\<rparr>"
    by code_simp
  have explicit:
    "\<not> (\<forall>operand_storage.
           ex_acc [MappingDimExpr 0, MappingDimExpr 1] (va_value ex_transposed) = Some operand_storage \<longrightarrow>
           vs_buffer_name operand_storage = vs_buffer_name ?stored \<longrightarrow>
           (case vs_layout operand_storage of
              None \<Rightarrow> vs_layout ?stored = None
            | Some l \<Rightarrow>
                (\<forall>t. TranslateMapping ex_two_loops 2 (getDefiningOp (va_value ex_transposed))
                       (ResizeUseDomain ex_algebra
                          (Resize ex_algebra (va_mapping ex_transposed)
                             (length (op_domain (ops ex_in_place_transposed
                                                   (getDefiningOp (va_value ex_transposed))))))
                          (length (op_domain (ops ex_in_place_transposed 2)))) = Some t \<longrightarrow>
                     vs_layout ?stored
                       = Some (Canonicalize ex_algebra (Compose ex_algebra t l)))))"
  proof -
    have "ex_acc [MappingDimExpr 0, MappingDimExpr 1] (va_value ex_transposed) = Some ?stored"
      by (simp add: ex_acc_def ex_transposed_def)
    moreover have "TranslateMapping ex_two_loops 2 (getDefiningOp (va_value ex_transposed))
                       (ResizeUseDomain ex_algebra
                          (Resize ex_algebra (va_mapping ex_transposed)
                             (length (op_domain (ops ex_in_place_transposed
                                                   (getDefiningOp (va_value ex_transposed))))))
                          (length (op_domain (ops ex_in_place_transposed 2))))
                   = Some (ex_layout [MappingDimExpr 1, MappingDimExpr 0])"
      by code_simp
    moreover have "vs_layout ?stored
                   \<noteq> Some (Canonicalize ex_algebra
                             (Compose ex_algebra (ex_layout [MappingDimExpr 1, MappingDimExpr 0])
                                (ex_layout [MappingDimExpr 0, MappingDimExpr 1])))"
      by code_simp
    ultimately show ?thesis by auto
  qed
  from permuted
  have 1: "\<not> ResultsInPlace ex_algebra ex_two_loops ex_in_place
       (ex_acc [MappingDimExpr 1, MappingDimExpr 0]) 2 [0..<getNumResults ex_in_place 2]
           \<and> diag_loc ?d = getLoc (ops ex_in_place 2)"
    using in_place_update_same_layout
            [where alg = ex_algebra and an = ex_two_loops and prog = ex_in_place
               and storages = "ex_acc [MappingDimExpr 1, MappingDimExpr 0]" and op = 2
               and outcome = "Failed ?d" and operand = ex_transposed and s = ValueStorage_default
               and result_storage = ValueStorage_default]
    by simp
  from same
  have 2: "ResultsInPlace ex_algebra ex_two_loops ex_in_place
       (ex_acc [MappingDimExpr 0, MappingDimExpr 1]) 2 [0..<getNumResults ex_in_place 2]"
    using in_place_update_same_layout
            [where alg = ex_algebra and an = ex_two_loops and prog = ex_in_place
               and storages = "ex_acc [MappingDimExpr 0, MappingDimExpr 1]" and op = 2
               and outcome = Succeeded and operand = ex_transposed and s = ValueStorage_default
               and result_storage = ValueStorage_default]
    by simp
  from through
  have 3: "MapOperand ex_algebra ex_two_loops ex_in_place_transposed 2 ex_transposed ?stored
           = Some \<lparr>vs_space = Some ''memory'', vs_buffer_name = Some ''acc'',
                   vs_layout = Some (ex_layout [MappingDimExpr 1, MappingDimExpr 0])\<rparr>"
    using in_place_update_same_layout
            [where alg = ex_algebra and an = ex_two_loops and prog = ex_in_place_transposed
               and storages = Map.empty and op = 2 and outcome = Succeeded
               and operand = ex_transposed and s = ?stored
               and result_storage = ValueStorage_default]
    by simp
  from mapped
  have 4: "ResultsInPlace ex_algebra ex_two_loops ex_in_place_transposed
       (ex_acc [MappingDimExpr 1, MappingDimExpr 0]) 2 [0..<getNumResults ex_in_place_transposed 2]"
    using in_place_update_same_layout
            [where alg = ex_algebra and an = ex_two_loops and prog = ex_in_place_transposed
               and storages = "ex_acc [MappingDimExpr 1, MappingDimExpr 0]" and op = 2
               and outcome = Succeeded and operand = ex_transposed and s = ValueStorage_default
               and result_storage = ValueStorage_default]
    by simp
  from unmapped
  have 5: "\<not> ResultsInPlace ex_algebra ex_two_loops ex_in_place_transposed
       (ex_acc [MappingDimExpr 0, MappingDimExpr 1]) 2 [0..<getNumResults ex_in_place_transposed 2]"
    using in_place_update_same_layout
            [where alg = ex_algebra and an = ex_two_loops and prog = ex_in_place_transposed
               and storages = "ex_acc [MappingDimExpr 0, MappingDimExpr 1]" and op = 2
               and outcome = "Failed ?e" and operand = ex_transposed and s = ValueStorage_default
               and result_storage = ValueStorage_default]
    by simp
  from explicit
  have 6: "\<not> SameLayoutInPlace ex_algebra ex_two_loops ex_in_place_transposed (ex_acc [MappingDimExpr 0, MappingDimExpr 1]) 2
             ?stored ex_transposed"
    using in_place_update_same_layout
            [where alg = ex_algebra and an = ex_two_loops and prog = ex_in_place_transposed
               and storages = "ex_acc [MappingDimExpr 0, MappingDimExpr 1]" and op = 2
               and outcome = Succeeded and operand = ex_transposed and s = ValueStorage_default
               and result_storage = ?stored]
    by simp
  have results: "\<forall>i < getNumResults ex_in_place_transposed 2.
                   ex_acc [MappingDimExpr 1, MappingDimExpr 0] (2, i) \<noteq> None"
  proof -
    have "getNumResults ex_in_place_transposed 2 = 1" by code_simp
    then show ?thesis by (simp add: ex_acc_def)
  qed
  have operands: "\<forall>operand \<in> set (ValueOperands (ops ex_in_place_transposed 2)). \<forall>s.
          ex_acc [MappingDimExpr 1, MappingDimExpr 0] (va_value operand) \<noteq> None \<and>
          MapOperand ex_algebra ex_two_loops ex_in_place_transposed 2 operand s \<noteq> None"
  proof -
    have o: "ValueOperands (ops ex_in_place_transposed 2) = [ex_transposed]" by code_simp
    have t: "TranslateMapping ex_two_loops to from m \<noteq> None" for to "from" m
      by (simp add: ex_two_loops_def ex_analyses_def)
    have "MapOperand ex_algebra ex_two_loops ex_in_place_transposed 2 ex_transposed s \<noteq> None"
      for s
      using t by (simp add: MapOperand_unfold split: option.splits)
    moreover have "ex_acc [MappingDimExpr 1, MappingDimExpr 0] (va_value ex_transposed) \<noteq> None"
      by (simp add: ex_acc_def ex_transposed_def)
    ultimately show ?thesis using o by simp
  qed
  from results operands
  have 7: "\<exists>outcome. VerifyInPlaceUpdate ex_algebra ex_two_loops ex_in_place_transposed
                       (ex_acc [MappingDimExpr 1, MappingDimExpr 0]) 2 = Some outcome"
    using in_place_update_same_layout
            [where alg = ex_algebra and an = ex_two_loops and prog = ex_in_place_transposed
               and storages = "ex_acc [MappingDimExpr 1, MappingDimExpr 0]" and op = 2
               and outcome = Succeeded and operand = ex_transposed and s = ValueStorage_default
               and result_storage = ValueStorage_default]
    by blast
  from permuted 1 same 2 3 mapped 4 unmapped 5 6 7 show ?thesis by (intro conjI) simp_all
qed

text \<open>
  C9, as the code has it.  The last loop of \<^verbatim>\<open>StorageAnalysis::Init\<close> compares each
  write to an external buffer with the operation that defines the memref value the
  import operation takes (\<^verbatim>\<open>import_op().MemRef().value().getDefiningOp()\<close>), not with
  the import operation.  When the loop returns, it succeeds exactly when no write to an
  external buffer comes before that defining operation; when it fails, the diagnostic
  "buffer ... used before it is defined" is emitted at a writing operation that comes
  before it, with the note "buffer defined here" at the defining operation.  The loop
  returns whenever the import operations of the table are \<^verbatim>\<open>FromToMemRefOp\<close>s.  Reads
  are not looked at: the result is the same whatever the reads of the buffers are.
\<close>

theorem external_writes_follow_definition:
  "(VerifyExternalBufferWrites prog buffers = Some outcome \<longrightarrow>
      (outcome = Succeeded \<longleftrightarrow> WritesFollowDefinition prog buffers) \<and>
      (\<forall>d. outcome = Failed d \<longrightarrow> UsedBeforeDefined prog buffers d))
   \<and> ((\<forall>(name, b) \<in> set buffers. \<forall>import. buf_import_op b = Some import \<longrightarrow>
          op_memref (ops prog import) \<noteq> None) \<longrightarrow>
       (\<exists>outcome. VerifyExternalBufferWrites prog buffers = Some outcome))
   \<and> VerifyExternalBufferWrites prog
        (map (\<lambda>(name, b). (name, b\<lparr>buf_reads := other_reads name b\<rparr>)) buffers)
      = VerifyExternalBufferWrites prog buffers"
proof (intro conjI impI allI)
  assume v: "VerifyExternalBufferWrites prog buffers = Some outcome"
  show "outcome = Succeeded \<longleftrightarrow> WritesFollowDefinition prog buffers"
  proof
    assume "outcome = Succeeded"
    with v show "WritesFollowDefinition prog buffers"
      by (simp add: VerifyExternalBufferWrites_Succeeded)
  next
    assume w: "WritesFollowDefinition prog buffers"
    show "outcome = Succeeded"
    proof (cases outcome)
      case Succeeded
      then show ?thesis .
    next
      case (Failed d)
      from VerifyExternalBufferWrites_Failed [OF v [unfolded Failed]] w
      show ?thesis by (simp add: UsedBeforeDefined_not_follow)
    qed
  qed
  fix d
  assume "outcome = Failed d"
  with v show "UsedBeforeDefined prog buffers d"
    by (simp add: VerifyExternalBufferWrites_Failed)
next
  assume "\<forall>(name, b) \<in> set buffers. \<forall>import. buf_import_op b = Some import \<longrightarrow>
          op_memref (ops prog import) \<noteq> None"
  then show "\<exists>outcome. VerifyExternalBufferWrites prog buffers = Some outcome"
    by (rule VerifyExternalBufferWrites_returns)
next
  show "VerifyExternalBufferWrites prog
        (map (\<lambda>(name, b). (name, b\<lparr>buf_reads := other_reads name b\<rparr>)) buffers)
      = VerifyExternalBufferWrites prog buffers"
    by (rule VerifyExternalBufferWrites_reads)
qed

text \<open>
  The claim as stated fails on a program that exports a value: the operation that
  computes the value, at position 2, writes to the buffer and comes before the
  \<^verbatim>\<open>to_memref\<close> operation, at position 3, that is the import operation of the buffer;
  the memref is defined at position 1, and the check succeeds.
\<close>

theorem write_before_import_counterexample:
  "buf_import_op (ex_exported ex_export (2, 0)) = Some 3
   \<and> buf_writes (ex_exported ex_export (2, 0)) = [(2, 0)]
   \<and> isBeforeInBlock 2 3
   \<and> VerifyExternalBufferWrites ex_export [(''out'', ex_exported ex_export (2, 0))]
       = Some Succeeded"
  by code_simp

theorem external_writes_follow_definition_witness:
  "WritesFollowDefinition ex_export [(''out'', ex_exported ex_export (2, 0))]
   \<and> \<not> WritesFollowDefinition ex_export_early [(''out'', ex_exported ex_export_early (1, 0))]
   \<and> UsedBeforeDefined ex_export_early [(''out'', ex_exported ex_export_early (1, 0))]
        \<lparr>diag_loc = 11,
         diag_message = [Str ''buffer '', Name (Some ''out''), Str '' used before it is defined''],
         diag_note = Some (12, ''buffer defined here'')\<rparr>
   \<and> (\<exists>outcome. VerifyExternalBufferWrites ex_export_early
                    [(''out'', ex_exported ex_export_early (1, 0))] = Some outcome)"
proof -
  let ?d = "\<lparr>diag_loc = 11,
             diag_message = [Str ''buffer '', Name (Some ''out''), Str '' used before it is defined''],
             diag_note = Some (12, ''buffer defined here'')\<rparr>"
  have ok: "VerifyExternalBufferWrites ex_export [(''out'', ex_exported ex_export (2, 0))]
              = Some Succeeded"
    by code_simp
  have early: "VerifyExternalBufferWrites ex_export_early
                 [(''out'', ex_exported ex_export_early (1, 0))] = Some (Failed ?d)"
    by code_simp
  have imps: "\<forall>(name, b) \<in> set [(''out'', ex_exported ex_export_early (1, 0))].
                   \<forall>import. buf_import_op b = Some import \<longrightarrow>
                     op_memref (ops ex_export_early import) \<noteq> None"
    by (simp add: ex_exported_def ex_export_early_def ex_program_def ex_to_memref_def
        AddValue_def Buffer_import_def Buffer_new_def Let_def)
  show ?thesis
    using external_writes_follow_definition
            [where prog = ex_export and buffers = "[(''out'', ex_exported ex_export (2, 0))]"
               and outcome = Succeeded]
          external_writes_follow_definition
            [where prog = ex_export_early
               and buffers = "[(''out'', ex_exported ex_export_early (1, 0))]"
               and outcome = "Failed ?d"]
          ok early imps
    by simp
qed

text \<open>
  C10.  Merging a null attribute succeeds and changes nothing, whatever the storage:
  \<^verbatim>\<open>MergeSpace\<close>, \<^verbatim>\<open>MergeBufferName\<close> and \<^verbatim>\<open>MergeLayout\<close> of null each return success
  and the storage they were given.  So \<^verbatim>\<open>UpdateStorage\<close> of a default-constructed
  storage succeeds and leaves the storage of the value and the table of buffers as they
  were.
\<close>

theorem merge_null_identity:
  "MergeSpace None s = (success, s)
   \<and> MergeBufferName None s = (success, s)
   \<and> MergeLayout None s = (success, s)
   \<and> UpdateStorage alg an prog v ValueStorage_default s buffers = Some (Succeeded, s, buffers)"
  by (simp add: MergeSpace_def MergeBufferName_def MergeLayout_def UpdateStorage_def
      RegisterBufferUse_def ValueStorage_default_def)

end
